theory Spec2Isabelle
  imports Main "HOL-Library.Sublist"
begin

section \<open>The device power-management core: \<open>drivers/base/power/main.c\<close>\<close>

text \<open>
  A shallow embedding of the suspend/resume transition engine. A device pointer is a
  natural number (its address); the five list heads are lists of such pointers, the
  first element being \<open>head.next\<close> and the last one \<open>head.prev\<close>. Every function takes
  the global state of the file and returns the new one. The callbacks of drivers, buses,
  classes, types and power domains, and the queries answered by other subsystems, are
  external code: they are read from an environment record.

  Error codes are values of type \<open>int\<close>: the file only compares them (with zero,
  with \<open>-EAGAIN\<close>) and never computes with them.
\<close>

subsection \<open>Constants of headers outside this file\<close>

text \<open>\<open>EAGAIN\<close> and \<open>EBUSY\<close> of \<open>errno-base.h\<close>.\<close>

definition EAGAIN :: int where
  "EAGAIN = 11"

definition EBUSY :: int where
  "EBUSY = 16"

text \<open>
  The events of \<open>pm_message_t\<close> (\<open>linux/pm.h\<close>). The named events are the constructors;
  any other value of the \<open>int\<close> field is \<open>PM_EVENT_OTHER\<close>.
\<close>

datatype pm_event =
    PM_EVENT_ON
  | PM_EVENT_FREEZE
  | PM_EVENT_SUSPEND
  | PM_EVENT_HIBERNATE
  | PM_EVENT_QUIESCE
  | PM_EVENT_RESUME
  | PM_EVENT_THAW
  | PM_EVENT_RESTORE
  | PM_EVENT_RECOVER
  | PM_EVENT_OTHER int

record pm_message_t =
  event :: pm_event

definition PMSG_ON :: pm_message_t where
  "PMSG_ON = \<lparr>event = PM_EVENT_ON\<rparr>"

definition PMSG_SUSPEND :: pm_message_t where
  "PMSG_SUSPEND = \<lparr>event = PM_EVENT_SUSPEND\<rparr>"

definition PMSG_RESUME :: pm_message_t where
  "PMSG_RESUME = \<lparr>event = PM_EVENT_RESUME\<rparr>"

definition PMSG_RECOVER :: pm_message_t where
  "PMSG_RECOVER = \<lparr>event = PM_EVENT_RECOVER\<rparr>"

definition PMSG_RESTORE :: pm_message_t where
  "PMSG_RESTORE = \<lparr>event = PM_EVENT_RESTORE\<rparr>"

subsection \<open>Callback tables and devices\<close>

text \<open>
  A function pointer is the address of the function, \<open>None\<close> being \<open>NULL\<close>. What the
  function returns when it is called is given by the environment.
\<close>

type_synonym pm_callback_t = "nat option"

record dev_pm_ops =
  prepare :: pm_callback_t
  complete :: pm_callback_t
  suspend :: pm_callback_t
  resume :: pm_callback_t
  freeze :: pm_callback_t
  thaw :: pm_callback_t
  poweroff :: pm_callback_t
  restore :: pm_callback_t
  suspend_late :: pm_callback_t
  resume_early :: pm_callback_t
  freeze_late :: pm_callback_t
  thaw_early :: pm_callback_t
  poweroff_late :: pm_callback_t
  restore_early :: pm_callback_t
  suspend_noirq :: pm_callback_t
  resume_noirq :: pm_callback_t
  freeze_noirq :: pm_callback_t
  thaw_noirq :: pm_callback_t
  poweroff_noirq :: pm_callback_t
  restore_noirq :: pm_callback_t

record dev_pm_domain =
  domain_ops :: dev_pm_ops

record device_type =
  type_pm :: "dev_pm_ops option"

record device_class =
  class_pm :: "dev_pm_ops option"
  class_suspend :: pm_callback_t
  class_resume :: pm_callback_t

record bus_type =
  bus_pm :: "dev_pm_ops option"
  bus_suspend :: pm_callback_t
  bus_resume :: pm_callback_t

record device_driver =
  driver_pm :: "dev_pm_ops option"
  driver_suspend :: pm_callback_t
  driver_resume :: pm_callback_t

text \<open>
  \<open>struct dev_pm_info\<close>, the fields this file reads or writes. \<open>completion\<close> is true when
  the completion has been completed (\<open>complete_all\<close>) and false after
  \<open>reinit_completion\<close>. \<open>wakeup\<close> is the wakeup source pointer. The member
  \<open>async_suspend\<close> is \<open>power_async_suspend\<close> here, since the file also has a function
  of that name.
\<close>

record dev_pm_info =
  can_wakeup :: bool
  power_async_suspend :: bool
  in_dpm_list :: bool
  is_prepared :: bool
  is_suspended :: bool
  is_noirq_suspended :: bool
  is_late_suspended :: bool
  no_pm :: bool
  ignore_children :: bool
  direct_complete :: bool
  wakeup_path :: bool
  syscore :: bool
  no_pm_callbacks :: bool
  completion :: bool
  wakeup :: "nat option"

text \<open>
  \<open>struct device\<close>. \<open>dev_suppliers\<close> lists the \<open>supplier\<close> pointers of the links on
  \<open>dev->links.suppliers\<close>, in list order.
\<close>

record device =
  dev_name :: string
  dev_parent :: "nat option"
  dev_pm_domain :: "dev_pm_domain option"
  dev_type :: "device_type option"
  dev_class :: "device_class option"
  dev_bus :: "bus_type option"
  dev_driver :: "device_driver option"
  dev_suppliers :: "nat list"
  dev_power :: dev_pm_info

subsection \<open>The global state of the file\<close>

text \<open>
  Modelled from the spec: \<open>struct suspend_stats\<close> and its helpers \<open>dpm_save_failed_dev\<close>
  and \<open>dpm_save_failed_step\<close> are declared in \<open>linux/suspend.h\<close>, which is not part of
  the sources at hand. The spec describes the record as counts per phase, the last
  failing device name and the last failing step identifier. The counters are C \<open>int\<close>s
  and are incremented, so they are 32-bit integers written as \<open>int\<close> with the
  wrap-around spelled out in \<open>incr\<close>.
\<close>

datatype suspend_stat_step =
    SUSPEND_NO_STEP
  | SUSPEND_PREPARE
  | SUSPEND_SUSPEND
  | SUSPEND_SUSPEND_LATE
  | SUSPEND_SUSPEND_NOIRQ
  | SUSPEND_RESUME_NOIRQ
  | SUSPEND_RESUME_EARLY
  | SUSPEND_RESUME

record suspend_stats_t =
  failed_prepare :: int
  failed_suspend :: int
  failed_suspend_late :: int
  failed_suspend_noirq :: int
  failed_resume :: int
  failed_resume_early :: int
  failed_resume_noirq :: int
  last_failed_dev :: string
  last_failed_step :: suspend_stat_step

definition incr :: "int \<Rightarrow> int" where
  "incr n = (if n = 2147483647 then - 2147483648 else n + 1)"

text \<open>
  What the file does to the outside world, in the order it happens: its tracepoints, the
  calls of callbacks, the error lines of \<open>pm_dev_err\<close> and the calls into other
  subsystems that bracket a phase. The other messages, timing reports, the watchdog
  timer, reference counts, locks and the runtime-PM usage counters are left out: nothing
  in this file reads them back.
\<close>

datatype trace_event =
    Trace_suspend_resume string pm_event bool
  | Trace_device_pm_callback_start nat "string option" pm_event
  | Trace_device_pm_callback_end nat int
  | Callback nat nat
  | Legacy_callback nat nat pm_event
  | Pm_dev_err nat pm_event string int
  | Ext string

text \<open>The six functions handed to \<open>async_schedule\<close>.\<close>

datatype async_func =
    ASYNC_RESUME_NOIRQ
  | ASYNC_RESUME_EARLY
  | ASYNC_RESUME
  | ASYNC_SUSPEND_NOIRQ
  | ASYNC_SUSPEND_LATE
  | ASYNC_SUSPEND

record dpm_state =
  devices :: "nat \<Rightarrow> device"
  dpm_list :: "nat list"
  dpm_prepared_list :: "nat list"
  dpm_suspended_list :: "nat list"
  dpm_late_early_list :: "nat list"
  dpm_noirq_list :: "nat list"
  suspend_stats :: suspend_stats_t
  pm_transition :: pm_message_t
  async_error :: int
  async_pending :: "(async_func \<times> nat) list"
  trace :: "trace_event list"

text \<open>
  The environment: kernel configuration, module parameters, and the answers of code
  outside this file. An answer may depend on the whole state at the moment of the call.
  A callback is assumed not to change the state of this file (it does not register,
  remove or reorder devices while it runs).
  \<open>pm_runtime_status_suspended\<close> takes a flag telling whether \<open>pm_runtime_disable\<close> has
  been called in between, since that call may resume the device.
  \<open>scheduler\<close> stands for the scheduling of the worker threads that run the calls handed
  to \<open>async_schedule\<close>: at a point where the main thread does not hold \<open>dpm_list_mtx\<close>,
  in the state at that point, it tells of each pending call whether it runs to its end there.
\<close>

record env =
  CONFIG_SUSPEND :: bool
  CONFIG_HIBERNATE_CALLBACKS :: bool
  pm_async_enabled :: bool
  pm_trace_is_enabled :: bool
  pm_wakeup_pending :: "dpm_state \<Rightarrow> bool"
  pm_runtime_status_suspended :: "nat \<Rightarrow> bool \<Rightarrow> dpm_state \<Rightarrow> bool"
  cb_ret :: "nat \<Rightarrow> nat \<Rightarrow> dpm_state \<Rightarrow> int"
  legacy_ret :: "nat \<Rightarrow> nat \<Rightarrow> pm_message_t \<Rightarrow> dpm_state \<Rightarrow> int"
  scheduler :: "dpm_state \<Rightarrow> async_func \<times> nat \<Rightarrow> bool"

subsection \<open>Primitive state updates\<close>

definition pwr :: "dpm_state \<Rightarrow> nat \<Rightarrow> dev_pm_info" where
  "pwr s d = dev_power (devices s d)"

definition upd_power :: "nat \<Rightarrow> (dev_pm_info \<Rightarrow> dev_pm_info) \<Rightarrow> dpm_state \<Rightarrow> dpm_state" where
  "upd_power d f s =
     s\<lparr>devices := (devices s)(d := (devices s d)\<lparr>dev_power := f (dev_power (devices s d))\<rparr>)\<rparr>"

definition emit :: "trace_event \<Rightarrow> dpm_state \<Rightarrow> dpm_state" where
  "emit e s = s\<lparr>trace := trace s @ [e]\<rparr>"

definition complete_all :: "nat \<Rightarrow> dpm_state \<Rightarrow> dpm_state" where
  "complete_all d s = upd_power d (\<lambda>p. p\<lparr>completion := True\<rparr>) s"

definition reinit_completion :: "nat \<Rightarrow> dpm_state \<Rightarrow> dpm_state" where
  "reinit_completion d s = upd_power d (\<lambda>p. p\<lparr>completion := False\<rparr>) s"

definition upd_stats :: "(suspend_stats_t \<Rightarrow> suspend_stats_t) \<Rightarrow> dpm_state \<Rightarrow> dpm_state" where
  "upd_stats f s = s\<lparr>suspend_stats := f (suspend_stats s)\<rparr>"

text \<open>Modelled from the spec: records the name of the last failing device.\<close>

definition dpm_save_failed_dev :: "string \<Rightarrow> dpm_state \<Rightarrow> dpm_state" where
  "dpm_save_failed_dev name s = upd_stats (\<lambda>t. t\<lparr>last_failed_dev := name\<rparr>) s"

text \<open>Modelled from the spec: records the identifier of the last failing step.\<close>

definition dpm_save_failed_step :: "suspend_stat_step \<Rightarrow> dpm_state \<Rightarrow> dpm_state" where
  "dpm_save_failed_step step s = upd_stats (\<lambda>t. t\<lparr>last_failed_step := step\<rparr>) s"

definition pm_dev_err :: "nat \<Rightarrow> pm_message_t \<Rightarrow> string \<Rightarrow> int \<Rightarrow> dpm_state \<Rightarrow> dpm_state" where
  "pm_dev_err d state info error s = emit (Pm_dev_err d (event state) info error) s"

text \<open>
  \<open>device_may_wakeup\<close> (\<open>linux/pm_wakeup.h\<close>): the device can wake the system up and
  has a wakeup source.
\<close>

definition device_may_wakeup :: "dpm_state \<Rightarrow> nat \<Rightarrow> bool" where
  "device_may_wakeup s d = (can_wakeup (pwr s d) \<and> wakeup (pwr s d) \<noteq> None)"

text \<open>\<open>device_pm_not_required\<close> and \<open>device_pm_initialized\<close> (\<open>power.h\<close>) read one flag each.\<close>

definition device_pm_not_required :: "dpm_state \<Rightarrow> nat \<Rightarrow> bool" where
  "device_pm_not_required s d = no_pm (pwr s d)"

definition device_pm_initialized :: "dpm_state \<Rightarrow> nat \<Rightarrow> bool" where
  "device_pm_initialized s d = in_dpm_list (pwr s d)"

subsection \<open>The list heads\<close>

text \<open>
  A \<open>struct list_head\<close> entry is on one list at most, so unlinking it removes the device
  from whichever of the five lists holds it. \<open>entry_empty\<close> is
  \<open>list_empty(&dev->power.entry)\<close>: the entry is on no list.
\<close>

datatype list_id = DPM_LIST | DPM_PREPARED_LIST | DPM_SUSPENDED_LIST | DPM_LATE_EARLY_LIST | DPM_NOIRQ_LIST

definition get_list :: "list_id \<Rightarrow> dpm_state \<Rightarrow> nat list" where
  "get_list l s = (case l of
       DPM_LIST \<Rightarrow> dpm_list s
     | DPM_PREPARED_LIST \<Rightarrow> dpm_prepared_list s
     | DPM_SUSPENDED_LIST \<Rightarrow> dpm_suspended_list s
     | DPM_LATE_EARLY_LIST \<Rightarrow> dpm_late_early_list s
     | DPM_NOIRQ_LIST \<Rightarrow> dpm_noirq_list s)"

definition set_list :: "list_id \<Rightarrow> nat list \<Rightarrow> dpm_state \<Rightarrow> dpm_state" where
  "set_list l xs s = (case l of
       DPM_LIST \<Rightarrow> s\<lparr>dpm_list := xs\<rparr>
     | DPM_PREPARED_LIST \<Rightarrow> s\<lparr>dpm_prepared_list := xs\<rparr>
     | DPM_SUSPENDED_LIST \<Rightarrow> s\<lparr>dpm_suspended_list := xs\<rparr>
     | DPM_LATE_EARLY_LIST \<Rightarrow> s\<lparr>dpm_late_early_list := xs\<rparr>
     | DPM_NOIRQ_LIST \<Rightarrow> s\<lparr>dpm_noirq_list := xs\<rparr>)"

definition entry_empty :: "dpm_state \<Rightarrow> nat \<Rightarrow> bool" where
  "entry_empty s d =
     (d \<notin> set (dpm_list s) \<and> d \<notin> set (dpm_prepared_list s) \<and> d \<notin> set (dpm_suspended_list s)
      \<and> d \<notin> set (dpm_late_early_list s) \<and> d \<notin> set (dpm_noirq_list s))"

definition list_del :: "nat \<Rightarrow> dpm_state \<Rightarrow> dpm_state" where
  "list_del d s =
     s\<lparr>dpm_list := removeAll d (dpm_list s),
       dpm_prepared_list := removeAll d (dpm_prepared_list s),
       dpm_suspended_list := removeAll d (dpm_suspended_list s),
       dpm_late_early_list := removeAll d (dpm_late_early_list s),
       dpm_noirq_list := removeAll d (dpm_noirq_list s)\<rparr>"

definition list_add :: "nat \<Rightarrow> list_id \<Rightarrow> dpm_state \<Rightarrow> dpm_state" where
  "list_add d l s = set_list l (d # get_list l s) s"

definition list_add_tail :: "nat \<Rightarrow> list_id \<Rightarrow> dpm_state \<Rightarrow> dpm_state" where
  "list_add_tail d l s = set_list l (get_list l s @ [d]) s"

definition list_move :: "nat \<Rightarrow> list_id \<Rightarrow> dpm_state \<Rightarrow> dpm_state" where
  "list_move d l s = list_add d l (list_del d s)"

definition list_move_tail :: "nat \<Rightarrow> list_id \<Rightarrow> dpm_state \<Rightarrow> dpm_state" where
  "list_move_tail d l s = list_add_tail d l (list_del d s)"

text \<open>
  The two moves relative to another entry. The new entry goes before, or after, the place
  of \<open>b\<close> in the list that holds \<open>b\<close>; when \<open>b\<close> is on none of the five lists, neither is
  \<open>a\<close> afterwards.
\<close>

fun insert_before :: "nat \<Rightarrow> nat \<Rightarrow> nat list \<Rightarrow> nat list" where
  "insert_before a b [] = []"
| "insert_before a b (x # xs) = (if x = b then a # x # xs else x # insert_before a b xs)"

fun insert_after :: "nat \<Rightarrow> nat \<Rightarrow> nat list \<Rightarrow> nat list" where
  "insert_after a b [] = []"
| "insert_after a b (x # xs) = (if x = b then x # a # xs else x # insert_after a b xs)"

definition map_lists :: "(nat list \<Rightarrow> nat list) \<Rightarrow> dpm_state \<Rightarrow> dpm_state" where
  "map_lists f s =
     s\<lparr>dpm_list := f (dpm_list s),
       dpm_prepared_list := f (dpm_prepared_list s),
       dpm_suspended_list := f (dpm_suspended_list s),
       dpm_late_early_list := f (dpm_late_early_list s),
       dpm_noirq_list := f (dpm_noirq_list s)\<rparr>"

definition list_move_tail_entry :: "nat \<Rightarrow> nat \<Rightarrow> dpm_state \<Rightarrow> dpm_state" where
  "list_move_tail_entry a b s = map_lists (insert_before a b) (list_del a s)"

definition list_move_entry :: "nat \<Rightarrow> nat \<Rightarrow> dpm_state \<Rightarrow> dpm_state" where
  "list_move_entry a b s = map_lists (insert_after a b) (list_del a s)"

subsection \<open>The suspend deny list\<close>

text \<open>The table \<open>suspend_deny_list\<close> of \<open>main.c\<close>, entry by entry.\<close>

definition suspend_deny_list :: "string list" where
  "suspend_deny_list = [
    ''cpu0'', ''cpu1'', ''cpu2'', ''cpu3'', ''cpu4'', ''cpu5'', ''cpu6'', ''cpu7'', ''vtcon0'',
    ''slimbus'', ''ac000000.ramoops'', ''pmsg0'', ''soc'', ''soc:smp2p-mpss'',
    ''soc:smp2p-lpass'', ''soc:smp2p-slpi'', ''10f004.qcom,gdsc'', ''16b004.qcom,gdsc'',
    ''175004.qcom,gdsc'', ''17d034.qcom,gdsc'', ''17d038.qcom,gdsc'', ''c8ce024.syscon'',
    ''c8c1024.qcom,gdsc'', ''c8c1040.qcom,gdsc'', ''c8c1044.qcom,gdsc'', ''c8c34a0.qcom,gdsc'',
    ''c8c3664.qcom,gdsc'', ''c8c3674.qcom,gdsc'', ''c8c36d4.qcom,gdsc'', ''c8c2304.qcom,gdsc'',
    ''5066008.syscon'', ''5066004.qcom,gdsc'', ''5065130.syscon'', ''5066090.syscon'',
    ''soc:timer'', ''10ac000.restart'', ''778000.memory'', ''1f40000.syscon'', ''soc:hwlock'',
    ''1d00000.syscon'', ''17911000.mailbox'', ''1d0501c.mailbox'', ''soc:qcom,smem'',
    ''soc:qcom,smp2p_sleepstate'', ''soc:qcom,qsee_irq'', ''soc:qcom,qsee_irq_bridge'',
    ''soc:qcom,rpm-smd'', ''soc:rpm-glink'', ''soc:rpm-glink.rpmsg_ctrl.0.0'',
    ''soc:rpm-glink.rpm_requests.-1.-1'', ''soc:qcom,rpm-smd:qcom,rpmcc'',
    ''800f000.qcom,spmi'', ''soc:qcom,sps'', ''msm_sps'', ''spmi-0'', ''spmi0-00'',
    ''c1b0000.serial'', ''soc:qcom,glink'', ''800f000.qcom,spmi:qcom,pm8998@0:qcom,revid@100'',
    ''171c0000.slim'', ''800f000.qcom,spmi:qcom,pm8998@0:qcom,power-on@800'',
    ''17240000.slim'', ''17920000.timer'', ''soc:ddr-bw-opp-table'', ''soc:qcom,cpubw'',
    ''1008000.qcom,cpu-bwmon'', ''soc:qcom,mincpubw'', ''soc:qcom,memlat-cpu0'',
    ''soc:qcom,memlat-cpu4'', ''800f000.qcom,spmi:qcom,pm8998@0:pinctrl@c000'',
    ''soc:qcom,arm-memlat-mon-0'', ''800f000.qcom,spmi:qcom,pm8998@0:qcom,coincell@2800'',
    ''soc:qcom,arm-memlat-mon-4'', ''800f000.qcom,spmi:qcom,pm8998@0:qcom,pm8998_rtc'',
    ''800f000.qcom,spmi:qcom,pm8998@0:adc@3100'', ''soc:arm64-cpu-erp'',
    ''800f000.qcom,spmi:qcom,pm8998@0:clock-controller@5b00'', ''spmi0-01'',
    ''800f000.qcom,spmi:qcom,pm8998@1:regulator@2f00'', ''c8c0000.vote-clock-controller'',
    ''regulator.1'', ''800f000.qcom,spmi:qcom,pm8998@1:regulator@3800'',
    ''0.qcom,rmtfs_sharedmem'', ''soc:qcom,msm_gsi'', ''soc:qcom,rmnet-ipa'', ''regulator.2'',
    ''spmi0-02'', ''1e00000.qcom,ipa'', ''soc:qcom,ipa_fws@1e08000'', ''soc:qcom,chd_silver'',
    ''800f000.qcom,spmi:qcom,pmi8998@2:qcom,revid@100'', ''soc:qcom,chd_gold'',
    ''800f000.qcom,spmi:qcom,pmi8998@2:qcom,misc@900'', ''soc:qcom,ghd'',
    ''17900000.qcom,msm-gladiator-v2'', ''800f000.qcom,spmi:qcom,pmi8998@2:qcom,power-on@800'',
    ''soc:qcom,glink_pkt'', ''soc:qcom,msm-adsprpc-mem'', ''soc:qcom,msm_fastrpc'',
    ''soc:qcom,spcom'', ''soc:qcom,spss_utils'', ''1da7000.ufsphy'', ''1db0000.ufsice'',
    ''800f000.qcom,spmi:qcom,pmi8998@2:pinctrl@c000'', ''1da4000.ufshc'', ''c012000.qusb'',
    ''c010000.ssphy'', ''soc:usb_audio_qmi_dev'',
    ''800f000.qcom,spmi:qcom,pmi8998@2:qcom,qpnp-qnovo@1500'', ''soc:usb_nop_phy'',
    ''soc:qcom,rpm-smd:rpm-regulator-smpa1'', ''17300000.qcom,lpass'',
    ''soc:qcom,rpm-smd:rpm-regulator-smpa1:regulator-s1-level'', ''soc:qcom,memshare'',
    ''regulator.3'', ''soc:qcom,rpm-smd:rpm-regulator-smpa1:regulator-s1-floor-level'',
    ''4080000.qcom,mss'', ''regulator.4'',
    ''soc:qcom,rpm-smd:rpm-regulator-smpa1:regulator-s1-level-ao'', ''10aa000.tsens'',
    ''regulator.5'', ''10ad000.tsens'',
    ''soc:qcom,rpm-smd:rpm-regulator-smpa1:regulator-cx-cdev'', ''86600000.qseecom'',
    ''soc:qcom,rpm-smd:rpm-regulator-smpa2'', ''86600000.smcinvoke'',
    ''soc:qcom,rpm-smd:rpm-regulator-smpa2:regulator-s2'', ''146bf720.tz-log'',
    ''regulator.6'', ''soc:qcom,msm_hdcp'', ''soc:qcom,rpm-smd:rpm-regulator-smpa3'',
    ''1de0000.qcrypto'', ''soc:qcom,rpm-smd:rpm-regulator-smpa3:regulator-s3'',
    ''1de0000.qcedev'', ''regulator.7'', ''793000.qrng'',
    ''soc:qcom,rpm-smd:rpm-regulator-smpa4'', ''soc:qcom,bcl'',
    ''soc:qcom,rpm-smd:rpm-regulator-smpa4:regulator-s4'', ''regulator.8'',
    ''5c00000.qcom,ssc'', ''soc:qcom,rpm-smd:rpm-regulator-smpa5'', ''cce0000.qcom,venus'',
    ''soc:qcom,rpm-smd:rpm-regulator-smpa5:regulator-s5'', ''17817000.qcom,wdt'',
    ''800f000.qcom,spmi:qcom,pmi8998@2:qcom,qpnp-smb2'', ''regulator.9'',
    ''soc:qcom,rpm-smd:rpm-regulator-smpa7'',
    ''soc:qcom,rpm-smd:rpm-regulator-smpa7:regulator-s7'',
    ''800f000.qcom,spmi:qcom,pmi8998@2:bcl@4200'',
    ''800f000.qcom,spmi:qcom,pmi8998@2:rradc@4500'',
    ''800f000.qcom,spmi:qcom,pmi8998@2:gpio-leds'', ''spmi0-03'',
    ''800f000.qcom,spmi:qcom,pmi8998@3:qcom,pwms@b100'',
    ''800f000.qcom,spmi:qcom,pmi8998@3:pwm@b300'',
    ''800f000.qcom,spmi:qcom,pmi8998@3:pwm@b400'',
    ''800f000.qcom,spmi:qcom,pmi8998@3:pwm@b500'',
    ''800f000.qcom,spmi:qcom,pmi8998@3:qcom,leds@d000'',
    ''800f000.qcom,spmi:qcom,pmi8998@3:qcom,leds@d800'',
    ''800f000.qcom,spmi:qcom,pmi8998@3:qcom,leds@d300'',
    ''800f000.qcom,spmi:qcom,pmi8998@3:qcom,haptics@c000'', ''spmi0-04'',
    ''800f000.qcom,spmi:qcom,pm8005@4:qcom,revid@100'',
    ''800f000.qcom,spmi:qcom,pm8005@4:qcom,temp-alarm@2400'',
    ''800f000.qcom,spmi:qcom,pm8005@4:pinctrl@c000'', ''spmi0-05'',
    ''800f000.qcom,spmi:qcom,pm8005@5:regulator@1400'', ''regulator.10'', ''regulator.11'',
    ''soc:qcom,rpm-smd:rpm-regulator-smpa8'',
    ''soc:qcom,rpm-smd:rpm-regulator-smpa8:regulator-s8'', ''regulator.12'',
    ''soc:qcom,rpm-smd:rpm-regulator-smpa9'',
    ''soc:qcom,rpm-smd:rpm-regulator-smpa9:regulator-s9-level'', ''regulator.13'',
    ''soc:qcom,rpm-smd:rpm-regulator-smpa9:regulator-s9-floor-level'', ''regulator.14'',
    ''soc:qcom,rpm-smd:rpm-regulator-smpa9:regulator-s9-level-ao'', ''regulator.15'',
    ''1d0101c.qcom,spss'', ''soc:qcom,rpm-smd:rpm-regulator-smpa9:regulator-mx-cdev'',
    ''soc:qcom,msm-rtb'', ''soc:qcom,rpm-smd:rpm-regulator-ldoa1'',
    ''10a3000.qcom,mpm2-sleep-counter'', ''soc:qcom,rpm-smd:rpm-regulator-ldoa1:regulator-l1'',
    ''146bf000.qcom,msm-imem'', ''soc:cpu-pmu'', ''regulator.16'', ''soc:cpuss_dump'',
    ''soc:qcom,rpm-smd:rpm-regulator-ldoa2'', ''soc:qcom,msm-ssc-sensors'',
    ''soc:qcom,rpm-smd:rpm-regulator-ldoa2:regulator-l2'', ''10b3000.dcc'', ''regulator.17'',
    ''soc:qcom,rpm-smd:rpm-regulator-ldoa3'',
    ''soc:qcom,rpm-smd:rpm-regulator-ldoa3:regulator-l3'', ''regulator.18'',
    ''18800000.qcom,icnss'', ''soc:qcom,rpm-smd:rpm-regulator-ldoa4'',
    ''soc:qcom,rpm-smd:rpm-regulator-ldoa4:regulator-l4-level'', ''c1e7000.msm_tspp'',
    ''regulator.19'', ''soc:qcom,wil6210'',
    ''soc:qcom,rpm-smd:rpm-regulator-ldoa4:regulator-l4-floor-level'', ''soc:wcd9xxx-irq'',
    ''soc:qmi-tmd-devices'', ''regulator.20'', ''soc:qcom,rpm-smd:rpm-regulator-ldoa5'',
    ''soc:qcom,rpm-smd:rpm-regulator-ldoa5:regulator-l5'', ''regulator.21'',
    ''soc:qcom,rpm-smd:rpm-regulator-ldoa6'',
    ''soc:qcom,rpm-smd:rpm-regulator-ldoa6:regulator-l6'', ''1fcf004.regulator'',
    ''regulator.22'', ''regulator.23'', ''17812000.qcom,spm'',
    ''soc:qcom,rpm-smd:rpm-regulator-ldoa7'',
    ''soc:qcom,rpm-smd:rpm-regulator-ldoa7:regulator-l7'', ''regulator.24'',
    ''17912000.qcom,spm'', ''soc:qcom,rpm-smd:rpm-regulator-ldoa7:regulator-l7-pin-ctrl'',
    ''regulator.25'', ''soc:qcom,rpm-smd:rpm-regulator-ldoa8'', ''soc:qcom,lpm-levels'',
    ''soc:qcom,rpm-smd:rpm-regulator-ldoa8:regulator-l8'', ''200000.qcom,rpm-stats'',
    ''regulator.26'', ''200000.qcom,rpm-rail-stats'', ''soc:qcom,rpm-smd:rpm-regulator-ldoa9'',
    ''200000.qcom,rpm-log'', ''soc:qcom,rpm-smd:rpm-regulator-ldoa9:regulator-l9'',
    ''778150.qcom,rpm-master-stats'', ''regulator.27'',
    ''soc:qcom,rpm-smd:rpm-regulator-ldoa10'',
    ''soc:qcom,rpm-smd:rpm-regulator-ldoa10:regulator-l10'', ''regulator.28'',
    ''soc:qcom,rpm-smd:rpm-regulator-ldoa11'',
    ''soc:qcom,rpm-smd:rpm-regulator-ldoa11:regulator-l11'', ''regulator.29'',
    ''soc:qcom,rpm-smd:rpm-regulator-ldoa12'',
    ''soc:qcom,rpm-smd:rpm-regulator-ldoa12:regulator-l12'', ''regulator.30'',
    ''soc:qcom,rpm-smd:rpm-regulator-ldoa13'',
    ''soc:qcom,rpm-smd:rpm-regulator-ldoa13:regulator-l13'', ''regulator.31'',
    ''soc:qcom,rpm-smd:rpm-regulator-ldoa14'',
    ''soc:qcom,rpm-smd:rpm-regulator-ldoa14:regulator-l14'', ''regulator.32'',
    ''soc:qcom,rpm-smd:rpm-regulator-ldoa15'',
    ''soc:qcom,rpm-smd:rpm-regulator-ldoa15:regulator-l15'', ''regulator.33'',
    ''soc:qcom,rpm-smd:rpm-regulator-ldoa16'',
    ''soc:qcom,rpm-smd:rpm-regulator-ldoa16:regulator-l16'', ''soc:iommu_test_device'',
    ''soc:iommu_coherent_test_device'', ''regulator.34'', ''soc:qcom,ion'',
    ''soc:qcom,rpm-smd:rpm-regulator-ldoa17'', ''8c0000.qcom,msm-cam'',
    ''soc:qcom,rpm-smd:rpm-regulator-ldoa17:regulator-l17'', ''ca34000.qcom,csiphy'',
    ''regulator.35'', ''ca35000.qcom,csiphy'',
    ''soc:qcom,rpm-smd:rpm-regulator-ldoa17:regulator-l17-pin-ctrl'', ''ca36000.qcom,csiphy'',
    ''regulator.36'', ''soc:qcom,rpm-smd:rpm-regulator-ldoa18'', ''ca30000.qcom,csid'',
    ''soc:qcom,rpm-smd:rpm-regulator-ldoa18:regulator-l18'', ''ca30400.qcom,csid'',
    ''regulator.37'', ''ca30800.qcom,csid'', ''soc:qcom,rpm-smd:rpm-regulator-ldoa19'',
    ''soc:qcom,rpm-smd:rpm-regulator-ldoa19:regulator-l19'', ''ca30c00.qcom,csid'',
    ''soc:qcom,cam_smmu'', ''regulator.38'', ''soc:qcom,rpm-smd:rpm-regulator-ldoa20'',
    ''caa4000.qcom,fd'', ''soc:qcom,rpm-smd:rpm-regulator-ldoa20:regulator-l20'',
    ''ca04000.qcom,cpp'', ''regulator.39'', ''ca31000.qcom,ispif'',
    ''soc:qcom,rpm-smd:rpm-regulator-ldoa21'',
    ''soc:qcom,rpm-smd:rpm-regulator-ldoa21:regulator-l21'', ''ca10000.qcom,vfe0'',
    ''regulator.40'', ''ca14000.qcom,vfe1'', ''soc:qcom,rpm-smd:rpm-regulator-ldoa22'',
    ''soc:qcom,vfe'', ''soc:qcom,rpm-smd:rpm-regulator-ldoa22:regulator-l22'',
    ''ca0c000.qcom,cci'', ''regulator.41'', ''ca1c000.qcom,jpeg'',
    ''soc:qcom,rpm-smd:rpm-regulator-ldoa23'',
    ''soc:qcom,rpm-smd:rpm-regulator-ldoa23:regulator-l23'', ''caa0000.qcom,jpeg'',
    ''regulator.42'', ''cc00000.qcom,vidc'', ''soc:qcom,rpm-smd:rpm-regulator-ldoa24'',
    ''c880000.qcom,vmem'', ''soc:qcom,rpm-smd:rpm-regulator-ldoa24:regulator-l24'',
    ''6048000.tmc'', ''regulator.43'', ''6046000.replicator'',
    ''soc:qcom,rpm-smd:rpm-regulator-ldoa25'', ''6047000.tmc'',
    ''soc:qcom,rpm-smd:rpm-regulator-ldoa25:regulator-l25'', ''6045000.funnel'',
    ''6041000.funnel'', ''regulator.44'', ''6042000.funnel'',
    ''soc:qcom,rpm-smd:rpm-regulator-ldoa25:regulator-l25-pin-ctrl'', ''7b70000.funnel'',
    ''regulator.45'', ''7b60000.funnel'', ''soc:qcom,rpm-smd:rpm-regulator-ldoa26'',
    ''6002000.stm'', ''soc:qcom,rpm-smd:rpm-regulator-ldoa26:regulator-l26'', ''7840000.etm'',
    ''7940000.etm'', ''regulator.46'', ''7a40000.etm'',
    ''soc:qcom,rpm-smd:rpm-regulator-ldoa27'', ''7b40000.etm'',
    ''soc:qcom,rpm-smd:rpm-regulator-ldoa27:regulator-l27-level'', ''7c40000.etm'',
    ''7d40000.etm'', ''regulator.47'', ''7e40000.etm'',
    ''soc:qcom,rpm-smd:rpm-regulator-ldoa27:regulator-l27-floor-level'', ''7f40000.etm'',
    ''6010000.cti'', ''6011000.cti'', ''regulator.48'', ''6012000.cti'',
    ''soc:qcom,rpm-smd:rpm-regulator-ldoa28'', ''6013000.cti'',
    ''soc:qcom,rpm-smd:rpm-regulator-ldoa28:regulator-l28'', ''6014000.cti'', ''6015000.cti'',
    ''regulator.49'', ''6016000.cti'', ''soc:qcom,rpm-smd:rpm-regulator-vsa1'',
    ''6017000.cti'', ''soc:qcom,rpm-smd:rpm-regulator-vsa1:regulator-lvs1'', ''6018000.cti'',
    ''regulator.50'', ''6019000.cti'', ''soc:qcom,rpm-smd:rpm-regulator-vsa2'',
    ''601a000.cti'', ''soc:qcom,rpm-smd:rpm-regulator-vsa2:regulator-lvs2'', ''601b000.cti'',
    ''regulator.51'', ''601c000.cti'', ''soc:qcom,rpm-smd:rpm-regulator-bobb'',
    ''601d000.cti'', ''soc:qcom,rpm-smd:rpm-regulator-bobb:regulator-bob'', ''601e000.cti'',
    ''601f000.cti'', ''regulator.52'', ''7820000.cti'',
    ''soc:qcom,rpm-smd:rpm-regulator-bobb:regulator-bob-pin1'', ''7920000.cti'',
    ''regulator.53'', ''7a20000.cti'',
    ''soc:qcom,rpm-smd:rpm-regulator-bobb:regulator-bob-pin2'', ''7b20000.cti'',
    ''7c20000.cti'', ''regulator.54'',
    ''soc:qcom,rpm-smd:rpm-regulator-bobb:regulator-bob-pin3'', ''7d20000.cti'',
    ''7e20000.cti'', ''regulator.55'', ''7f20000.cti'', ''soc:rpm-glink.glink_ssr.-1.-1'',
    ''7b80000.cti'', ''7bc1000.cti'', ''7b91000.cti'', ''6005000.funnel'', ''6004000.tpda'',
    ''7038000.tpdm'', ''7054000.tpdm'', ''704c000.tpdm'', ''71d0000.tpdm'', ''7050000.tpdm'',
    ''7bc2000.tpda'', ''7bc0000.tpdm'', ''7043000.tpda'', ''7042000.tpdm'', ''7191000.tpda'',
    ''7190000.tpdm'', ''7b92000.tpda'', ''7b90000.tpdm'', ''7083000.funnel'', ''7082000.tpda'',
    ''7080000.tpdm'', ''158000.hwevent'', ''6001000.csr'', ''soc:modem_etm0'',
    ''soc:audio_etm0'', ''soc:rpm_etm0'', ''7225000.funnel'', ''soc:dummy-tpdm-wcss'',
    ''1620000.ad-hoc-bus'', ''soc:devfreq_spdm_cpu'', ''soc:devfreq_spdm_gov'',
    ''soc:qcom,kgsl-hyp'', ''soc:qcom,kgsl-busmon'', ''soc:ddr-bw-opp-table-gpu'',
    ''soc:qcom,gpubw'', ''5000000.qcom,kgsl-3d0'', ''5040000.qcom,kgsl-iommu'',
    ''3400000.pinctrl'', ''gpiochip0'', ''gpiochip0'', ''soc:qcom,msm-pcm'',
    ''soc:qcom,msm-pcm-routing'', ''soc:qcom,msm-compr-dsp'', ''soc:qcom,msm-pcm-low-latency'',
    ''soc:qcom,msm-ultra-low-latency'', ''soc:qcom,msm-pcm-dsp-noirq'',
    ''soc:qcom,msm-transcode-loopback'', ''soc:qcom,msm-compress-dsp'',
    ''soc:qcom,msm-stub-codec'', ''soc:qcom,msm-dai-fe'', ''soc:qcom,msm-pcm-afe'',
    ''soc:qcom,msm-dai-q6-hdmi'', ''soc:qcom,msm-dai-q6-dp'', ''soc:qcom,msm-pcm-loopback'',
    ''soc:qcom,msm-pcm-loopback-low-latency'', ''soc:qcom,msm-pcm-dtmf'',
    ''soc:qcom,msm-dai-mi2s'', ''soc:qcom,msm-dai-cdc-dma'', ''soc:qcom,msm-lsm-client'',
    ''soc:qcom,msm-dai-q6'', ''soc:qcom,msm-pcm-hostless'', ''soc:qcom,msm-audio-apr'',
    ''soc:qcom,msm-pri-auxpcm'', ''soc:qcom,msm-sec-auxpcm'', ''soc:qcom,msm-tert-auxpcm'',
    ''soc:qcom,msm-quat-auxpcm'', ''soc:qcom,msm-quin-auxpcm'',
    ''soc:qcom,msm-hdmi-dba-codec-rx'', ''soc:qcom,msm-adsp-loader'',
    ''soc:qcom,msm-dai-tdm-pri-rx'', ''soc:qcom,msm-dai-tdm-pri-tx'',
    ''soc:qcom,msm-dai-tdm-sec-rx'', ''soc:qcom,msm-dai-tdm-sec-tx'',
    ''soc:qcom,msm-dai-tdm-tert-rx'', ''soc:qcom,msm-dai-tdm-tert-tx'',
    ''soc:qcom,msm-dai-tdm-quat-rx'', ''soc:qcom,msm-dai-tdm-quat-tx'',
    ''soc:qcom,msm-dai-tdm-quin-rx'', ''soc:qcom,msm-dai-tdm-quin-tx'',
    ''soc:qcom,msm-dai-q6-spdif-pri-rx'', ''soc:qcom,msm-dai-q6-spdif-pri-tx'',
    ''soc:qcom,msm-dai-q6-spdif-sec-rx'', ''soc:qcom,msm-dai-q6-spdif-sec-tx'',
    ''soc:qcom,msm-dai-q6-afe-loopback-tx'', ''c900000.qcom,mdss_mdp'',
    ''soc:qcom,mdss_dsi@0'', ''soc:qcom,mdss_wb_panel'', ''soc:qcom,msm_ext_disp'',
    ''c900000.qcom,mdss_rotator'', ''c994a00.qcom,mdss_dsi_pll'',
    ''c996a00.qcom,mdss_dsi_pll'', ''c144000.qcom,sps-dma'', ''c184000.qcom,sps-dma'',
    ''c175000.spi'', ''c1b8000.spi'', ''c171000.uart'', ''soc:msm_cdc_pinctrl@64'',
    ''170f700c.qcom,avtimer'', ''soc:qcom,msm-cpe-lsm'', ''soc:qcom,msm-cpe-lsm@3'',
    ''soc:qcom,wcd-dsp-mgr'', ''soc:qcom,wcd-dsp-glink'', ''soc:msm_cdc_pinctrl@67'',
    ''soc:msm_cdc_pinctrl@68'', ''soc:audio_ext_clk'', ''c900000.qcom,sde_kms'',
    ''c994000.qcom,sde_dsi_ctrl0'', ''c996000.qcom,sde_dsi_ctrl1'',
    ''c994400.qcom,mdss_dsi_phy0'', ''c996400.qcom,mdss_dsi_phy1'',
    ''c9a0000.qcom,hdmi_tx_8998'', ''soc:qcom,wb-display@0'', ''soc:qcom,hdmi-display'',
    ''c9a0000.qcom,hdmi-cec'', ''soc:gpio_keys'', ''soc:virtual_therm@0'',
    ''soc:tri_state_key'', ''soc:fingerprint_detect'', ''soc:fpc_fpc1020'',
    ''soc:qcom,camera-flash@0'', ''psci'', ''vendor'', ''vendor:bt_wcn3990'', ''writeback'',
    ''pwmchip0'', ''pwmchip1'', ''pwmchip2'', ''regulator.56'', ''regulator.57'',
    ''regulator.58'', ''regulator.59'', ''regulator.60'', ''regulator.61'', ''regulator.62'',
    ''regulator.63'', ''regulator.64'', ''regulator.65'', ''regulator.66'', ''regulator.67'',
    ''regulator.68'', ''regulator.69'', ''vga_arbiter'', ''input0'', ''thermal_zone0'',
    ''thermal_zone1'', ''thermal_zone2'', ''thermal_zone3'', ''thermal_zone4'',
    ''thermal_zone5'', ''thermal_zone6'', ''thermal_zone7'', ''thermal_zone8'',
    ''thermal_zone9'', ''thermal_zone10'', ''thermal_zone11'', ''thermal_zone12'',
    ''thermal_zone13'', ''thermal_zone14'', ''thermal_zone15'', ''thermal_zone16'',
    ''thermal_zone17'', ''thermal_zone18'', ''thermal_zone19'', ''thermal_zone20'',
    ''thermal_zone21'', ''thermal_zone22'', ''thermal_zone23'', ''thermal_zone24'',
    ''thermal_zone25'', ''thermal_zone26'', ''thermal_zone27'', ''thermal_zone28'',
    ''thermal_zone29'', ''thermal_zone30'', ''thermal_zone31'', ''thermal_zone32'',
    ''thermal_zone33'', ''thermal_zone34'', ''thermal_zone35'', ''thermal_zone36'',
    ''thermal_zone37'', ''thermal_zone38'', ''thermal_zone39'', ''thermal_zone40'',
    ''thermal_zone41'', ''thermal_zone42'', ''thermal_zone43'', ''thermal_zone44'',
    ''thermal_zone45'', ''thermal_zone46'', ''thermal_zone47'', ''thermal_zone48'',
    ''thermal_zone49'', ''thermal_zone50'', ''thermal_zone51'', ''thermal_zone52'',
    ''thermal_zone53'', ''thermal_zone54'', ''thermal_zone55'', ''thermal_zone56'',
    ''thermal_zone57'', ''thermal_zone58'', ''thermal_zone59'', ''thermal_zone60'',
    ''thermal_zone61'', ''thermal_zone62'', ''thermal_zone63'', ''thermal_zone64'',
    ''thermal_zone65'', ''edac'', ''mc'', ''soc:qcom,ion:qcom,ion-heap@25'',
    ''soc:qcom,ion:qcom,ion-heap@22'', ''soc:qcom,ion:qcom,ion-heap@26'',
    ''soc:qcom,ion:qcom,ion-heap@27'', ''soc:qcom,ion:qcom,ion-heap@19'',
    ''soc:qcom,ion:qcom,ion-heap@13'', ''soc:qcom,ion:qcom,ion-heap@10'',
    ''soc:qcom,ion:qcom,ion-heap@9'', ''ion'', ''extcon0'', ''extcon1'',
    ''soc:qcom,msm_ext_disp:qcom,msm-ext-disp-audio-codec-rx'', ''lo'', ''regulatory.0'',
    ''rfkill'', ''100000.qcom,gcc'', ''c8c0000.qcom,mmsscc'', ''5065000.qcom,early_gpucc'',
    ''179c8000.cprh-ctrl'', ''regulator.70'', ''179c4000.cprh-ctrl'', ''regulator.71'',
    ''5061000.cpr4-ctrl'', ''regulator.72'', ''c8ce020.qcom,gdsc'', ''regulator.73'',
    ''c179000.i2c'', ''i2c-5'', ''5-0020'', ''c17a000.i2c'', ''i2c-6'', ''6-0028'',
    ''c1b5000.i2c'', ''i2c-7'', ''7-0008'', ''7-0055'', ''7-0026'', ''c1b7000.i2c'', ''i2c-9'',
    ''9-0036'', ''5065000.qcom,gpucc'', ''179c0000.qcom,cpu-clock-8998'',
    ''179c0000.qcom,cpu-clock-8998:qcom,limits-dcvs@179ce800'',
    ''179c0000.qcom,cpu-clock-8998:qcom,limits-dcvs@179cc800'', ''5066094.qcom,gdsc'',
    ''regulator.74'', ''soc:qcom,msm-cpufreq'', ''fab-a1noc'', ''fab-a2noc'', ''fab-bimc'',
    ''fab-cnoc'', ''fab-cr_virt'', ''fab-gnoc'', ''fab-mnoc'', ''fab-snoc'', ''fab-mnoc-ahb'',
    ''mas-pcie-0'', ''mas-usb3'', ''mas-ufs'', ''mas-blsp-2'', ''mas-cnoc-a2noc'', ''mas-ipa'',
    ''mas-sdcc-2'', ''mas-sdcc-4'', ''mas-tsif'', ''mas-blsp-1'', ''mas-cr-virt-a2noc'',
    ''mas-gnoc-bimc'', ''mas-oxili'', ''mas-mnoc-bimc'', ''mas-snoc-bimc'', ''mas-snoc-cnoc'',
    ''mas-qdss-dap'', ''mas-crypto-c0'', ''mas-apps-proc'', ''mas-cnoc-mnoc-mmss-cfg'',
    ''mas-cnoc-mnoc-cfg'', ''mas-cpp'', ''mas-jpeg'', ''mas-mdp-p0'', ''mas-mdp-p1'',
    ''mas-rotator'', ''mas-venus'', ''mas-vfe'', ''mas-venus-vmem'', ''mas-hmss'',
    ''mas-qdss-bam'', ''mas-snoc-cfg'', ''mas-bimc-snoc-0'', ''mas-bimc-snoc-1'',
    ''mas-a1noc-snoc'', ''mas-a2noc-snoc'', ''mas-qdss-etr'', ''slv-a1noc-snoc'',
    ''slv-a2noc-snoc'', ''slv-ebi'', ''slv-hmss-l3'', ''slv-bimc-snoc-0'', ''slv-bimc-snoc-1'',
    ''slv-cnoc-a2noc'', ''slv-ssc-cfg'', ''slv-mpm'', ''slv-pmic-arb'', ''slv-tlmm-north'',
    ''slv-pimem-cfg'', ''slv-imem-cfg'', ''slv-message-ram'', ''slv-skl'', ''slv-bimc-cfg'',
    ''slv-prng'', ''slv-a2noc-cfg'', ''slv-ipa'', ''slv-tcsr'', ''slv-snoc-cfg'',
    ''slv-clk-ctl'', ''slv-glm'', ''slv-spdm'', ''slv-gpuss-cfg'', ''slv-cnoc-mnoc-cfg'',
    ''slv-qm-cfg'', ''slv-mss-cfg'', ''slv-ufs-cfg'', ''slv-tlmm-west'', ''slv-a1noc-cfg'',
    ''slv-ahb2phy'', ''slv-blsp-2'', ''slv-pdm'', ''slv-usb3-0'', ''slv-a1noc-smmu-cfg'',
    ''slv-blsp-1'', ''slv-sdcc-2'', ''slv-sdcc-4'', ''slv-tsif'', ''slv-qdss-cfg'',
    ''slv-tlmm-east'', ''slv-cnoc-mnoc-mmss-cfg'', ''slv-srvc-cnoc'', ''slv-cr-virt-a2noc'',
    ''slv-gnoc-bimc'', ''slv-camera-cfg'', ''slv-camera-throttle-cfg'', ''slv-misc-cfg'',
    ''slv-venus-throttle-cfg'', ''slv-venus-cfg'', ''slv-vmem-cfg'', ''slv-mmss-clk-xpu-cfg'',
    ''slv-mmss-clk-cfg'', ''slv-display-cfg'', ''slv-display-throttle-cfg'', ''slv-smmu-cfg'',
    ''slv-mnoc-bimc'', ''slv-vmem'', ''slv-srvc-mnoc'', ''slv-hmss'', ''slv-lpass'',
    ''slv-wlan'', ''slv-snoc-bimc'', ''slv-snoc-cnoc'', ''slv-imem'', ''slv-pimem'',
    ''slv-qdss-stm'', ''slv-pcie-0'', ''slv-srvc-snoc'', ''null'', ''zero'', ''full'',
    ''random'', ''urandom'', ''kmsg'', ''tty'', ''console'', ''tty0'', ''vcs'', ''vcsa'',
    ''vcs1'', ''vcsa1'', ''tty1'', ''tty2'', ''tty3'', ''tty4'', ''tty5'', ''tty6'', ''tty7'',
    ''tty8'', ''tty9'', ''tty10'', ''tty11'', ''tty12'', ''tty13'', ''tty14'', ''tty15'',
    ''tty16'', ''tty17'', ''tty18'', ''tty19'', ''tty20'', ''tty21'', ''tty22'', ''tty23'',
    ''tty24'', ''tty25'', ''tty26'', ''tty27'', ''tty28'', ''tty29'', ''tty30'', ''tty31'',
    ''tty32'', ''tty33'', ''tty34'', ''tty35'', ''tty36'', ''tty37'', ''tty38'', ''tty39'',
    ''tty40'', ''tty41'', ''tty42'', ''tty43'', ''tty44'', ''tty45'', ''tty46'', ''tty47'',
    ''tty48'', ''tty49'', ''tty50'', ''tty51'', ''tty52'', ''tty53'', ''tty54'', ''tty55'',
    ''tty56'', ''tty57'', ''tty58'', ''tty59'', ''tty60'', ''tty61'', ''tty62'', ''tty63'']"

text \<open>The linear scan; \<open>strcmp(name, entry) == 0\<close> is equality of the two strings.\<close>

fun deny_list_scan :: "string list \<Rightarrow> string \<Rightarrow> bool" where
  "deny_list_scan [] name = False"
| "deny_list_scan (entry # rest) name = (if name = entry then True else deny_list_scan rest name)"

definition is_device_in_suspend_denied_list :: "string \<Rightarrow> bool" where
  "is_device_in_suspend_denied_list name = deny_list_scan suspend_deny_list name"

subsection \<open>Registration and reordering\<close>

definition device_pm_sleep_init :: "nat \<Rightarrow> dpm_state \<Rightarrow> dpm_state" where
  "device_pm_sleep_init d s =
     list_del d (upd_power d (\<lambda>p. p\<lparr>is_prepared := False, is_suspended := False,
        is_noirq_suspended := False, is_late_suspended := False, completion := True,
        wakeup := None\<rparr>) s)"

definition pm_ops_is_empty :: "dev_pm_ops option \<Rightarrow> bool" where
  "pm_ops_is_empty ops = (case ops of
       None \<Rightarrow> True
     | Some t \<Rightarrow> prepare t = None \<and> suspend t = None \<and> suspend_late t = None
         \<and> suspend_noirq t = None \<and> resume_noirq t = None \<and> resume_early t = None
         \<and> resume t = None \<and> complete t = None)"

definition device_pm_check_callbacks :: "nat \<Rightarrow> dpm_state \<Rightarrow> dpm_state" where
  "device_pm_check_callbacks d s =
     (let dv = devices s d in
      upd_power d (\<lambda>p. p\<lparr>no_pm_callbacks :=
        ((case dev_bus dv of None \<Rightarrow> True
          | Some b \<Rightarrow> pm_ops_is_empty (bus_pm b) \<and> bus_suspend b = None \<and> bus_resume b = None)
         \<and> (case dev_class dv of None \<Rightarrow> True
          | Some c \<Rightarrow> pm_ops_is_empty (class_pm c) \<and> class_suspend c = None \<and> class_resume c = None)
         \<and> (case dev_type dv of None \<Rightarrow> True | Some t \<Rightarrow> pm_ops_is_empty (type_pm t))
         \<and> (case dev_pm_domain dv of None \<Rightarrow> True | Some pd \<Rightarrow> pm_ops_is_empty (Some (domain_ops pd)))
         \<and> (case dev_driver dv of None \<Rightarrow> True
          | Some drv \<Rightarrow> pm_ops_is_empty (driver_pm drv) \<and> driver_suspend drv = None
              \<and> driver_resume drv = None))\<rparr>) s)"

definition device_pm_add :: "nat \<Rightarrow> dpm_state \<Rightarrow> dpm_state" where
  "device_pm_add d s =
     (if device_pm_not_required s d then s
      else if is_device_in_suspend_denied_list (dev_name (devices s d)) then s
      else
        let s = device_pm_check_callbacks d s;
            s = list_add_tail d DPM_LIST s
        in upd_power d (\<lambda>p. p\<lparr>in_dpm_list := True\<rparr>) s)"

definition device_pm_move_before :: "nat \<Rightarrow> nat \<Rightarrow> dpm_state \<Rightarrow> dpm_state" where
  "device_pm_move_before deva devb s = list_move_tail_entry deva devb s"

definition device_pm_move_after :: "nat \<Rightarrow> nat \<Rightarrow> dpm_state \<Rightarrow> dpm_state" where
  "device_pm_move_after deva devb s = list_move_entry deva devb s"

definition device_pm_move_last :: "nat \<Rightarrow> dpm_state \<Rightarrow> dpm_state" where
  "device_pm_move_last d s =
     (if is_device_in_suspend_denied_list (dev_name (devices s d)) then s
      else list_move_tail d DPM_LIST s)"

subsection \<open>Choosing the callback\<close>

definition pm_op :: "env \<Rightarrow> dev_pm_ops \<Rightarrow> pm_message_t \<Rightarrow> pm_callback_t" where
  "pm_op env ops state = (case event state of
       PM_EVENT_SUSPEND \<Rightarrow> if CONFIG_SUSPEND env then suspend ops else None
     | PM_EVENT_RESUME \<Rightarrow> if CONFIG_SUSPEND env then resume ops else None
     | PM_EVENT_FREEZE \<Rightarrow> if CONFIG_HIBERNATE_CALLBACKS env then freeze ops else None
     | PM_EVENT_QUIESCE \<Rightarrow> if CONFIG_HIBERNATE_CALLBACKS env then freeze ops else None
     | PM_EVENT_HIBERNATE \<Rightarrow> if CONFIG_HIBERNATE_CALLBACKS env then poweroff ops else None
     | PM_EVENT_THAW \<Rightarrow> if CONFIG_HIBERNATE_CALLBACKS env then thaw ops else None
     | PM_EVENT_RECOVER \<Rightarrow> if CONFIG_HIBERNATE_CALLBACKS env then thaw ops else None
     | PM_EVENT_RESTORE \<Rightarrow> if CONFIG_HIBERNATE_CALLBACKS env then restore ops else None
     | _ \<Rightarrow> None)"

definition pm_late_early_op :: "env \<Rightarrow> dev_pm_ops \<Rightarrow> pm_message_t \<Rightarrow> pm_callback_t" where
  "pm_late_early_op env ops state = (case event state of
       PM_EVENT_SUSPEND \<Rightarrow> if CONFIG_SUSPEND env then suspend_late ops else None
     | PM_EVENT_RESUME \<Rightarrow> if CONFIG_SUSPEND env then resume_early ops else None
     | PM_EVENT_FREEZE \<Rightarrow> if CONFIG_HIBERNATE_CALLBACKS env then freeze_late ops else None
     | PM_EVENT_QUIESCE \<Rightarrow> if CONFIG_HIBERNATE_CALLBACKS env then freeze_late ops else None
     | PM_EVENT_HIBERNATE \<Rightarrow> if CONFIG_HIBERNATE_CALLBACKS env then poweroff_late ops else None
     | PM_EVENT_THAW \<Rightarrow> if CONFIG_HIBERNATE_CALLBACKS env then thaw_early ops else None
     | PM_EVENT_RECOVER \<Rightarrow> if CONFIG_HIBERNATE_CALLBACKS env then thaw_early ops else None
     | PM_EVENT_RESTORE \<Rightarrow> if CONFIG_HIBERNATE_CALLBACKS env then restore_early ops else None
     | _ \<Rightarrow> None)"

definition pm_noirq_op :: "env \<Rightarrow> dev_pm_ops \<Rightarrow> pm_message_t \<Rightarrow> pm_callback_t" where
  "pm_noirq_op env ops state = (case event state of
       PM_EVENT_SUSPEND \<Rightarrow> if CONFIG_SUSPEND env then suspend_noirq ops else None
     | PM_EVENT_RESUME \<Rightarrow> if CONFIG_SUSPEND env then resume_noirq ops else None
     | PM_EVENT_FREEZE \<Rightarrow> if CONFIG_HIBERNATE_CALLBACKS env then freeze_noirq ops else None
     | PM_EVENT_QUIESCE \<Rightarrow> if CONFIG_HIBERNATE_CALLBACKS env then freeze_noirq ops else None
     | PM_EVENT_HIBERNATE \<Rightarrow> if CONFIG_HIBERNATE_CALLBACKS env then poweroff_noirq ops else None
     | PM_EVENT_THAW \<Rightarrow> if CONFIG_HIBERNATE_CALLBACKS env then thaw_noirq ops else None
     | PM_EVENT_RECOVER \<Rightarrow> if CONFIG_HIBERNATE_CALLBACKS env then thaw_noirq ops else None
     | PM_EVENT_RESTORE \<Rightarrow> if CONFIG_HIBERNATE_CALLBACKS env then restore_noirq ops else None
     | _ \<Rightarrow> None)"

text \<open>
  \<open>dev->type && dev->type->pm\<close>, \<open>dev->class && dev->class->pm\<close>,
  \<open>dev->bus && dev->bus->pm\<close> and \<open>dev->driver && dev->driver->pm\<close>: the table when both
  pointers are set.
\<close>

definition type_ops :: "device \<Rightarrow> dev_pm_ops option" where
  "type_ops dv = (case dev_type dv of None \<Rightarrow> None | Some t \<Rightarrow> type_pm t)"

definition class_ops :: "device \<Rightarrow> dev_pm_ops option" where
  "class_ops dv = (case dev_class dv of None \<Rightarrow> None | Some c \<Rightarrow> class_pm c)"

definition bus_ops :: "device \<Rightarrow> dev_pm_ops option" where
  "bus_ops dv = (case dev_bus dv of None \<Rightarrow> None | Some b \<Rightarrow> bus_pm b)"

definition driver_ops :: "device \<Rightarrow> dev_pm_ops option" where
  "driver_ops dv = (case dev_driver dv of None \<Rightarrow> None | Some drv \<Rightarrow> driver_pm drv)"

text \<open>
  The \<open>if\<close>/\<open>else if\<close> chain shared by the noirq, late, early, prepare and complete
  paths, followed by the driver test. \<open>sel\<close> reads the slot of the phase from a table
  (\<open>pm_noirq_op(ops, state)\<close>, \<open>ops->complete\<close>, ...). The result is \<open>info\<close> without the
  prefix of the phase, and \<open>callback\<close>.
\<close>

definition select_callback ::
  "(dev_pm_ops \<Rightarrow> pm_callback_t) \<Rightarrow> device \<Rightarrow> string option \<times> pm_callback_t" where
  "select_callback sel dv =
     (let (info, callback) =
        (case dev_pm_domain dv of
           Some pd \<Rightarrow> (Some ''power domain '', sel (domain_ops pd))
         | None \<Rightarrow> (case type_ops dv of
             Some ops \<Rightarrow> (Some ''type '', sel ops)
           | None \<Rightarrow> (case class_ops dv of
               Some ops \<Rightarrow> (Some ''class '', sel ops)
             | None \<Rightarrow> (case bus_ops dv of
                 Some ops \<Rightarrow> (Some ''bus '', sel ops)
               | None \<Rightarrow> (None, None)))))
      in case (callback, driver_ops dv) of
           (None, Some ops) \<Rightarrow> (Some ''driver '', sel ops)
         | _ \<Rightarrow> (info, callback))"

definition phase_info :: "string \<Rightarrow> string option \<Rightarrow> string option" where
  "phase_info pre info = map_option (\<lambda>layer. pre @ layer) info"

text \<open>
  The chain of \<open>device_resume\<close>. A legacy \<open>resume\<close> hook of the class or the bus jumps to
  \<open>End\<close>, past the driver test.
\<close>

definition resume_callback :: "env \<Rightarrow> device \<Rightarrow> pm_message_t \<Rightarrow> string option \<times> pm_callback_t" where
  "resume_callback env dv state =
     (let Driver = (\<lambda>(info, callback).
            case (callback, driver_ops dv) of
              (None, Some ops) \<Rightarrow> (Some ''driver '', pm_op env ops state)
            | _ \<Rightarrow> (info, callback));
          Bus = (case dev_bus dv of
              None \<Rightarrow> Driver (None, None)
            | Some b \<Rightarrow> (case bus_pm b of
                Some ops \<Rightarrow> Driver (Some ''bus '', pm_op env ops state)
              | None \<Rightarrow> (case bus_resume b of
                  Some f \<Rightarrow> (Some ''legacy bus '', Some f)
                | None \<Rightarrow> Driver (None, None))))
      in case dev_pm_domain dv of
           Some pd \<Rightarrow> Driver (Some ''power domain '', pm_op env (domain_ops pd) state)
         | None \<Rightarrow> (case type_ops dv of
             Some ops \<Rightarrow> Driver (Some ''type '', pm_op env ops state)
           | None \<Rightarrow> (case dev_class dv of
               None \<Rightarrow> Bus
             | Some c \<Rightarrow> (case class_pm c of
                 Some ops \<Rightarrow> Driver (Some ''class '', pm_op env ops state)
               | None \<Rightarrow> (case class_resume c of
                   Some f \<Rightarrow> (Some ''legacy class '', Some f)
                 | None \<Rightarrow> Bus)))))"

text \<open>
  The chain of \<open>__device_suspend\<close>. It ends either at \<open>Run\<close>, with \<open>info\<close> and \<open>callback\<close>
  for \<open>dpm_run_callback\<close>, or in a call of \<open>legacy_suspend\<close> with a legacy hook.
\<close>

datatype suspend_choice =
    Run "string option" pm_callback_t
  | Legacy_suspend string nat

definition suspend_callback :: "env \<Rightarrow> device \<Rightarrow> pm_message_t \<Rightarrow> suspend_choice" where
  "suspend_callback env dv state =
     (let Run_label = (\<lambda>(info, callback).
            case (callback, driver_ops dv) of
              (None, Some ops) \<Rightarrow> Run (Some ''driver '') (pm_op env ops state)
            | _ \<Rightarrow> Run info callback);
          Bus = (case dev_bus dv of
              None \<Rightarrow> Run_label (None, None)
            | Some b \<Rightarrow> (case bus_pm b of
                Some ops \<Rightarrow> Run_label (Some ''bus '', pm_op env ops state)
              | None \<Rightarrow> (case bus_suspend b of
                  Some f \<Rightarrow> Legacy_suspend ''legacy bus '' f
                | None \<Rightarrow> Run_label (None, None))))
      in case dev_pm_domain dv of
           Some pd \<Rightarrow> Run_label (Some ''power domain '', pm_op env (domain_ops pd) state)
         | None \<Rightarrow> (case type_ops dv of
             Some ops \<Rightarrow> Run_label (Some ''type '', pm_op env ops state)
           | None \<Rightarrow> (case dev_class dv of
               None \<Rightarrow> Bus
             | Some c \<Rightarrow> (case class_pm c of
                 Some ops \<Rightarrow> Run_label (Some ''class '', pm_op env ops state)
               | None \<Rightarrow> (case class_suspend c of
                   Some f \<Rightarrow> Legacy_suspend ''legacy class '' f
                 | None \<Rightarrow> Bus)))))"

subsection \<open>Running a callback\<close>

definition dpm_run_callback ::
  "env \<Rightarrow> pm_callback_t \<Rightarrow> nat \<Rightarrow> pm_message_t \<Rightarrow> string option \<Rightarrow> dpm_state \<Rightarrow> int \<times> dpm_state" where
  "dpm_run_callback env cb d state info s =
     (case cb of
        None \<Rightarrow> (0, s)
      | Some f \<Rightarrow>
          let s = emit (Trace_device_pm_callback_start d info (event state)) s;
              error = cb_ret env f d s;
              s = emit (Callback f d) s;
              s = emit (Trace_device_pm_callback_end d error) s
          in (error, s))"

definition legacy_suspend ::
  "env \<Rightarrow> nat \<Rightarrow> pm_message_t \<Rightarrow> nat \<Rightarrow> string \<Rightarrow> dpm_state \<Rightarrow> int \<times> dpm_state" where
  "legacy_suspend env d state cb info s =
     (let s = emit (Trace_device_pm_callback_start d (Some info) (event state)) s;
          error = legacy_ret env cb d state s;
          s = emit (Legacy_callback cb d (event state)) s;
          s = emit (Trace_device_pm_callback_end d error) s
      in (error, s))"

subsection \<open>Asynchronous execution\<close>

text \<open>
  \<open>async_schedule\<close> hands a function and a device to the pool of worker threads and
  returns at once; the calls that have not run yet are \<open>async_pending\<close>. A worker thread
  runs such a call at any time from then on, while the main thread goes on with its loop.
  In the embedding a call of the pool runs as one step, and the steps of the pool are
  interleaved with the main thread at the two places of a pass of a loop where the main
  thread does not hold \<open>dpm_list_mtx\<close>: after \<open>mutex_unlock\<close>, before the per-device
  function, and before \<open>mutex_lock\<close>, after it. Which pending calls run there is the
  choice of the \<open>scheduler\<close> of the environment (\<open>async_workers\<close>); it may be none, so a
  call may still be pending when the loop reads \<open>async_error\<close> and when the loop ends.
  \<open>async_synchronize_full\<close> runs whatever is still pending, in the order of the calls to
  \<open>async_schedule\<close>.

  The waits on completions (\<open>dpm_wait\<close>, \<open>dpm_wait_for_children\<close>,
  \<open>dpm_wait_for_suppliers\<close>, \<open>dpm_wait_for_consumers\<close>) only delay the thread that
  waits until the call of another device has run to its end. They are no step of the
  embedding: a wait of the main thread is the first of the two places above, and a wait of
  a worker thread is a later turn of its call. The schedules of the kernel are those in
  which the call of a device has run before a thread that waits for the device goes on.
  A worker thread that is overtaken in the middle of a per-device function is outside the
  embedding.
\<close>

definition is_async :: "env \<Rightarrow> dpm_state \<Rightarrow> nat \<Rightarrow> bool" where
  "is_async env s d =
     (power_async_suspend (pwr s d) \<and> pm_async_enabled env \<and> \<not> pm_trace_is_enabled env)"

definition async_schedule :: "async_func \<Rightarrow> nat \<Rightarrow> dpm_state \<Rightarrow> dpm_state" where
  "async_schedule f d s = s\<lparr>async_pending := async_pending s @ [(f, d)]\<rparr>"

text \<open>
  \<open>dpm_wait_for_superior\<close>: false when the device is no longer initialised for PM; the
  waits in between change nothing the function reads.
\<close>

definition dpm_wait_for_superior :: "dpm_state \<Rightarrow> nat \<Rightarrow> bool \<Rightarrow> bool" where
  "dpm_wait_for_superior s d async =
     (if \<not> device_pm_initialized s d then False else device_pm_initialized s d)"

subsection \<open>Resume routines\<close>

definition device_resume_noirq ::
  "env \<Rightarrow> nat \<Rightarrow> pm_message_t \<Rightarrow> bool \<Rightarrow> dpm_state \<Rightarrow> int \<times> dpm_state" where
  "device_resume_noirq env d state async s =
     (if syscore (pwr s d) \<or> direct_complete (pwr s d) then (0, complete_all d s)
      else if \<not> is_noirq_suspended (pwr s d) then (0, complete_all d s)
      else if \<not> dpm_wait_for_superior s d async then (0, complete_all d s)
      else
        let (info, callback) = select_callback (\<lambda>ops. pm_noirq_op env ops state) (devices s d);
            (error, s) = dpm_run_callback env callback d state (phase_info ''noirq '' info) s;
            s = upd_power d (\<lambda>p. p\<lparr>is_noirq_suspended := False\<rparr>) s
        in (error, complete_all d s))"

definition async_resume_noirq :: "env \<Rightarrow> nat \<Rightarrow> dpm_state \<Rightarrow> dpm_state" where
  "async_resume_noirq env d s =
     (let (error, s) = device_resume_noirq env d (pm_transition s) True s
      in if error \<noteq> 0 then pm_dev_err d (pm_transition s) '' async'' error s else s)"

definition device_resume_early ::
  "env \<Rightarrow> nat \<Rightarrow> pm_message_t \<Rightarrow> bool \<Rightarrow> dpm_state \<Rightarrow> int \<times> dpm_state" where
  "device_resume_early env d state async s =
     (if syscore (pwr s d) \<or> direct_complete (pwr s d) then (0, complete_all d s)
      else if \<not> is_late_suspended (pwr s d) then (0, complete_all d s)
      else if \<not> dpm_wait_for_superior s d async then (0, complete_all d s)
      else
        let (info, callback) = select_callback (\<lambda>ops. pm_late_early_op env ops state) (devices s d);
            (error, s) = dpm_run_callback env callback d state (phase_info ''early '' info) s;
            s = upd_power d (\<lambda>p. p\<lparr>is_late_suspended := False\<rparr>) s
        in (error, complete_all d s))"

definition async_resume_early :: "env \<Rightarrow> nat \<Rightarrow> dpm_state \<Rightarrow> dpm_state" where
  "async_resume_early env d s =
     (let (error, s) = device_resume_early env d (pm_transition s) True s
      in if error \<noteq> 0 then pm_dev_err d (pm_transition s) '' async'' error s else s)"

definition device_resume ::
  "env \<Rightarrow> nat \<Rightarrow> pm_message_t \<Rightarrow> bool \<Rightarrow> dpm_state \<Rightarrow> int \<times> dpm_state" where
  "device_resume env d state async s =
     (if syscore (pwr s d) then (0, complete_all d s)
      else if direct_complete (pwr s d) then (0, complete_all d s)
      else if \<not> dpm_wait_for_superior s d async then (0, complete_all d s)
      else
        let s = upd_power d (\<lambda>p. p\<lparr>is_prepared := False\<rparr>) s
        in if \<not> is_suspended (pwr s d) then (0, complete_all d s)
           else
             let (info, callback) = resume_callback env (devices s d) state;
                 (error, s) = dpm_run_callback env callback d state info s;
                 s = upd_power d (\<lambda>p. p\<lparr>is_suspended := False\<rparr>) s
             in (error, complete_all d s))"

definition async_resume :: "env \<Rightarrow> nat \<Rightarrow> dpm_state \<Rightarrow> dpm_state" where
  "async_resume env d s =
     (let (error, s) = device_resume env d (pm_transition s) True s
      in if error \<noteq> 0 then pm_dev_err d (pm_transition s) '' async'' error s else s)"

definition device_complete :: "env \<Rightarrow> nat \<Rightarrow> pm_message_t \<Rightarrow> dpm_state \<Rightarrow> dpm_state" where
  "device_complete env d state s =
     (if syscore (pwr s d) then s
      else
        let (info, callback) = select_callback complete (devices s d)
        in case callback of
             None \<Rightarrow> s
           | Some f \<Rightarrow> emit (Callback f d) s)"

subsection \<open>Suspend routines\<close>

definition resume_event :: "pm_message_t \<Rightarrow> pm_message_t" where
  "resume_event sleep_state = (case event sleep_state of
       PM_EVENT_SUSPEND \<Rightarrow> PMSG_RESUME
     | PM_EVENT_FREEZE \<Rightarrow> PMSG_RECOVER
     | PM_EVENT_QUIESCE \<Rightarrow> PMSG_RECOVER
     | PM_EVENT_HIBERNATE \<Rightarrow> PMSG_RESTORE
     | _ \<Rightarrow> PMSG_ON)"

definition dunder_device_suspend_noirq ::
  "env \<Rightarrow> nat \<Rightarrow> pm_message_t \<Rightarrow> bool \<Rightarrow> dpm_state \<Rightarrow> int \<times> dpm_state" where
  "dunder_device_suspend_noirq env d state async s =
     (if async_error s \<noteq> 0 then (0, complete_all d s)
      else if pm_wakeup_pending env s then (0, complete_all d (s\<lparr>async_error := - EBUSY\<rparr>))
      else if syscore (pwr s d) \<or> direct_complete (pwr s d) then (0, complete_all d s)
      else
        let (info, callback) = select_callback (\<lambda>ops. pm_noirq_op env ops state) (devices s d);
            (error, s) = dpm_run_callback env callback d state (phase_info ''noirq '' info) s;
            s = (if error = 0 then upd_power d (\<lambda>p. p\<lparr>is_noirq_suspended := True\<rparr>) s
                 else s\<lparr>async_error := error\<rparr>)
        in (error, complete_all d s))"

definition async_suspend_noirq :: "env \<Rightarrow> nat \<Rightarrow> dpm_state \<Rightarrow> dpm_state" where
  "async_suspend_noirq env d s =
     (let (error, s) = dunder_device_suspend_noirq env d (pm_transition s) True s
      in if error \<noteq> 0
         then pm_dev_err d (pm_transition s) '' async'' error
                (dpm_save_failed_dev (dev_name (devices s d)) s)
         else s)"

definition device_suspend_noirq :: "env \<Rightarrow> nat \<Rightarrow> dpm_state \<Rightarrow> int \<times> dpm_state" where
  "device_suspend_noirq env d s =
     (let s = reinit_completion d s
      in if is_async env s d then (0, async_schedule ASYNC_SUSPEND_NOIRQ d s)
         else dunder_device_suspend_noirq env d (pm_transition s) False s)"

definition dunder_device_suspend_late ::
  "env \<Rightarrow> nat \<Rightarrow> pm_message_t \<Rightarrow> bool \<Rightarrow> dpm_state \<Rightarrow> int \<times> dpm_state" where
  "dunder_device_suspend_late env d state async s =
     (if async_error s \<noteq> 0 then (0, complete_all d s)
      else if pm_wakeup_pending env s then (0, complete_all d (s\<lparr>async_error := - EBUSY\<rparr>))
      else if syscore (pwr s d) \<or> direct_complete (pwr s d) then (0, complete_all d s)
      else
        let (info, callback) = select_callback (\<lambda>ops. pm_late_early_op env ops state) (devices s d);
            (error, s) = dpm_run_callback env callback d state (phase_info ''late '' info) s;
            s = (if error = 0 then upd_power d (\<lambda>p. p\<lparr>is_late_suspended := True\<rparr>) s
                 else s\<lparr>async_error := error\<rparr>)
        in (error, complete_all d s))"

definition async_suspend_late :: "env \<Rightarrow> nat \<Rightarrow> dpm_state \<Rightarrow> dpm_state" where
  "async_suspend_late env d s =
     (let (error, s) = dunder_device_suspend_late env d (pm_transition s) True s
      in if error \<noteq> 0
         then pm_dev_err d (pm_transition s) '' async'' error
                (dpm_save_failed_dev (dev_name (devices s d)) s)
         else s)"

definition device_suspend_late :: "env \<Rightarrow> nat \<Rightarrow> dpm_state \<Rightarrow> int \<times> dpm_state" where
  "device_suspend_late env d s =
     (let s = reinit_completion d s
      in if is_async env s d then (0, async_schedule ASYNC_SUSPEND_LATE d s)
         else dunder_device_suspend_late env d (pm_transition s) False s)"

definition dpm_clear_suppliers_direct_complete :: "nat \<Rightarrow> dpm_state \<Rightarrow> dpm_state" where
  "dpm_clear_suppliers_direct_complete d s =
     fold (\<lambda>supplier. upd_power supplier (\<lambda>p. p\<lparr>direct_complete := False\<rparr>))
       (dev_suppliers (devices s d)) s"

text \<open>The label \<open>Complete\<close> of \<open>__device_suspend\<close>.\<close>

definition suspend_Complete :: "nat \<Rightarrow> int \<Rightarrow> dpm_state \<Rightarrow> int \<times> dpm_state" where
  "suspend_Complete d error s =
     (error, complete_all d (if error \<noteq> 0 then s\<lparr>async_error := error\<rparr> else s))"

text \<open>The block under \<open>if (!error)\<close> at the label \<open>End\<close> of \<open>__device_suspend\<close>.\<close>

definition suspend_End_ok :: "nat \<Rightarrow> dpm_state \<Rightarrow> dpm_state" where
  "suspend_End_ok d s =
     (let s = upd_power d (\<lambda>p. p\<lparr>is_suspended := True\<rparr>) s;
          s = (case dev_parent (devices s d) of
                 None \<Rightarrow> s
               | Some parent \<Rightarrow>
                   let s = upd_power parent (\<lambda>p. p\<lparr>direct_complete := False\<rparr>) s
                   in if wakeup_path (pwr s d) \<and> \<not> ignore_children (pwr s parent)
                      then upd_power parent (\<lambda>p. p\<lparr>wakeup_path := True\<rparr>) s
                      else s)
      in dpm_clear_suppliers_direct_complete d s)"

definition dunder_device_suspend ::
  "env \<Rightarrow> nat \<Rightarrow> pm_message_t \<Rightarrow> bool \<Rightarrow> dpm_state \<Rightarrow> int \<times> dpm_state" where
  "dunder_device_suspend env d state async s =
     (if async_error s \<noteq> 0
      then suspend_Complete d 0 (upd_power d (\<lambda>p. p\<lparr>direct_complete := False\<rparr>) s)
      else if pm_wakeup_pending env s
      then suspend_Complete d 0
             ((upd_power d (\<lambda>p. p\<lparr>direct_complete := False\<rparr>)
                (emit (Ext ''log_suspend_abort_reason'') s))\<lparr>async_error := - EBUSY\<rparr>)
      else if syscore (pwr s d) then suspend_Complete d 0 s
      else
        let s = (if device_may_wakeup s d \<or> wakeup_path (pwr s d)
                 then upd_power d (\<lambda>p. p\<lparr>direct_complete := False\<rparr>) s else s)
        in if direct_complete (pwr s d) \<and> pm_runtime_status_suspended env d False s
              \<and> pm_runtime_status_suspended env d True s
           then suspend_Complete d 0 s
           else
             let s = (if direct_complete (pwr s d)
                      then upd_power d (\<lambda>p. p\<lparr>direct_complete := False\<rparr>) s else s);
                 (error, s) = (case suspend_callback env (devices s d) state of
                      Run info callback \<Rightarrow> dpm_run_callback env callback d state info s
                    | Legacy_suspend info cb \<Rightarrow> legacy_suspend env d state cb info s);
                 s = (if error = 0 then suspend_End_ok d s else s)
             in suspend_Complete d error s)"

definition async_suspend :: "env \<Rightarrow> nat \<Rightarrow> dpm_state \<Rightarrow> dpm_state" where
  "async_suspend env d s =
     (let (error, s) = dunder_device_suspend env d (pm_transition s) True s
      in if error \<noteq> 0
         then pm_dev_err d (pm_transition s) '' async'' error
                (dpm_save_failed_dev (dev_name (devices s d)) s)
         else s)"

definition device_suspend :: "env \<Rightarrow> nat \<Rightarrow> dpm_state \<Rightarrow> int \<times> dpm_state" where
  "device_suspend env d s =
     (let s = reinit_completion d s
      in if is_async env s d then (0, async_schedule ASYNC_SUSPEND d s)
         else dunder_device_suspend env d (pm_transition s) False s)"

definition device_prepare :: "env \<Rightarrow> nat \<Rightarrow> pm_message_t \<Rightarrow> dpm_state \<Rightarrow> int \<times> dpm_state" where
  "device_prepare env d state s =
     (if syscore (pwr s d) then (0, s)
      else
        let s = upd_power d (\<lambda>p. p\<lparr>wakeup_path := device_may_wakeup s d\<rparr>) s;
            (ret, s) =
              (if no_pm_callbacks (pwr s d) then (1, s)
               else
                 let (info, callback) = select_callback prepare (devices s d)
                 in case callback of
                      None \<Rightarrow> (0, s)
                    | Some f \<Rightarrow> (cb_ret env f d s, emit (Callback f d) s))
        in if ret < 0 then (ret, s)
           else (0, upd_power d
                      (\<lambda>p. p\<lparr>direct_complete := (ret > 0 \<and> event state = PM_EVENT_SUSPEND)\<rparr>) s))"

subsection \<open>The worker pool\<close>

definition run_task :: "env \<Rightarrow> async_func \<times> nat \<Rightarrow> dpm_state \<Rightarrow> dpm_state" where
  "run_task env task s = (case task of
       (ASYNC_RESUME_NOIRQ, d) \<Rightarrow> async_resume_noirq env d s
     | (ASYNC_RESUME_EARLY, d) \<Rightarrow> async_resume_early env d s
     | (ASYNC_RESUME, d) \<Rightarrow> async_resume env d s
     | (ASYNC_SUSPEND_NOIRQ, d) \<Rightarrow> async_suspend_noirq env d s
     | (ASYNC_SUSPEND_LATE, d) \<Rightarrow> async_suspend_late env d s
     | (ASYNC_SUSPEND, d) \<Rightarrow> async_suspend env d s)"

text \<open>
  The worker threads take their turn: the pending calls that the scheduler picks in the
  state at hand run, in the order of the calls to \<open>async_schedule\<close>, and the others stay
  pending.
\<close>

definition async_workers :: "env \<Rightarrow> dpm_state \<Rightarrow> dpm_state" where
  "async_workers env s =
     fold (run_task env) (filter (scheduler env s) (async_pending s))
       (s\<lparr>async_pending := filter (\<lambda>task. \<not> scheduler env s task) (async_pending s)\<rparr>)"

definition async_synchronize_full :: "env \<Rightarrow> dpm_state \<Rightarrow> dpm_state" where
  "async_synchronize_full env s = fold (run_task env) (async_pending s) (s\<lparr>async_pending := []\<rparr>)"

subsection \<open>What the per-device functions leave alone\<close>

text \<open>
  None of the per-device functions touches a list head, and none calls \<open>async_schedule\<close>.
  The loops of the phases rely on this to terminate.
\<close>

lemma fold_frame:
  assumes "\<And>x s. h (g x s) = h s"
  shows "h (fold g xs s) = h s"
  using assms by (induction xs arbitrary: s) simp_all

lemma upd_power_frame [simp]:
  "dpm_list (upd_power d f s) = dpm_list s"
  "dpm_prepared_list (upd_power d f s) = dpm_prepared_list s"
  "dpm_suspended_list (upd_power d f s) = dpm_suspended_list s"
  "dpm_late_early_list (upd_power d f s) = dpm_late_early_list s"
  "dpm_noirq_list (upd_power d f s) = dpm_noirq_list s"
  "async_pending (upd_power d f s) = async_pending s"
  by (simp_all add: upd_power_def)
lemma emit_frame [simp]:
  "dpm_list (emit e s) = dpm_list s"
  "dpm_prepared_list (emit e s) = dpm_prepared_list s"
  "dpm_suspended_list (emit e s) = dpm_suspended_list s"
  "dpm_late_early_list (emit e s) = dpm_late_early_list s"
  "dpm_noirq_list (emit e s) = dpm_noirq_list s"
  "async_pending (emit e s) = async_pending s"
  by (simp_all add: emit_def)
lemma upd_stats_frame [simp]:
  "dpm_list (upd_stats f s) = dpm_list s"
  "dpm_prepared_list (upd_stats f s) = dpm_prepared_list s"
  "dpm_suspended_list (upd_stats f s) = dpm_suspended_list s"
  "dpm_late_early_list (upd_stats f s) = dpm_late_early_list s"
  "dpm_noirq_list (upd_stats f s) = dpm_noirq_list s"
  "async_pending (upd_stats f s) = async_pending s"
  by (simp_all add: upd_stats_def)
lemma complete_all_frame [simp]:
  "dpm_list (complete_all d s) = dpm_list s"
  "dpm_prepared_list (complete_all d s) = dpm_prepared_list s"
  "dpm_suspended_list (complete_all d s) = dpm_suspended_list s"
  "dpm_late_early_list (complete_all d s) = dpm_late_early_list s"
  "dpm_noirq_list (complete_all d s) = dpm_noirq_list s"
  "async_pending (complete_all d s) = async_pending s"
  by (simp_all add: complete_all_def)
lemma reinit_completion_frame [simp]:
  "dpm_list (reinit_completion d s) = dpm_list s"
  "dpm_prepared_list (reinit_completion d s) = dpm_prepared_list s"
  "dpm_suspended_list (reinit_completion d s) = dpm_suspended_list s"
  "dpm_late_early_list (reinit_completion d s) = dpm_late_early_list s"
  "dpm_noirq_list (reinit_completion d s) = dpm_noirq_list s"
  "async_pending (reinit_completion d s) = async_pending s"
  by (simp_all add: reinit_completion_def)
lemma dpm_save_failed_dev_frame [simp]:
  "dpm_list (dpm_save_failed_dev name s) = dpm_list s"
  "dpm_prepared_list (dpm_save_failed_dev name s) = dpm_prepared_list s"
  "dpm_suspended_list (dpm_save_failed_dev name s) = dpm_suspended_list s"
  "dpm_late_early_list (dpm_save_failed_dev name s) = dpm_late_early_list s"
  "dpm_noirq_list (dpm_save_failed_dev name s) = dpm_noirq_list s"
  "async_pending (dpm_save_failed_dev name s) = async_pending s"
  by (simp_all add: dpm_save_failed_dev_def)
lemma dpm_save_failed_step_frame [simp]:
  "dpm_list (dpm_save_failed_step step s) = dpm_list s"
  "dpm_prepared_list (dpm_save_failed_step step s) = dpm_prepared_list s"
  "dpm_suspended_list (dpm_save_failed_step step s) = dpm_suspended_list s"
  "dpm_late_early_list (dpm_save_failed_step step s) = dpm_late_early_list s"
  "dpm_noirq_list (dpm_save_failed_step step s) = dpm_noirq_list s"
  "async_pending (dpm_save_failed_step step s) = async_pending s"
  by (simp_all add: dpm_save_failed_step_def)
lemma pm_dev_err_frame [simp]:
  "dpm_list (pm_dev_err d state info error s) = dpm_list s"
  "dpm_prepared_list (pm_dev_err d state info error s) = dpm_prepared_list s"
  "dpm_suspended_list (pm_dev_err d state info error s) = dpm_suspended_list s"
  "dpm_late_early_list (pm_dev_err d state info error s) = dpm_late_early_list s"
  "dpm_noirq_list (pm_dev_err d state info error s) = dpm_noirq_list s"
  "async_pending (pm_dev_err d state info error s) = async_pending s"
  by (simp_all add: pm_dev_err_def)
lemma dpm_run_callback_frame [simp]:
  "dpm_list (snd (dpm_run_callback env cb d state info s)) = dpm_list s"
  "dpm_prepared_list (snd (dpm_run_callback env cb d state info s)) = dpm_prepared_list s"
  "dpm_suspended_list (snd (dpm_run_callback env cb d state info s)) = dpm_suspended_list s"
  "dpm_late_early_list (snd (dpm_run_callback env cb d state info s)) = dpm_late_early_list s"
  "dpm_noirq_list (snd (dpm_run_callback env cb d state info s)) = dpm_noirq_list s"
  "async_pending (snd (dpm_run_callback env cb d state info s)) = async_pending s"
  by (simp_all add: dpm_run_callback_def Let_def split: option.split)
lemma legacy_suspend_frame [simp]:
  "dpm_list (snd (legacy_suspend env d state cb info s)) = dpm_list s"
  "dpm_prepared_list (snd (legacy_suspend env d state cb info s)) = dpm_prepared_list s"
  "dpm_suspended_list (snd (legacy_suspend env d state cb info s)) = dpm_suspended_list s"
  "dpm_late_early_list (snd (legacy_suspend env d state cb info s)) = dpm_late_early_list s"
  "dpm_noirq_list (snd (legacy_suspend env d state cb info s)) = dpm_noirq_list s"
  "async_pending (snd (legacy_suspend env d state cb info s)) = async_pending s"
  by (simp_all add: legacy_suspend_def Let_def)
lemma device_resume_noirq_frame [simp]:
  "dpm_list (snd (device_resume_noirq env d state async s)) = dpm_list s"
  "dpm_prepared_list (snd (device_resume_noirq env d state async s)) = dpm_prepared_list s"
  "dpm_suspended_list (snd (device_resume_noirq env d state async s)) = dpm_suspended_list s"
  "dpm_late_early_list (snd (device_resume_noirq env d state async s)) = dpm_late_early_list s"
  "dpm_noirq_list (snd (device_resume_noirq env d state async s)) = dpm_noirq_list s"
  "async_pending (snd (device_resume_noirq env d state async s)) = async_pending s"
  by (simp_all add: device_resume_noirq_def Let_def split_def)
lemma async_resume_noirq_frame [simp]:
  "dpm_list (async_resume_noirq env d s) = dpm_list s"
  "dpm_prepared_list (async_resume_noirq env d s) = dpm_prepared_list s"
  "dpm_suspended_list (async_resume_noirq env d s) = dpm_suspended_list s"
  "dpm_late_early_list (async_resume_noirq env d s) = dpm_late_early_list s"
  "dpm_noirq_list (async_resume_noirq env d s) = dpm_noirq_list s"
  "async_pending (async_resume_noirq env d s) = async_pending s"
  by (simp_all add: async_resume_noirq_def Let_def split_def)
lemma device_resume_early_frame [simp]:
  "dpm_list (snd (device_resume_early env d state async s)) = dpm_list s"
  "dpm_prepared_list (snd (device_resume_early env d state async s)) = dpm_prepared_list s"
  "dpm_suspended_list (snd (device_resume_early env d state async s)) = dpm_suspended_list s"
  "dpm_late_early_list (snd (device_resume_early env d state async s)) = dpm_late_early_list s"
  "dpm_noirq_list (snd (device_resume_early env d state async s)) = dpm_noirq_list s"
  "async_pending (snd (device_resume_early env d state async s)) = async_pending s"
  by (simp_all add: device_resume_early_def Let_def split_def)
lemma async_resume_early_frame [simp]:
  "dpm_list (async_resume_early env d s) = dpm_list s"
  "dpm_prepared_list (async_resume_early env d s) = dpm_prepared_list s"
  "dpm_suspended_list (async_resume_early env d s) = dpm_suspended_list s"
  "dpm_late_early_list (async_resume_early env d s) = dpm_late_early_list s"
  "dpm_noirq_list (async_resume_early env d s) = dpm_noirq_list s"
  "async_pending (async_resume_early env d s) = async_pending s"
  by (simp_all add: async_resume_early_def Let_def split_def)
lemma device_resume_frame [simp]:
  "dpm_list (snd (device_resume env d state async s)) = dpm_list s"
  "dpm_prepared_list (snd (device_resume env d state async s)) = dpm_prepared_list s"
  "dpm_suspended_list (snd (device_resume env d state async s)) = dpm_suspended_list s"
  "dpm_late_early_list (snd (device_resume env d state async s)) = dpm_late_early_list s"
  "dpm_noirq_list (snd (device_resume env d state async s)) = dpm_noirq_list s"
  "async_pending (snd (device_resume env d state async s)) = async_pending s"
  by (simp_all add: device_resume_def Let_def split_def)
lemma async_resume_frame [simp]:
  "dpm_list (async_resume env d s) = dpm_list s"
  "dpm_prepared_list (async_resume env d s) = dpm_prepared_list s"
  "dpm_suspended_list (async_resume env d s) = dpm_suspended_list s"
  "dpm_late_early_list (async_resume env d s) = dpm_late_early_list s"
  "dpm_noirq_list (async_resume env d s) = dpm_noirq_list s"
  "async_pending (async_resume env d s) = async_pending s"
  by (simp_all add: async_resume_def Let_def split_def)
lemma device_complete_frame [simp]:
  "dpm_list (device_complete env d state s) = dpm_list s"
  "dpm_prepared_list (device_complete env d state s) = dpm_prepared_list s"
  "dpm_suspended_list (device_complete env d state s) = dpm_suspended_list s"
  "dpm_late_early_list (device_complete env d state s) = dpm_late_early_list s"
  "dpm_noirq_list (device_complete env d state s) = dpm_noirq_list s"
  "async_pending (device_complete env d state s) = async_pending s"
  by (simp_all add: device_complete_def Let_def split_def split: option.split)
lemma dunder_device_suspend_noirq_frame [simp]:
  "dpm_list (snd (dunder_device_suspend_noirq env d state async s)) = dpm_list s"
  "dpm_prepared_list (snd (dunder_device_suspend_noirq env d state async s)) = dpm_prepared_list s"
  "dpm_suspended_list (snd (dunder_device_suspend_noirq env d state async s)) = dpm_suspended_list s"
  "dpm_late_early_list (snd (dunder_device_suspend_noirq env d state async s)) = dpm_late_early_list s"
  "dpm_noirq_list (snd (dunder_device_suspend_noirq env d state async s)) = dpm_noirq_list s"
  "async_pending (snd (dunder_device_suspend_noirq env d state async s)) = async_pending s"
  by (simp_all add: dunder_device_suspend_noirq_def Let_def split_def)
lemma async_suspend_noirq_frame [simp]:
  "dpm_list (async_suspend_noirq env d s) = dpm_list s"
  "dpm_prepared_list (async_suspend_noirq env d s) = dpm_prepared_list s"
  "dpm_suspended_list (async_suspend_noirq env d s) = dpm_suspended_list s"
  "dpm_late_early_list (async_suspend_noirq env d s) = dpm_late_early_list s"
  "dpm_noirq_list (async_suspend_noirq env d s) = dpm_noirq_list s"
  "async_pending (async_suspend_noirq env d s) = async_pending s"
  by (simp_all add: async_suspend_noirq_def Let_def split_def)
lemma dunder_device_suspend_late_frame [simp]:
  "dpm_list (snd (dunder_device_suspend_late env d state async s)) = dpm_list s"
  "dpm_prepared_list (snd (dunder_device_suspend_late env d state async s)) = dpm_prepared_list s"
  "dpm_suspended_list (snd (dunder_device_suspend_late env d state async s)) = dpm_suspended_list s"
  "dpm_late_early_list (snd (dunder_device_suspend_late env d state async s)) = dpm_late_early_list s"
  "dpm_noirq_list (snd (dunder_device_suspend_late env d state async s)) = dpm_noirq_list s"
  "async_pending (snd (dunder_device_suspend_late env d state async s)) = async_pending s"
  by (simp_all add: dunder_device_suspend_late_def Let_def split_def)
lemma async_suspend_late_frame [simp]:
  "dpm_list (async_suspend_late env d s) = dpm_list s"
  "dpm_prepared_list (async_suspend_late env d s) = dpm_prepared_list s"
  "dpm_suspended_list (async_suspend_late env d s) = dpm_suspended_list s"
  "dpm_late_early_list (async_suspend_late env d s) = dpm_late_early_list s"
  "dpm_noirq_list (async_suspend_late env d s) = dpm_noirq_list s"
  "async_pending (async_suspend_late env d s) = async_pending s"
  by (simp_all add: async_suspend_late_def Let_def split_def)
lemma dpm_clear_suppliers_direct_complete_frame [simp]:
  "dpm_list (dpm_clear_suppliers_direct_complete d s) = dpm_list s"
  "dpm_prepared_list (dpm_clear_suppliers_direct_complete d s) = dpm_prepared_list s"
  "dpm_suspended_list (dpm_clear_suppliers_direct_complete d s) = dpm_suspended_list s"
  "dpm_late_early_list (dpm_clear_suppliers_direct_complete d s) = dpm_late_early_list s"
  "dpm_noirq_list (dpm_clear_suppliers_direct_complete d s) = dpm_noirq_list s"
  "async_pending (dpm_clear_suppliers_direct_complete d s) = async_pending s"
  by (simp_all add: dpm_clear_suppliers_direct_complete_def fold_frame)
lemma suspend_Complete_frame [simp]:
  "dpm_list (snd (suspend_Complete d error s)) = dpm_list s"
  "dpm_prepared_list (snd (suspend_Complete d error s)) = dpm_prepared_list s"
  "dpm_suspended_list (snd (suspend_Complete d error s)) = dpm_suspended_list s"
  "dpm_late_early_list (snd (suspend_Complete d error s)) = dpm_late_early_list s"
  "dpm_noirq_list (snd (suspend_Complete d error s)) = dpm_noirq_list s"
  "async_pending (snd (suspend_Complete d error s)) = async_pending s"
  by (simp_all add: suspend_Complete_def)
lemma suspend_End_ok_frame [simp]:
  "dpm_list (suspend_End_ok d s) = dpm_list s"
  "dpm_prepared_list (suspend_End_ok d s) = dpm_prepared_list s"
  "dpm_suspended_list (suspend_End_ok d s) = dpm_suspended_list s"
  "dpm_late_early_list (suspend_End_ok d s) = dpm_late_early_list s"
  "dpm_noirq_list (suspend_End_ok d s) = dpm_noirq_list s"
  "async_pending (suspend_End_ok d s) = async_pending s"
  by (simp_all add: suspend_End_ok_def Let_def split: option.split)
lemma dunder_device_suspend_frame [simp]:
  "dpm_list (snd (dunder_device_suspend env d state async s)) = dpm_list s"
  "dpm_prepared_list (snd (dunder_device_suspend env d state async s)) = dpm_prepared_list s"
  "dpm_suspended_list (snd (dunder_device_suspend env d state async s)) = dpm_suspended_list s"
  "dpm_late_early_list (snd (dunder_device_suspend env d state async s)) = dpm_late_early_list s"
  "dpm_noirq_list (snd (dunder_device_suspend env d state async s)) = dpm_noirq_list s"
  "async_pending (snd (dunder_device_suspend env d state async s)) = async_pending s"
  by (simp_all add: dunder_device_suspend_def Let_def split_def split: suspend_choice.split)
lemma async_suspend_frame [simp]:
  "dpm_list (async_suspend env d s) = dpm_list s"
  "dpm_prepared_list (async_suspend env d s) = dpm_prepared_list s"
  "dpm_suspended_list (async_suspend env d s) = dpm_suspended_list s"
  "dpm_late_early_list (async_suspend env d s) = dpm_late_early_list s"
  "dpm_noirq_list (async_suspend env d s) = dpm_noirq_list s"
  "async_pending (async_suspend env d s) = async_pending s"
  by (simp_all add: async_suspend_def Let_def split_def)
lemma device_prepare_frame [simp]:
  "dpm_list (snd (device_prepare env d state s)) = dpm_list s"
  "dpm_prepared_list (snd (device_prepare env d state s)) = dpm_prepared_list s"
  "dpm_suspended_list (snd (device_prepare env d state s)) = dpm_suspended_list s"
  "dpm_late_early_list (snd (device_prepare env d state s)) = dpm_late_early_list s"
  "dpm_noirq_list (snd (device_prepare env d state s)) = dpm_noirq_list s"
  "async_pending (snd (device_prepare env d state s)) = async_pending s"
  by (simp_all add: device_prepare_def Let_def split_def split: option.split)
lemma run_task_frame [simp]:
  "dpm_list (run_task env task s) = dpm_list s"
  "dpm_prepared_list (run_task env task s) = dpm_prepared_list s"
  "dpm_suspended_list (run_task env task s) = dpm_suspended_list s"
  "dpm_late_early_list (run_task env task s) = dpm_late_early_list s"
  "dpm_noirq_list (run_task env task s) = dpm_noirq_list s"
  "async_pending (run_task env task s) = async_pending s"
  by (simp_all add: run_task_def split: prod.split async_func.split)
lemma device_suspend_noirq_frame [simp]:
  "dpm_list (snd (device_suspend_noirq env d s)) = dpm_list s"
  "dpm_prepared_list (snd (device_suspend_noirq env d s)) = dpm_prepared_list s"
  "dpm_suspended_list (snd (device_suspend_noirq env d s)) = dpm_suspended_list s"
  "dpm_late_early_list (snd (device_suspend_noirq env d s)) = dpm_late_early_list s"
  "dpm_noirq_list (snd (device_suspend_noirq env d s)) = dpm_noirq_list s"
  by (simp_all add: device_suspend_noirq_def async_schedule_def Let_def)
lemma device_suspend_late_frame [simp]:
  "dpm_list (snd (device_suspend_late env d s)) = dpm_list s"
  "dpm_prepared_list (snd (device_suspend_late env d s)) = dpm_prepared_list s"
  "dpm_suspended_list (snd (device_suspend_late env d s)) = dpm_suspended_list s"
  "dpm_late_early_list (snd (device_suspend_late env d s)) = dpm_late_early_list s"
  "dpm_noirq_list (snd (device_suspend_late env d s)) = dpm_noirq_list s"
  by (simp_all add: device_suspend_late_def async_schedule_def Let_def)
lemma device_suspend_frame [simp]:
  "dpm_list (snd (device_suspend env d s)) = dpm_list s"
  "dpm_prepared_list (snd (device_suspend env d s)) = dpm_prepared_list s"
  "dpm_suspended_list (snd (device_suspend env d s)) = dpm_suspended_list s"
  "dpm_late_early_list (snd (device_suspend env d s)) = dpm_late_early_list s"
  "dpm_noirq_list (snd (device_suspend env d s)) = dpm_noirq_list s"
  by (simp_all add: device_suspend_def async_schedule_def Let_def)
lemma async_workers_frame [simp]:
  "dpm_list (async_workers env s) = dpm_list s"
  "dpm_prepared_list (async_workers env s) = dpm_prepared_list s"
  "dpm_suspended_list (async_workers env s) = dpm_suspended_list s"
  "dpm_late_early_list (async_workers env s) = dpm_late_early_list s"
  "dpm_noirq_list (async_workers env s) = dpm_noirq_list s"
  by (simp_all add: async_workers_def fold_frame)
lemma async_synchronize_full_frame [simp]:
  "dpm_list (async_synchronize_full env s) = dpm_list s"
  "dpm_prepared_list (async_synchronize_full env s) = dpm_prepared_list s"
  "dpm_suspended_list (async_synchronize_full env s) = dpm_suspended_list s"
  "dpm_late_early_list (async_synchronize_full env s) = dpm_late_early_list s"
  "dpm_noirq_list (async_synchronize_full env s) = dpm_noirq_list s"
  by (simp_all add: async_synchronize_full_def fold_frame)
lemma async_synchronize_full_pending [simp]:
  "async_pending (async_synchronize_full env s) = []"
  by (simp add: async_synchronize_full_def fold_frame)

lemma entry_empty_cong:
  assumes "dpm_list s' = dpm_list s" "dpm_prepared_list s' = dpm_prepared_list s"
    "dpm_suspended_list s' = dpm_suspended_list s" "dpm_late_early_list s' = dpm_late_early_list s"
    "dpm_noirq_list s' = dpm_noirq_list s"
  shows "entry_empty s' d = entry_empty s d"
  using assms by (simp add: entry_empty_def)

subsection \<open>The phases of resume\<close>

text \<open>
  Each \<open>while (!list_empty(...))\<close> loop is a recursive function on the state. The list it
  drains gets shorter with every pass, since the device taken from it is moved to another
  list and the per-device functions leave the lists alone. In a pass, \<open>async_workers\<close>
  stands where the main thread has given up \<open>dpm_list_mtx\<close> and where it takes it again.
\<close>

lemma removeAll_shorter: "x \<in> set xs \<Longrightarrow> length (removeAll x xs) < length xs"
  by (induction xs) (auto simp: less_Suc_eq_le)

lemma hd_shorter [simp]: "xs \<noteq> [] \<Longrightarrow> length (removeAll (hd xs) xs) < length xs"
  by (simp add: removeAll_shorter)

lemma last_shorter [simp]: "xs \<noteq> [] \<Longrightarrow> length (removeAll (last xs) xs) < length xs"
  by (simp add: removeAll_shorter)

lemma list_del_lists [simp]:
  "dpm_list (list_del d s) = removeAll d (dpm_list s)"
  "dpm_prepared_list (list_del d s) = removeAll d (dpm_prepared_list s)"
  "dpm_suspended_list (list_del d s) = removeAll d (dpm_suspended_list s)"
  "dpm_late_early_list (list_del d s) = removeAll d (dpm_late_early_list s)"
  "dpm_noirq_list (list_del d s) = removeAll d (dpm_noirq_list s)"
  "async_pending (list_del d s) = async_pending s"
  by (simp_all add: list_del_def)

lemma list_move_tail_lists [simp]:
  "dpm_list (list_move_tail d l s) =
     (if l = DPM_LIST then removeAll d (dpm_list s) @ [d] else removeAll d (dpm_list s))"
  "dpm_prepared_list (list_move_tail d l s) =
     (if l = DPM_PREPARED_LIST then removeAll d (dpm_prepared_list s) @ [d]
      else removeAll d (dpm_prepared_list s))"
  "dpm_suspended_list (list_move_tail d l s) =
     (if l = DPM_SUSPENDED_LIST then removeAll d (dpm_suspended_list s) @ [d]
      else removeAll d (dpm_suspended_list s))"
  "dpm_late_early_list (list_move_tail d l s) =
     (if l = DPM_LATE_EARLY_LIST then removeAll d (dpm_late_early_list s) @ [d]
      else removeAll d (dpm_late_early_list s))"
  "dpm_noirq_list (list_move_tail d l s) =
     (if l = DPM_NOIRQ_LIST then removeAll d (dpm_noirq_list s) @ [d]
      else removeAll d (dpm_noirq_list s))"
  "async_pending (list_move_tail d l s) = async_pending s"
  by (cases l; simp add: list_move_tail_def list_add_tail_def set_list_def get_list_def)+

lemma list_move_lists [simp]:
  "dpm_list (list_move d l s) =
     (if l = DPM_LIST then d # removeAll d (dpm_list s) else removeAll d (dpm_list s))"
  "dpm_prepared_list (list_move d l s) =
     (if l = DPM_PREPARED_LIST then d # removeAll d (dpm_prepared_list s)
      else removeAll d (dpm_prepared_list s))"
  "dpm_suspended_list (list_move d l s) =
     (if l = DPM_SUSPENDED_LIST then d # removeAll d (dpm_suspended_list s)
      else removeAll d (dpm_suspended_list s))"
  "dpm_late_early_list (list_move d l s) =
     (if l = DPM_LATE_EARLY_LIST then d # removeAll d (dpm_late_early_list s)
      else removeAll d (dpm_late_early_list s))"
  "dpm_noirq_list (list_move d l s) =
     (if l = DPM_NOIRQ_LIST then d # removeAll d (dpm_noirq_list s)
      else removeAll d (dpm_noirq_list s))"
  "async_pending (list_move d l s) = async_pending s"
  by (cases l; simp add: list_move_def list_add_def set_list_def get_list_def)+

lemma entry_empty_frame [simp]:
  "entry_empty (upd_power d f s) x = entry_empty s x"
  "entry_empty (emit e s) x = entry_empty s x"
  "entry_empty (upd_stats g s) x = entry_empty s x"
  "entry_empty (async_workers env s) x = entry_empty s x"
  "entry_empty (pm_dev_err d state info error s) x = entry_empty s x"
  "entry_empty (dpm_save_failed_dev name s) x = entry_empty s x"
  "entry_empty (dpm_save_failed_step step s) x = entry_empty s x"
  "entry_empty (snd (device_resume env d state async s)) x = entry_empty s x"
  "entry_empty (snd (device_suspend env d s)) x = entry_empty s x"
  "entry_empty (snd (device_suspend_late env d s)) x = entry_empty s x"
  "entry_empty (snd (device_suspend_noirq env d s)) x = entry_empty s x"
  "entry_empty (snd (device_prepare env d state s)) x = entry_empty s x"
  by (simp_all add: entry_empty_def)

lemma entry_on_list [simp]:
  "dpm_list s \<noteq> [] \<Longrightarrow> \<not> entry_empty s (hd (dpm_list s))"
  "dpm_prepared_list s \<noteq> [] \<Longrightarrow> \<not> entry_empty s (last (dpm_prepared_list s))"
  "dpm_suspended_list s \<noteq> [] \<Longrightarrow> \<not> entry_empty s (hd (dpm_suspended_list s))"
  "dpm_suspended_list s \<noteq> [] \<Longrightarrow> \<not> entry_empty s (last (dpm_suspended_list s))"
  "dpm_late_early_list s \<noteq> [] \<Longrightarrow> \<not> entry_empty s (last (dpm_late_early_list s))"
  by (simp_all add: entry_empty_def)

text \<open>
  The failure branch of the synchronous drain of a resume phase: the counter of the
  phase, the failed step, the failed device and the error line.
\<close>

definition resume_noirq_failed :: "nat \<Rightarrow> pm_message_t \<Rightarrow> int \<Rightarrow> dpm_state \<Rightarrow> dpm_state" where
  "resume_noirq_failed d state error s =
     (let s = upd_stats (\<lambda>t. t\<lparr>failed_resume_noirq := incr (failed_resume_noirq t)\<rparr>) s;
          s = dpm_save_failed_step SUSPEND_RESUME_NOIRQ s;
          s = dpm_save_failed_dev (dev_name (devices s d)) s
      in pm_dev_err d state '' noirq'' error s)"

definition resume_early_failed :: "nat \<Rightarrow> pm_message_t \<Rightarrow> int \<Rightarrow> dpm_state \<Rightarrow> dpm_state" where
  "resume_early_failed d state error s =
     (let s = upd_stats (\<lambda>t. t\<lparr>failed_resume_early := incr (failed_resume_early t)\<rparr>) s;
          s = dpm_save_failed_step SUSPEND_RESUME_EARLY s;
          s = dpm_save_failed_dev (dev_name (devices s d)) s
      in pm_dev_err d state '' early'' error s)"

definition resume_failed :: "nat \<Rightarrow> pm_message_t \<Rightarrow> int \<Rightarrow> dpm_state \<Rightarrow> dpm_state" where
  "resume_failed d state error s =
     (let s = upd_stats (\<lambda>t. t\<lparr>failed_resume := incr (failed_resume t)\<rparr>) s;
          s = dpm_save_failed_step SUSPEND_RESUME s;
          s = dpm_save_failed_dev (dev_name (devices s d)) s
      in pm_dev_err d state [] error s)"

lemma resume_failed_frame [simp]:
  "dpm_list (resume_noirq_failed d state error s) = dpm_list s"
  "dpm_prepared_list (resume_noirq_failed d state error s) = dpm_prepared_list s"
  "dpm_suspended_list (resume_noirq_failed d state error s) = dpm_suspended_list s"
  "dpm_late_early_list (resume_noirq_failed d state error s) = dpm_late_early_list s"
  "dpm_noirq_list (resume_noirq_failed d state error s) = dpm_noirq_list s"
  "async_pending (resume_noirq_failed d state error s) = async_pending s"
  "dpm_list (resume_early_failed d state error s) = dpm_list s"
  "dpm_prepared_list (resume_early_failed d state error s) = dpm_prepared_list s"
  "dpm_suspended_list (resume_early_failed d state error s) = dpm_suspended_list s"
  "dpm_late_early_list (resume_early_failed d state error s) = dpm_late_early_list s"
  "dpm_noirq_list (resume_early_failed d state error s) = dpm_noirq_list s"
  "async_pending (resume_early_failed d state error s) = async_pending s"
  "dpm_list (resume_failed d state error s) = dpm_list s"
  "dpm_prepared_list (resume_failed d state error s) = dpm_prepared_list s"
  "dpm_suspended_list (resume_failed d state error s) = dpm_suspended_list s"
  "dpm_late_early_list (resume_failed d state error s) = dpm_late_early_list s"
  "dpm_noirq_list (resume_failed d state error s) = dpm_noirq_list s"
  "async_pending (resume_failed d state error s) = async_pending s"
  "entry_empty (resume_failed d state error s) x = entry_empty s x"
  by (simp_all add: resume_noirq_failed_def resume_early_failed_def resume_failed_def Let_def
        entry_empty_def)

text \<open>The first loop of a resume phase: \<open>list_for_each_entry\<close> over the list of the phase.\<close>

definition resume_dispatch :: "env \<Rightarrow> async_func \<Rightarrow> nat list \<Rightarrow> dpm_state \<Rightarrow> dpm_state" where
  "resume_dispatch env func ds s =
     fold (\<lambda>d s. let s = reinit_completion d s
                  in if is_async env s d then async_schedule func d s else s) ds s"

lemma resume_dispatch_frame [simp]:
  "dpm_list (resume_dispatch env func ds s) = dpm_list s"
  "dpm_prepared_list (resume_dispatch env func ds s) = dpm_prepared_list s"
  "dpm_suspended_list (resume_dispatch env func ds s) = dpm_suspended_list s"
  "dpm_late_early_list (resume_dispatch env func ds s) = dpm_late_early_list s"
  "dpm_noirq_list (resume_dispatch env func ds s) = dpm_noirq_list s"
  by (simp_all add: resume_dispatch_def fold_frame Let_def async_schedule_def)

function dpm_noirq_resume_loop :: "env \<Rightarrow> pm_message_t \<Rightarrow> dpm_state \<Rightarrow> dpm_state" where
  "dpm_noirq_resume_loop env state s =
     (if dpm_noirq_list s = [] then s
      else
        let d = hd (dpm_noirq_list s);
            s = list_move_tail d DPM_LATE_EARLY_LIST s;
            s = async_workers env s;
            s = (if \<not> is_async env s d
                 then let (error, s) = device_resume_noirq env d state False s
                      in if error \<noteq> 0 then resume_noirq_failed d state error s else s
                 else s);
            s = async_workers env s
        in dpm_noirq_resume_loop env state s)"
  by pat_completeness auto
termination
  by (relation "measure (\<lambda>(env, state, s). length (dpm_noirq_list s))")
     (auto simp: split_def Let_def)

declare dpm_noirq_resume_loop.simps [simp del]

definition dpm_noirq_resume_devices :: "env \<Rightarrow> pm_message_t \<Rightarrow> dpm_state \<Rightarrow> dpm_state" where
  "dpm_noirq_resume_devices env state s =
     (let s = emit (Trace_suspend_resume ''dpm_resume_noirq'' (event state) True) s;
          s = s\<lparr>pm_transition := state\<rparr>;
          s = resume_dispatch env ASYNC_RESUME_NOIRQ (dpm_noirq_list s) s;
          s = dpm_noirq_resume_loop env state s;
          s = async_synchronize_full env s
      in emit (Trace_suspend_resume ''dpm_resume_noirq'' (event state) False) s)"

definition dpm_noirq_end :: "dpm_state \<Rightarrow> dpm_state" where
  "dpm_noirq_end s =
     emit (Ext ''cpuidle_resume'')
       (emit (Ext ''device_wakeup_disarm_wake_irqs'') (emit (Ext ''resume_device_irqs'') s))"

definition dpm_resume_noirq :: "env \<Rightarrow> pm_message_t \<Rightarrow> dpm_state \<Rightarrow> dpm_state" where
  "dpm_resume_noirq env state s = dpm_noirq_end (dpm_noirq_resume_devices env state s)"

function dpm_resume_early_loop :: "env \<Rightarrow> pm_message_t \<Rightarrow> dpm_state \<Rightarrow> dpm_state" where
  "dpm_resume_early_loop env state s =
     (if dpm_late_early_list s = [] then s
      else
        let d = hd (dpm_late_early_list s);
            s = list_move_tail d DPM_SUSPENDED_LIST s;
            s = async_workers env s;
            s = (if \<not> is_async env s d
                 then let (error, s) = device_resume_early env d state False s
                      in if error \<noteq> 0 then resume_early_failed d state error s else s
                 else s);
            s = async_workers env s
        in dpm_resume_early_loop env state s)"
  by pat_completeness auto
termination
  by (relation "measure (\<lambda>(env, state, s). length (dpm_late_early_list s))")
     (auto simp: split_def Let_def)

declare dpm_resume_early_loop.simps [simp del]

definition dpm_resume_early :: "env \<Rightarrow> pm_message_t \<Rightarrow> dpm_state \<Rightarrow> dpm_state" where
  "dpm_resume_early env state s =
     (let s = emit (Trace_suspend_resume ''dpm_resume_early'' (event state) True) s;
          s = s\<lparr>pm_transition := state\<rparr>;
          s = resume_dispatch env ASYNC_RESUME_EARLY (dpm_late_early_list s) s;
          s = dpm_resume_early_loop env state s;
          s = async_synchronize_full env s
      in emit (Trace_suspend_resume ''dpm_resume_early'' (event state) False) s)"

definition dpm_resume_start :: "env \<Rightarrow> pm_message_t \<Rightarrow> dpm_state \<Rightarrow> dpm_state" where
  "dpm_resume_start env state s = dpm_resume_early env state (dpm_resume_noirq env state s)"

function dpm_resume_loop :: "env \<Rightarrow> pm_message_t \<Rightarrow> dpm_state \<Rightarrow> dpm_state" where
  "dpm_resume_loop env state s =
     (if dpm_suspended_list s = [] then s
      else
        let d = hd (dpm_suspended_list s);
            s = async_workers env s;
            s = (if \<not> is_async env s d
                 then let (error, s) = device_resume env d state False s
                      in if error \<noteq> 0 then resume_failed d state error s else s
                 else s);
            s = async_workers env s;
            s = (if \<not> entry_empty s d then list_move_tail d DPM_PREPARED_LIST s else s)
        in dpm_resume_loop env state s)"
  by pat_completeness auto
termination
  by (relation "measure (\<lambda>(env, state, s). length (dpm_suspended_list s))")
     (auto simp: split_def Let_def)

declare dpm_resume_loop.simps [simp del]

definition dpm_resume :: "env \<Rightarrow> pm_message_t \<Rightarrow> dpm_state \<Rightarrow> dpm_state" where
  "dpm_resume env state s =
     (let s = emit (Trace_suspend_resume ''dpm_resume'' (event state) True) s;
          s = s\<lparr>pm_transition := state, async_error := 0\<rparr>;
          s = resume_dispatch env ASYNC_RESUME (dpm_suspended_list s) s;
          s = dpm_resume_loop env state s;
          s = async_synchronize_full env s;
          s = emit (Ext ''cpufreq_resume'') s
      in emit (Trace_suspend_resume ''dpm_resume'' (event state) False) s)"

text \<open>
  \<open>dpm_complete\<close> moves each device to the front of a list of its own and splices that
  list in front of \<open>dpm_list\<close> at the end.
\<close>

function dpm_complete_loop :: "env \<Rightarrow> pm_message_t \<Rightarrow> nat list \<Rightarrow> dpm_state \<Rightarrow> nat list \<times> dpm_state" where
  "dpm_complete_loop env state list s =
     (if dpm_prepared_list s = [] then (list, s)
      else
        let d = last (dpm_prepared_list s);
            s = upd_power d (\<lambda>p. p\<lparr>is_prepared := False\<rparr>) s;
            s = list_del d s;
            list = d # list;
            s = emit (Trace_device_pm_callback_start d (Some []) (event state)) s;
            s = device_complete env d state s;
            s = emit (Trace_device_pm_callback_end d 0) s
        in dpm_complete_loop env state list s)"
  by pat_completeness auto
termination
  by (relation "measure (\<lambda>(env, state, list, s). length (dpm_prepared_list s))")
     (auto simp: split_def Let_def)

declare dpm_complete_loop.simps [simp del]

definition dpm_complete :: "env \<Rightarrow> pm_message_t \<Rightarrow> dpm_state \<Rightarrow> dpm_state" where
  "dpm_complete env state s =
     (let s = emit (Trace_suspend_resume ''dpm_complete'' (event state) True) s;
          (list, s) = dpm_complete_loop env state [] s;
          s = s\<lparr>dpm_list := list @ dpm_list s\<rparr>;
          s = emit (Ext ''device_unblock_probing'') s
      in emit (Trace_suspend_resume ''dpm_complete'' (event state) False) s)"

definition dpm_resume_end :: "env \<Rightarrow> pm_message_t \<Rightarrow> dpm_state \<Rightarrow> dpm_state" where
  "dpm_resume_end env state s = dpm_complete env state (dpm_resume env state s)"

subsection \<open>The phases of suspend\<close>

text \<open>
  The loops below carry the local variable \<open>error\<close>. The worker threads take a turn
  before the per-device call, where the main thread has given up \<open>dpm_list_mtx\<close>, and
  after it, before the main thread takes the lock again and reads \<open>async_error\<close>.
\<close>

lemma pair_eq_iff: "((a, b) = p) = (a = fst p \<and> b = snd p)"
  by auto

definition dpm_noirq_begin :: "dpm_state \<Rightarrow> dpm_state" where
  "dpm_noirq_begin s =
     emit (Ext ''suspend_device_irqs'')
       (emit (Ext ''device_wakeup_arm_wake_irqs'') (emit (Ext ''cpuidle_pause'') s))"

function dpm_noirq_suspend_loop :: "env \<Rightarrow> pm_message_t \<Rightarrow> int \<Rightarrow> dpm_state \<Rightarrow> int \<times> dpm_state" where
  "dpm_noirq_suspend_loop env state error s =
     (if dpm_late_early_list s = [] then (error, s)
      else
        let d = last (dpm_late_early_list s);
            s = async_workers env s;
            (error, s) = device_suspend_noirq env d s;
            s = async_workers env s
        in if error \<noteq> 0
           then (error, dpm_save_failed_dev (dev_name (devices s d))
                          (pm_dev_err d state '' noirq'' error s))
           else
             let s = (if \<not> entry_empty s d then list_move d DPM_NOIRQ_LIST s else s)
             in if async_error s \<noteq> 0 then (error, s)
                else dpm_noirq_suspend_loop env state error s)"
  by pat_completeness auto
termination
  by (relation "measure (\<lambda>(env, state, error, s). length (dpm_late_early_list s))")
     (auto simp: split_def Let_def pair_eq_iff)

declare dpm_noirq_suspend_loop.simps [simp del]

definition dpm_noirq_suspend_devices :: "env \<Rightarrow> pm_message_t \<Rightarrow> dpm_state \<Rightarrow> int \<times> dpm_state" where
  "dpm_noirq_suspend_devices env state s =
     (let s = emit (Trace_suspend_resume ''dpm_suspend_noirq'' (event state) True) s;
          s = s\<lparr>pm_transition := state, async_error := 0\<rparr>;
          (error, s) = dpm_noirq_suspend_loop env state 0 s;
          s = async_synchronize_full env s;
          error = (if error = 0 then async_error s else error);
          s = (if error \<noteq> 0
               then dpm_save_failed_step SUSPEND_SUSPEND_NOIRQ
                      (upd_stats (\<lambda>t. t\<lparr>failed_suspend_noirq := incr (failed_suspend_noirq t)\<rparr>) s)
               else s)
      in (error, emit (Trace_suspend_resume ''dpm_suspend_noirq'' (event state) False) s))"

definition dpm_suspend_noirq :: "env \<Rightarrow> pm_message_t \<Rightarrow> dpm_state \<Rightarrow> int \<times> dpm_state" where
  "dpm_suspend_noirq env state s =
     (let s = dpm_noirq_begin s;
          (ret, s) = dpm_noirq_suspend_devices env state s;
          s = (if ret \<noteq> 0 then dpm_resume_noirq env (resume_event state) s else s)
      in (ret, s))"

function dpm_suspend_late_loop :: "env \<Rightarrow> pm_message_t \<Rightarrow> int \<Rightarrow> dpm_state \<Rightarrow> int \<times> dpm_state" where
  "dpm_suspend_late_loop env state error s =
     (if dpm_suspended_list s = [] then (error, s)
      else
        let d = last (dpm_suspended_list s);
            s = async_workers env s;
            (error, s) = device_suspend_late env d s;
            s = async_workers env s;
            s = (if \<not> entry_empty s d then list_move d DPM_LATE_EARLY_LIST s else s)
        in if error \<noteq> 0
           then (error, dpm_save_failed_dev (dev_name (devices s d))
                          (pm_dev_err d state '' late'' error s))
           else if async_error s \<noteq> 0 then (error, s)
           else dpm_suspend_late_loop env state error s)"
  by pat_completeness auto
termination
  by (relation "measure (\<lambda>(env, state, error, s). length (dpm_suspended_list s))")
     (auto simp: split_def Let_def pair_eq_iff)

declare dpm_suspend_late_loop.simps [simp del]

definition dpm_suspend_late :: "env \<Rightarrow> pm_message_t \<Rightarrow> dpm_state \<Rightarrow> int \<times> dpm_state" where
  "dpm_suspend_late env state s =
     (let s = emit (Trace_suspend_resume ''dpm_suspend_late'' (event state) True) s;
          s = s\<lparr>pm_transition := state, async_error := 0\<rparr>;
          (error, s) = dpm_suspend_late_loop env state 0 s;
          s = async_synchronize_full env s;
          error = (if error = 0 then async_error s else error);
          s = (if error \<noteq> 0
               then dpm_resume_early env (resume_event state)
                      (dpm_save_failed_step SUSPEND_SUSPEND_LATE
                        (upd_stats (\<lambda>t. t\<lparr>failed_suspend_late := incr (failed_suspend_late t)\<rparr>) s))
               else s)
      in (error, emit (Trace_suspend_resume ''dpm_suspend_late'' (event state) False) s))"

definition dpm_suspend_end :: "env \<Rightarrow> pm_message_t \<Rightarrow> dpm_state \<Rightarrow> int \<times> dpm_state" where
  "dpm_suspend_end env state s =
     (let (error, s) = dpm_suspend_late env state s
      in if error \<noteq> 0 then (error, s)
         else
           let (error, s) = dpm_suspend_noirq env state s
           in if error \<noteq> 0 then (error, dpm_resume_early env (resume_event state) s)
              else (0, s))"

function dpm_suspend_loop :: "env \<Rightarrow> pm_message_t \<Rightarrow> int \<Rightarrow> dpm_state \<Rightarrow> int \<times> dpm_state" where
  "dpm_suspend_loop env state error s =
     (if dpm_prepared_list s = [] then (error, s)
      else
        let d = last (dpm_prepared_list s);
            s = async_workers env s;
            (error, s) = device_suspend env d s;
            s = async_workers env s
        in if error \<noteq> 0
           then (error, dpm_save_failed_dev (dev_name (devices s d))
                          (pm_dev_err d state [] error s))
           else
             let s = (if \<not> entry_empty s d then list_move d DPM_SUSPENDED_LIST s else s)
             in if async_error s \<noteq> 0 then (error, s)
                else dpm_suspend_loop env state error s)"
  by pat_completeness auto
termination
  by (relation "measure (\<lambda>(env, state, error, s). length (dpm_prepared_list s))")
     (auto simp: split_def Let_def pair_eq_iff)

declare dpm_suspend_loop.simps [simp del]

definition dpm_suspend :: "env \<Rightarrow> pm_message_t \<Rightarrow> dpm_state \<Rightarrow> int \<times> dpm_state" where
  "dpm_suspend env state s =
     (let s = emit (Trace_suspend_resume ''dpm_suspend'' (event state) True) s;
          s = emit (Ext ''cpufreq_suspend'') s;
          s = s\<lparr>pm_transition := state, async_error := 0\<rparr>;
          (error, s) = dpm_suspend_loop env state 0 s;
          s = async_synchronize_full env s;
          error = (if error = 0 then async_error s else error);
          s = (if error \<noteq> 0
               then dpm_save_failed_step SUSPEND_SUSPEND
                      (upd_stats (\<lambda>t. t\<lparr>failed_suspend := incr (failed_suspend t)\<rparr>) s)
               else s)
      in (error, emit (Trace_suspend_resume ''dpm_suspend'' (event state) False) s))"

subsection \<open>The prepare phase\<close>

text \<open>
  The loop of \<open>dpm_prepare\<close> takes the first device of \<open>dpm_list\<close> and leaves it there
  when \<open>device_prepare\<close> returns \<open>-EAGAIN\<close>, so it need not terminate: the result is
  \<open>None\<close> when it does not.
\<close>

partial_function (option) dpm_prepare_loop ::
  "env \<Rightarrow> pm_message_t \<Rightarrow> int \<Rightarrow> dpm_state \<Rightarrow> (int \<times> dpm_state) option" where
  "dpm_prepare_loop env state error s =
     (if dpm_list s = [] then Some (error, s)
      else
        let d = hd (dpm_list s);
            s = emit (Trace_device_pm_callback_start d (Some []) (event state)) s;
            (error, s) = device_prepare env d state s;
            s = emit (Trace_device_pm_callback_end d error) s
        in if error \<noteq> 0
           then if error = - EAGAIN then dpm_prepare_loop env state 0 s
                else Some (error, dpm_save_failed_dev (dev_name (devices s d)) s)
           else
             let s = upd_power d (\<lambda>p. p\<lparr>is_prepared := True\<rparr>) s;
                 s = (if \<not> entry_empty s d then list_move_tail d DPM_PREPARED_LIST s else s)
             in dpm_prepare_loop env state error s)"

definition dpm_prepare :: "env \<Rightarrow> pm_message_t \<Rightarrow> dpm_state \<Rightarrow> (int \<times> dpm_state) option" where
  "dpm_prepare env state s =
     (let s = emit (Trace_suspend_resume ''dpm_prepare'' (event state) True) s;
          s = emit (Ext ''wait_for_device_probe'') s;
          s = emit (Ext ''device_block_probing'') s
      in case dpm_prepare_loop env state 0 s of
           None \<Rightarrow> None
         | Some (error, s) \<Rightarrow>
             Some (error, emit (Trace_suspend_resume ''dpm_prepare'' (event state) False) s))"

definition dpm_suspend_start :: "env \<Rightarrow> pm_message_t \<Rightarrow> dpm_state \<Rightarrow> (int \<times> dpm_state) option" where
  "dpm_suspend_start env state s =
     (case dpm_prepare env state s of
        None \<Rightarrow> None
      | Some (error, s) \<Rightarrow>
          if error \<noteq> 0
          then Some (error, dpm_save_failed_step SUSPEND_PREPARE
                 (upd_stats (\<lambda>t. t\<lparr>failed_prepare := incr (failed_prepare t)\<rparr>) s))
          else Some (dpm_suspend env state s))"

subsection \<open>Concrete devices and states\<close>

text \<open>
  A table with no callback, a device with no layer above the driver, the state with no
  device on any list, and an environment in which every callback returns zero and the
  calls handed to the pool run at \<open>async_synchronize_full\<close>.
\<close>

definition no_ops :: dev_pm_ops where
  "no_ops = \<lparr>prepare = None, complete = None, suspend = None, resume = None, freeze = None,
     thaw = None, poweroff = None, restore = None, suspend_late = None, resume_early = None,
     freeze_late = None, thaw_early = None, poweroff_late = None, restore_early = None,
     suspend_noirq = None, resume_noirq = None, freeze_noirq = None, thaw_noirq = None,
     poweroff_noirq = None, restore_noirq = None\<rparr>"

definition plain_power :: dev_pm_info where
  "plain_power = \<lparr>can_wakeup = False, power_async_suspend = False, in_dpm_list = True,
     is_prepared = False, is_suspended = False, is_noirq_suspended = False,
     is_late_suspended = False, no_pm = False, ignore_children = False,
     direct_complete = False, wakeup_path = False, syscore = False, no_pm_callbacks = False,
     completion = True, wakeup = None\<rparr>"

definition plain_device :: "string \<Rightarrow> dev_pm_ops \<Rightarrow> device" where
  "plain_device name ops = \<lparr>dev_name = name, dev_parent = None, dev_pm_domain = None,
     dev_type = None, dev_class = None, dev_bus = None,
     dev_driver = Some \<lparr>driver_pm = Some ops, driver_suspend = None, driver_resume = None\<rparr>,
     dev_suppliers = [], dev_power = plain_power\<rparr>"

definition empty_state :: dpm_state where
  "empty_state = \<lparr>devices = (\<lambda>d. plain_device [] no_ops), dpm_list = [],
     dpm_prepared_list = [], dpm_suspended_list = [], dpm_late_early_list = [],
     dpm_noirq_list = [],
     suspend_stats = \<lparr>failed_prepare = 0, failed_suspend = 0, failed_suspend_late = 0,
       failed_suspend_noirq = 0, failed_resume = 0, failed_resume_early = 0,
       failed_resume_noirq = 0, last_failed_dev = [], last_failed_step = SUSPEND_NO_STEP\<rparr>,
     pm_transition = PMSG_ON, async_error = 0, async_pending = [], trace = []\<rparr>"

definition plain_env :: env where
  "plain_env = \<lparr>CONFIG_SUSPEND = True, CONFIG_HIBERNATE_CALLBACKS = False,
     pm_async_enabled = False, pm_trace_is_enabled = False,
     pm_wakeup_pending = (\<lambda>s. False),
     pm_runtime_status_suspended = (\<lambda>d disabled s. False),
     cb_ret = (\<lambda>f d s. 0), legacy_ret = (\<lambda>f d state s. 0),
     scheduler = (\<lambda>s task. False)\<rparr>"

text \<open>An environment in which the callback at address \<open>bad\<close> returns \<open>-EIO\<close>.\<close>

definition failing_env :: "nat \<Rightarrow> env" where
  "failing_env bad = plain_env\<lparr>cb_ret := (\<lambda>f d s. if f = bad then - 5 else 0)\<rparr>"

subsection \<open>Reading the state after an update\<close>

lemma upd_power_simps [simp]:
  "devices (upd_power d f s) x =
     (if x = d then (devices s d)\<lparr>dev_power := f (dev_power (devices s d))\<rparr> else devices s x)"
  "pwr (upd_power d f s) x = (if x = d then f (pwr s d) else pwr s x)"
  "trace (upd_power d f s) = trace s"
  "async_error (upd_power d f s) = async_error s"
  "suspend_stats (upd_power d f s) = suspend_stats s"
  "pm_transition (upd_power d f s) = pm_transition s"
  by (simp_all add: upd_power_def pwr_def)

lemma emit_simps [simp]:
  "devices (emit e s) = devices s"
  "pwr (emit e s) = pwr s"
  "trace (emit e s) = trace s @ [e]"
  "async_error (emit e s) = async_error s"
  "suspend_stats (emit e s) = suspend_stats s"
  "pm_transition (emit e s) = pm_transition s"
  by (simp_all add: emit_def pwr_def fun_eq_iff)

lemma upd_stats_simps [simp]:
  "devices (upd_stats g s) = devices s"
  "pwr (upd_stats g s) = pwr s"
  "trace (upd_stats g s) = trace s"
  "async_error (upd_stats g s) = async_error s"
  "suspend_stats (upd_stats g s) = g (suspend_stats s)"
  "pm_transition (upd_stats g s) = pm_transition s"
  by (simp_all add: upd_stats_def pwr_def fun_eq_iff)

lemma pwr_record_simps [simp]:
  "pwr (s\<lparr>async_error := e\<rparr>) = pwr s"
  "pwr (s\<lparr>trace := t\<rparr>) = pwr s"
  "pwr (s\<lparr>async_pending := q\<rparr>) = pwr s"
  "pwr (s\<lparr>pm_transition := m\<rparr>) = pwr s"
  "pwr (s\<lparr>suspend_stats := st\<rparr>) = pwr s"
  "pwr (s\<lparr>dpm_list := l\<rparr>) = pwr s"
  "pwr (list_del d s) = pwr s"
  "pwr (list_move d l' s) = pwr s"
  "pwr (list_move_tail d l' s) = pwr s"
  by (cases l'; simp add: pwr_def fun_eq_iff list_del_def list_move_def list_move_tail_def
        list_add_def list_add_tail_def set_list_def)+

lemma list_ops_simps [simp]:
  "trace (list_del d s) = trace s"
  "trace (list_move d l s) = trace s"
  "trace (list_move_tail d l s) = trace s"
  "async_error (list_del d s) = async_error s"
  "async_error (list_move d l s) = async_error s"
  "async_error (list_move_tail d l s) = async_error s"
  "suspend_stats (list_del d s) = suspend_stats s"
  "suspend_stats (list_move d l s) = suspend_stats s"
  "suspend_stats (list_move_tail d l s) = suspend_stats s"
  "pm_transition (list_del d s) = pm_transition s"
  "pm_transition (list_move d l s) = pm_transition s"
  "pm_transition (list_move_tail d l s) = pm_transition s"
  "devices (list_del d s) = devices s"
  "devices (list_move d l s) = devices s"
  "devices (list_move_tail d l s) = devices s"
  by (cases l; simp add: list_del_def list_move_def list_move_tail_def list_add_def
        list_add_tail_def set_list_def)+

lemma complete_all_simps [simp]:
  "pwr (complete_all d s) x = (if x = d then (pwr s d)\<lparr>completion := True\<rparr> else pwr s x)"
  "trace (complete_all d s) = trace s"
  "async_error (complete_all d s) = async_error s"
  "suspend_stats (complete_all d s) = suspend_stats s"
  "pm_transition (complete_all d s) = pm_transition s"
  by (simp_all add: complete_all_def)

lemma reinit_completion_simps [simp]:
  "pwr (reinit_completion d s) x = (if x = d then (pwr s d)\<lparr>completion := False\<rparr> else pwr s x)"
  "trace (reinit_completion d s) = trace s"
  "async_error (reinit_completion d s) = async_error s"
  "suspend_stats (reinit_completion d s) = suspend_stats s"
  "pm_transition (reinit_completion d s) = pm_transition s"
  by (simp_all add: reinit_completion_def)

lemma pm_dev_err_simps [simp]:
  "devices (pm_dev_err d state info error s) = devices s"
  "pwr (pm_dev_err d state info error s) = pwr s"
  "trace (pm_dev_err d state info error s) = trace s @ [Pm_dev_err d (event state) info error]"
  "async_error (pm_dev_err d state info error s) = async_error s"
  "suspend_stats (pm_dev_err d state info error s) = suspend_stats s"
  "pm_transition (pm_dev_err d state info error s) = pm_transition s"
  by (simp_all add: pm_dev_err_def)

lemma dpm_save_failed_simps [simp]:
  "devices (dpm_save_failed_dev name s) = devices s"
  "pwr (dpm_save_failed_dev name s) = pwr s"
  "trace (dpm_save_failed_dev name s) = trace s"
  "async_error (dpm_save_failed_dev name s) = async_error s"
  "pm_transition (dpm_save_failed_dev name s) = pm_transition s"
  "devices (dpm_save_failed_step step s) = devices s"
  "pwr (dpm_save_failed_step step s) = pwr s"
  "trace (dpm_save_failed_step step s) = trace s"
  "async_error (dpm_save_failed_step step s) = async_error s"
  "pm_transition (dpm_save_failed_step step s) = pm_transition s"
  by (simp_all add: dpm_save_failed_dev_def dpm_save_failed_step_def)

text \<open>The choice of the callback reads the layers of a device, not its \<open>power\<close> member.\<close>

lemma layer_ops_power_update [simp]:
  "type_ops (dv\<lparr>dev_power := p\<rparr>) = type_ops dv"
  "class_ops (dv\<lparr>dev_power := p\<rparr>) = class_ops dv"
  "bus_ops (dv\<lparr>dev_power := p\<rparr>) = bus_ops dv"
  "driver_ops (dv\<lparr>dev_power := p\<rparr>) = driver_ops dv"
  by (simp_all add: type_ops_def class_ops_def bus_ops_def driver_ops_def)

lemma layers_power_update [simp]:
  "select_callback sel (dv\<lparr>dev_power := p\<rparr>) = select_callback sel dv"
  "resume_callback env (dv\<lparr>dev_power := p\<rparr>) state = resume_callback env dv state"
  "suspend_callback env (dv\<lparr>dev_power := p\<rparr>) state = suspend_callback env dv state"
  by (simp_all add: select_callback_def resume_callback_def suspend_callback_def
        cong: option.case_cong)

text \<open>
  A callback changes nothing but the trace: \<open>dpm_run_callback\<close> adds the two tracepoints
  and the call when the pointer is set, and nothing when it is \<open>NULL\<close>.
\<close>

lemma dpm_run_callback_simps [simp]:
  "devices (snd (dpm_run_callback env cb d state info s)) = devices s"
  "pwr (snd (dpm_run_callback env cb d state info s)) = pwr s"
  "async_error (snd (dpm_run_callback env cb d state info s)) = async_error s"
  "suspend_stats (snd (dpm_run_callback env cb d state info s)) = suspend_stats s"
  "pm_transition (snd (dpm_run_callback env cb d state info s)) = pm_transition s"
  by (simp_all add: dpm_run_callback_def Let_def split: option.split)

lemma dpm_run_callback_None [simp]: "dpm_run_callback env None d state info s = (0, s)"
  by (simp add: dpm_run_callback_def)

lemma dpm_run_callback_Some:
  "dpm_run_callback env (Some f) d state info s =
     (cb_ret env f d (emit (Trace_device_pm_callback_start d info (event state)) s),
      s\<lparr>trace := trace s @ [Trace_device_pm_callback_start d info (event state), Callback f d,
           Trace_device_pm_callback_end d
             (cb_ret env f d (emit (Trace_device_pm_callback_start d info (event state)) s))]\<rparr>)"
  by (simp add: dpm_run_callback_def Let_def emit_def)

subsection \<open>What a per-device function does to the flags it does not own\<close>

text \<open>
  Every per-device function ends by completing the completion of its device, on every
  path, and none of them writes \<open>power_async_suspend\<close>.
\<close>

lemma fold_upd_power_field:
  assumes "\<And>p. h (g p) = h p"
  shows "h (pwr (fold (\<lambda>x. upd_power x g) xs s) y) = h (pwr s y)"
  using assms by (induction xs arbitrary: s) simp_all

lemma clear_suppliers_fields [simp]:
  "completion (pwr (dpm_clear_suppliers_direct_complete d s) x) = completion (pwr s x)"
  "power_async_suspend (pwr (dpm_clear_suppliers_direct_complete d s) x) = power_async_suspend (pwr s x)"
  "async_error (dpm_clear_suppliers_direct_complete d s) = async_error s"
  unfolding dpm_clear_suppliers_direct_complete_def
    apply (rule fold_upd_power_field, simp)
   apply (rule fold_upd_power_field, simp)
  apply (rule fold_frame, simp)
  done

lemma suspend_End_ok_fields [simp]:
  "completion (pwr (suspend_End_ok d s) x) = completion (pwr s x)"
  "power_async_suspend (pwr (suspend_End_ok d s) x) = power_async_suspend (pwr s x)"
  "async_error (suspend_End_ok d s) = async_error s"
  by (simp_all add: suspend_End_ok_def Let_def split: option.split)

lemma suspend_Complete_fields [simp]:
  "completion (pwr (snd (suspend_Complete d error s)) x) = (x = d \<or> completion (pwr s x))"
  "power_async_suspend (pwr (snd (suspend_Complete d error s)) x) = power_async_suspend (pwr s x)"
  by (simp_all add: suspend_Complete_def)

lemma legacy_suspend_simps [simp]:
  "devices (snd (legacy_suspend env d state cb info s)) = devices s"
  "pwr (snd (legacy_suspend env d state cb info s)) = pwr s"
  "async_error (snd (legacy_suspend env d state cb info s)) = async_error s"
  by (simp_all add: legacy_suspend_def Let_def)

lemma device_resume_noirq_fields [simp]:
  "completion (pwr (snd (device_resume_noirq env d state async s)) x) = (x = d \<or> completion (pwr s x))"
  "power_async_suspend (pwr (snd (device_resume_noirq env d state async s)) x) = power_async_suspend (pwr s x)"
  by (simp_all add: device_resume_noirq_def Let_def split_def)

lemma device_resume_early_fields [simp]:
  "completion (pwr (snd (device_resume_early env d state async s)) x) = (x = d \<or> completion (pwr s x))"
  "power_async_suspend (pwr (snd (device_resume_early env d state async s)) x) = power_async_suspend (pwr s x)"
  by (simp_all add: device_resume_early_def Let_def split_def)

lemma device_resume_fields [simp]:
  "completion (pwr (snd (device_resume env d state async s)) x) = (x = d \<or> completion (pwr s x))"
  "power_async_suspend (pwr (snd (device_resume env d state async s)) x) = power_async_suspend (pwr s x)"
  by (simp_all add: device_resume_def Let_def split_def)

lemma dunder_device_suspend_noirq_fields [simp]:
  "completion (pwr (snd (dunder_device_suspend_noirq env d state async s)) x) = (x = d \<or> completion (pwr s x))"
  "power_async_suspend (pwr (snd (dunder_device_suspend_noirq env d state async s)) x) = power_async_suspend (pwr s x)"
  by (simp_all add: dunder_device_suspend_noirq_def Let_def split_def)

lemma dunder_device_suspend_late_fields [simp]:
  "completion (pwr (snd (dunder_device_suspend_late env d state async s)) x) = (x = d \<or> completion (pwr s x))"
  "power_async_suspend (pwr (snd (dunder_device_suspend_late env d state async s)) x) = power_async_suspend (pwr s x)"
  by (simp_all add: dunder_device_suspend_late_def Let_def split_def)

lemma dunder_device_suspend_fields [simp]:
  "completion (pwr (snd (dunder_device_suspend env d state async s)) x) = (x = d \<or> completion (pwr s x))"
  "power_async_suspend (pwr (snd (dunder_device_suspend env d state async s)) x) = power_async_suspend (pwr s x)"
  by (simp_all add: dunder_device_suspend_def Let_def split_def split: suspend_choice.split)

lemma async_resume_noirq_fields [simp]:
  "completion (pwr (async_resume_noirq env d s) x) = (x = d \<or> completion (pwr s x))"
  "power_async_suspend (pwr (async_resume_noirq env d s) x) = power_async_suspend (pwr s x)"
  by (simp_all add: async_resume_noirq_def Let_def split_def)

lemma async_resume_early_fields [simp]:
  "completion (pwr (async_resume_early env d s) x) = (x = d \<or> completion (pwr s x))"
  "power_async_suspend (pwr (async_resume_early env d s) x) = power_async_suspend (pwr s x)"
  by (simp_all add: async_resume_early_def Let_def split_def)

lemma async_resume_fields [simp]:
  "completion (pwr (async_resume env d s) x) = (x = d \<or> completion (pwr s x))"
  "power_async_suspend (pwr (async_resume env d s) x) = power_async_suspend (pwr s x)"
  by (simp_all add: async_resume_def Let_def split_def)

lemma async_suspend_noirq_fields [simp]:
  "completion (pwr (async_suspend_noirq env d s) x) = (x = d \<or> completion (pwr s x))"
  "power_async_suspend (pwr (async_suspend_noirq env d s) x) = power_async_suspend (pwr s x)"
  by (simp_all add: async_suspend_noirq_def Let_def split_def)

lemma async_suspend_late_fields [simp]:
  "completion (pwr (async_suspend_late env d s) x) = (x = d \<or> completion (pwr s x))"
  "power_async_suspend (pwr (async_suspend_late env d s) x) = power_async_suspend (pwr s x)"
  by (simp_all add: async_suspend_late_def Let_def split_def)

lemma async_suspend_fields [simp]:
  "completion (pwr (async_suspend env d s) x) = (x = d \<or> completion (pwr s x))"
  "power_async_suspend (pwr (async_suspend env d s) x) = power_async_suspend (pwr s x)"
  by (simp_all add: async_suspend_def Let_def split_def)

lemma run_task_fields [simp]:
  "completion (pwr (run_task env (f, d) s) x) = (x = d \<or> completion (pwr s x))"
  "power_async_suspend (pwr (run_task env task s) x) = power_async_suspend (pwr s x)"
  by (cases f; simp add: run_task_def split: prod.split async_func.split)+

lemma is_async_frame [simp]:
  "is_async env (upd_power d (\<lambda>p. p\<lparr>completion := b\<rparr>) s) x = is_async env s x"
  "is_async env (complete_all d s) x = is_async env s x"
  "is_async env (reinit_completion d s) x = is_async env s x"
  "is_async env (list_move_tail d l s) x = is_async env s x"
  "is_async env (list_move d l s) x = is_async env s x"
  "is_async env (list_del d s) x = is_async env s x"
  "is_async env (emit e s) x = is_async env s x"
  "is_async env (run_task env task s) x = is_async env s x"
  by (simp_all add: is_async_def complete_all_def reinit_completion_def)

text \<open>The tasks of the pool, run one after the other.\<close>

lemma fold_run_task_fields [simp]:
  "completion (pwr (fold (run_task env) tasks s) x) = (x \<in> snd ` set tasks \<or> completion (pwr s x))"
  "power_async_suspend (pwr (fold (run_task env) tasks s) x) = power_async_suspend (pwr s x)"
  "async_pending (fold (run_task env) tasks s) = async_pending s"
  by (induction tasks arbitrary: s; force)+

lemma async_workers_fields [simp]:
  "completion (pwr (async_workers env s) x) =
     (x \<in> snd ` set (filter (scheduler env s) (async_pending s)) \<or> completion (pwr s x))"
  "power_async_suspend (pwr (async_workers env s) x) = power_async_suspend (pwr s x)"
  "async_pending (async_workers env s) = filter (\<lambda>task. \<not> scheduler env s task) (async_pending s)"
  by (simp_all add: async_workers_def)

lemma is_async_workers [simp]: "is_async env (async_workers env s) x = is_async env s x"
  by (simp add: is_async_def)

lemma async_workers_idle: "async_pending s = [] \<Longrightarrow> async_workers env s = s"
  by (simp add: async_workers_def)

lemma async_synchronize_full_fields [simp]:
  "completion (pwr (async_synchronize_full env s) x) =
     (x \<in> snd ` set (async_pending s) \<or> completion (pwr s x))"
  "power_async_suspend (pwr (async_synchronize_full env s) x) = power_async_suspend (pwr s x)"
  by (simp_all add: async_synchronize_full_def)

lemma record_update_pwr [simp]:
  "is_async env (s\<lparr>async_pending := q\<rparr>) x = is_async env s x"
  "is_async env (s\<lparr>pm_transition := m\<rparr>) x = is_async env s x"
  "is_async env (s\<lparr>async_error := e\<rparr>) x = is_async env s x"
  by (simp_all add: is_async_def)

lemma resume_failed_simps [simp]:
  "pwr (resume_noirq_failed d state error s) = pwr s"
  "pwr (resume_early_failed d state error s) = pwr s"
  "pwr (resume_failed d state error s) = pwr s"
  "devices (resume_noirq_failed d state error s) = devices s"
  "devices (resume_early_failed d state error s) = devices s"
  "devices (resume_failed d state error s) = devices s"
  "async_error (resume_noirq_failed d state error s) = async_error s"
  "async_error (resume_early_failed d state error s) = async_error s"
  "async_error (resume_failed d state error s) = async_error s"
  "trace (resume_noirq_failed d state error s) =
     trace s @ [Pm_dev_err d (event state) '' noirq'' error]"
  "trace (resume_early_failed d state error s) =
     trace s @ [Pm_dev_err d (event state) '' early'' error]"
  "trace (resume_failed d state error s) = trace s @ [Pm_dev_err d (event state) [] error]"
  by (simp_all add: resume_noirq_failed_def resume_early_failed_def resume_failed_def Let_def)

lemma is_async_failed [simp]:
  "is_async env (resume_noirq_failed d state error s) x = is_async env s x"
  "is_async env (resume_early_failed d state error s) x = is_async env s x"
  "is_async env (resume_failed d state error s) x = is_async env s x"
  by (simp_all add: is_async_def)

text \<open>
  A device is \<open>pending_or_done\<close> when its completion has been completed or a call for it
  is pending in the pool. A turn of the worker threads does not change that, and
  \<open>async_synchronize_full\<close> turns it into a completed completion.
\<close>

definition pending_or_done :: "dpm_state \<Rightarrow> nat \<Rightarrow> bool" where
  "pending_or_done s x = (completion (pwr s x) \<or> x \<in> snd ` set (async_pending s))"

lemma pending_or_done_workers [simp]:
  "pending_or_done (async_workers env s) x = pending_or_done s x"
  by (auto simp: pending_or_done_def)

lemma pending_or_done_barrier [simp]:
  "completion (pwr (async_synchronize_full env s) x) = pending_or_done s x"
  by (auto simp: pending_or_done_def)

lemma pending_or_done_resume [simp]:
  "pending_or_done (snd (device_resume_noirq env d state async s)) x = (x = d \<or> pending_or_done s x)"
  "pending_or_done (snd (device_resume_early env d state async s)) x = (x = d \<or> pending_or_done s x)"
  "pending_or_done (snd (device_resume env d state async s)) x = (x = d \<or> pending_or_done s x)"
  by (auto simp: pending_or_done_def)

lemma pending_or_done_suspend [simp]:
  "pending_or_done (snd (device_suspend env d s)) x = (x = d \<or> pending_or_done s x)"
  "pending_or_done (snd (device_suspend_late env d s)) x = (x = d \<or> pending_or_done s x)"
  "pending_or_done (snd (device_suspend_noirq env d s)) x = (x = d \<or> pending_or_done s x)"
  by (auto simp: pending_or_done_def device_suspend_def device_suspend_late_def
        device_suspend_noirq_def async_schedule_def Let_def)

lemma pending_or_done_frame [simp]:
  "pending_or_done (list_move_tail d l s) x = pending_or_done s x"
  "pending_or_done (list_move d l s) x = pending_or_done s x"
  "pending_or_done (emit e s) x = pending_or_done s x"
  "pending_or_done (pm_dev_err d state info error s) x = pending_or_done s x"
  "pending_or_done (dpm_save_failed_dev name s) x = pending_or_done s x"
  "pending_or_done (dpm_save_failed_step step s) x = pending_or_done s x"
  "pending_or_done (upd_stats g s) x = pending_or_done s x"
  "pending_or_done (resume_noirq_failed d state error s) x = pending_or_done s x"
  "pending_or_done (resume_early_failed d state error s) x = pending_or_done s x"
  "pending_or_done (resume_failed d state error s) x = pending_or_done s x"
  "pending_or_done (s\<lparr>pm_transition := m\<rparr>) x = pending_or_done s x"
  "pending_or_done (s\<lparr>async_error := err\<rparr>) x = pending_or_done s x"
  by (simp_all add: pending_or_done_def)

subsection \<open>One pass of each loop\<close>

text \<open>
  The body of each \<open>while\<close> loop as a function of its own, and the loop as the
  repetition of its body. These are the bodies written out in the loops above.
\<close>

definition dpm_noirq_resume_pass :: "env \<Rightarrow> pm_message_t \<Rightarrow> dpm_state \<Rightarrow> dpm_state" where
  "dpm_noirq_resume_pass env state s =
     (let d = hd (dpm_noirq_list s);
          s = list_move_tail d DPM_LATE_EARLY_LIST s;
          s = async_workers env s;
          s = (if \<not> is_async env s d
               then let (error, s) = device_resume_noirq env d state False s
                    in if error \<noteq> 0 then resume_noirq_failed d state error s else s
               else s)
      in async_workers env s)"

lemma dpm_noirq_resume_loop_empty: "dpm_noirq_list s = [] \<Longrightarrow> dpm_noirq_resume_loop env state s = s"
  by (subst dpm_noirq_resume_loop.simps) simp

lemma dpm_noirq_resume_loop_pass:
  "dpm_noirq_list s \<noteq> [] \<Longrightarrow>
     dpm_noirq_resume_loop env state s = dpm_noirq_resume_loop env state (dpm_noirq_resume_pass env state s)"
  by (subst dpm_noirq_resume_loop.simps) (simp add: dpm_noirq_resume_pass_def Let_def)

lemma dpm_noirq_resume_pass_lists [simp]:
  "dpm_noirq_list (dpm_noirq_resume_pass env state s) = removeAll (hd (dpm_noirq_list s)) (dpm_noirq_list s)"
  "dpm_late_early_list (dpm_noirq_resume_pass env state s) =
     removeAll (hd (dpm_noirq_list s)) (dpm_late_early_list s) @ [hd (dpm_noirq_list s)]"
  by (simp_all add: dpm_noirq_resume_pass_def Let_def split_def)

lemma dpm_noirq_resume_pass_fields [simp]:
  "pending_or_done (dpm_noirq_resume_pass env state s) x =
     (pending_or_done s x \<or> (x = hd (dpm_noirq_list s) \<and> \<not> is_async env s x))"
  "power_async_suspend (pwr (dpm_noirq_resume_pass env state s) x) = power_async_suspend (pwr s x)"
  "is_async env (dpm_noirq_resume_pass env state s) x = is_async env s x"
  by (auto simp: dpm_noirq_resume_pass_def Let_def split_def is_async_def)

definition dpm_resume_early_pass :: "env \<Rightarrow> pm_message_t \<Rightarrow> dpm_state \<Rightarrow> dpm_state" where
  "dpm_resume_early_pass env state s =
     (let d = hd (dpm_late_early_list s);
          s = list_move_tail d DPM_SUSPENDED_LIST s;
          s = async_workers env s;
          s = (if \<not> is_async env s d
               then let (error, s) = device_resume_early env d state False s
                    in if error \<noteq> 0 then resume_early_failed d state error s else s
               else s)
      in async_workers env s)"

lemma dpm_resume_early_loop_empty: "dpm_late_early_list s = [] \<Longrightarrow> dpm_resume_early_loop env state s = s"
  by (subst dpm_resume_early_loop.simps) simp

lemma dpm_resume_early_loop_pass:
  "dpm_late_early_list s \<noteq> [] \<Longrightarrow>
     dpm_resume_early_loop env state s = dpm_resume_early_loop env state (dpm_resume_early_pass env state s)"
  by (subst dpm_resume_early_loop.simps) (simp add: dpm_resume_early_pass_def Let_def)

lemma dpm_resume_early_pass_lists [simp]:
  "dpm_late_early_list (dpm_resume_early_pass env state s) = removeAll (hd (dpm_late_early_list s)) (dpm_late_early_list s)"
  "dpm_suspended_list (dpm_resume_early_pass env state s) =
     removeAll (hd (dpm_late_early_list s)) (dpm_suspended_list s) @ [hd (dpm_late_early_list s)]"
  by (simp_all add: dpm_resume_early_pass_def Let_def split_def)

lemma dpm_resume_early_pass_fields [simp]:
  "pending_or_done (dpm_resume_early_pass env state s) x =
     (pending_or_done s x \<or> (x = hd (dpm_late_early_list s) \<and> \<not> is_async env s x))"
  "power_async_suspend (pwr (dpm_resume_early_pass env state s) x) = power_async_suspend (pwr s x)"
  "is_async env (dpm_resume_early_pass env state s) x = is_async env s x"
  by (auto simp: dpm_resume_early_pass_def Let_def split_def is_async_def)

definition dpm_resume_pass :: "env \<Rightarrow> pm_message_t \<Rightarrow> dpm_state \<Rightarrow> dpm_state" where
  "dpm_resume_pass env state s =
     (let d = hd (dpm_suspended_list s);
          s = async_workers env s;
          s = (if \<not> is_async env s d
               then let (error, s) = device_resume env d state False s
                    in if error \<noteq> 0 then resume_failed d state error s else s
               else s);
          s = async_workers env s
      in if \<not> entry_empty s d then list_move_tail d DPM_PREPARED_LIST s else s)"

lemma dpm_resume_loop_empty: "dpm_suspended_list s = [] \<Longrightarrow> dpm_resume_loop env state s = s"
  by (subst dpm_resume_loop.simps) simp

lemma dpm_resume_loop_pass:
  "dpm_suspended_list s \<noteq> [] \<Longrightarrow>
     dpm_resume_loop env state s = dpm_resume_loop env state (dpm_resume_pass env state s)"
  by (subst dpm_resume_loop.simps) (simp add: dpm_resume_pass_def Let_def)

lemma dpm_resume_pass_lists [simp]:
  "dpm_suspended_list s \<noteq> [] \<Longrightarrow>
     dpm_suspended_list (dpm_resume_pass env state s) = removeAll (hd (dpm_suspended_list s)) (dpm_suspended_list s)"
  "dpm_suspended_list s \<noteq> [] \<Longrightarrow>
     dpm_prepared_list (dpm_resume_pass env state s) =
     removeAll (hd (dpm_suspended_list s)) (dpm_prepared_list s) @ [hd (dpm_suspended_list s)]"
  by (simp_all add: dpm_resume_pass_def Let_def split_def)

lemma dpm_resume_pass_fields [simp]:
  "pending_or_done (dpm_resume_pass env state s) x =
     (pending_or_done s x \<or> (x = hd (dpm_suspended_list s) \<and> \<not> is_async env s x))"
  "power_async_suspend (pwr (dpm_resume_pass env state s) x) = power_async_suspend (pwr s x)"
  "is_async env (dpm_resume_pass env state s) x = is_async env s x"
  by (auto simp: dpm_resume_pass_def Let_def split_def is_async_def)

definition dpm_complete_pass :: "env \<Rightarrow> pm_message_t \<Rightarrow> dpm_state \<Rightarrow> dpm_state" where
  "dpm_complete_pass env state s =
     (let d = last (dpm_prepared_list s);
          s = upd_power d (\<lambda>p. p\<lparr>is_prepared := False\<rparr>) s;
          s = list_del d s;
          s = emit (Trace_device_pm_callback_start d (Some []) (event state)) s;
          s = device_complete env d state s
      in emit (Trace_device_pm_callback_end d 0) s)"

lemma dpm_complete_loop_empty:
  "dpm_prepared_list s = [] \<Longrightarrow> dpm_complete_loop env state list s = (list, s)"
  by (subst dpm_complete_loop.simps) simp

lemma dpm_complete_loop_pass:
  "dpm_prepared_list s \<noteq> [] \<Longrightarrow>
     dpm_complete_loop env state list s =
       dpm_complete_loop env state (last (dpm_prepared_list s) # list)
         (dpm_complete_pass env state s)"
  by (subst dpm_complete_loop.simps) (simp add: dpm_complete_pass_def Let_def)

lemma device_complete_pwr [simp]: "pwr (device_complete env d state s) = pwr s"
  by (simp add: device_complete_def split_def split: option.split)

lemma dpm_complete_pass_lists [simp]:
  "dpm_prepared_list (dpm_complete_pass env state s) =
     removeAll (last (dpm_prepared_list s)) (dpm_prepared_list s)"
  "dpm_list (dpm_complete_pass env state s) = removeAll (last (dpm_prepared_list s)) (dpm_list s)"
  "is_prepared (pwr (dpm_complete_pass env state s) x) =
     (x \<noteq> last (dpm_prepared_list s) \<and> is_prepared (pwr s x))"
  by (simp_all add: dpm_complete_pass_def Let_def)

definition dpm_suspend_pass :: "env \<Rightarrow> pm_message_t \<Rightarrow> dpm_state \<Rightarrow> bool \<times> int \<times> dpm_state" where
  "dpm_suspend_pass env state s =
     (let d = last (dpm_prepared_list s);
          s = async_workers env s;
          (error, s) = device_suspend env d s;
          s = async_workers env s
      in if error \<noteq> 0
         then (True, error, dpm_save_failed_dev (dev_name (devices s d))
                              (pm_dev_err d state [] error s))
         else
           let s = (if \<not> entry_empty s d then list_move d DPM_SUSPENDED_LIST s else s)
           in (async_error s \<noteq> 0, error, s))"

lemma dpm_suspend_loop_empty:
  "dpm_prepared_list s = [] \<Longrightarrow> dpm_suspend_loop env state error s = (error, s)"
  by (subst dpm_suspend_loop.simps) simp

lemma dpm_suspend_loop_pass:
  "dpm_prepared_list s \<noteq> [] \<Longrightarrow>
     dpm_suspend_loop env state error s =
       (case dpm_suspend_pass env state s of
          (stop, error, s) \<Rightarrow> if stop then (error, s) else dpm_suspend_loop env state error s)"
  by (subst dpm_suspend_loop.simps) (simp add: dpm_suspend_pass_def Let_def split_def)

lemma dpm_suspend_pass_lists [simp]:
  "dpm_prepared_list s \<noteq> [] \<Longrightarrow> \<not> fst (dpm_suspend_pass env state s) \<Longrightarrow>
     dpm_prepared_list (snd (snd (dpm_suspend_pass env state s))) = removeAll (last (dpm_prepared_list s)) (dpm_prepared_list s)"
  by (simp_all add: dpm_suspend_pass_def Let_def split_def split: if_splits)

lemma dpm_suspend_pass_fields [simp]:
  "pending_or_done (snd (snd (dpm_suspend_pass env state s))) x =
     (pending_or_done s x \<or> x = last (dpm_prepared_list s))"
  by (auto simp: dpm_suspend_pass_def Let_def split_def)

definition dpm_noirq_suspend_pass :: "env \<Rightarrow> pm_message_t \<Rightarrow> dpm_state \<Rightarrow> bool \<times> int \<times> dpm_state" where
  "dpm_noirq_suspend_pass env state s =
     (let d = last (dpm_late_early_list s);
          s = async_workers env s;
          (error, s) = device_suspend_noirq env d s;
          s = async_workers env s
      in if error \<noteq> 0
         then (True, error, dpm_save_failed_dev (dev_name (devices s d))
                              (pm_dev_err d state '' noirq'' error s))
         else
           let s = (if \<not> entry_empty s d then list_move d DPM_NOIRQ_LIST s else s)
           in (async_error s \<noteq> 0, error, s))"

lemma dpm_noirq_suspend_loop_empty:
  "dpm_late_early_list s = [] \<Longrightarrow> dpm_noirq_suspend_loop env state error s = (error, s)"
  by (subst dpm_noirq_suspend_loop.simps) simp

lemma dpm_noirq_suspend_loop_pass:
  "dpm_late_early_list s \<noteq> [] \<Longrightarrow>
     dpm_noirq_suspend_loop env state error s =
       (case dpm_noirq_suspend_pass env state s of
          (stop, error, s) \<Rightarrow> if stop then (error, s) else dpm_noirq_suspend_loop env state error s)"
  by (subst dpm_noirq_suspend_loop.simps) (simp add: dpm_noirq_suspend_pass_def Let_def split_def)

lemma dpm_noirq_suspend_pass_lists [simp]:
  "dpm_late_early_list s \<noteq> [] \<Longrightarrow> \<not> fst (dpm_noirq_suspend_pass env state s) \<Longrightarrow>
     dpm_late_early_list (snd (snd (dpm_noirq_suspend_pass env state s))) = removeAll (last (dpm_late_early_list s)) (dpm_late_early_list s)"
  by (simp_all add: dpm_noirq_suspend_pass_def Let_def split_def split: if_splits)

lemma dpm_noirq_suspend_pass_fields [simp]:
  "pending_or_done (snd (snd (dpm_noirq_suspend_pass env state s))) x =
     (pending_or_done s x \<or> x = last (dpm_late_early_list s))"
  by (auto simp: dpm_noirq_suspend_pass_def Let_def split_def)

definition dpm_suspend_late_pass :: "env \<Rightarrow> pm_message_t \<Rightarrow> dpm_state \<Rightarrow> bool \<times> int \<times> dpm_state" where
  "dpm_suspend_late_pass env state s =
     (let d = last (dpm_suspended_list s);
          s = async_workers env s;
          (error, s) = device_suspend_late env d s;
          s = async_workers env s;
          s = (if \<not> entry_empty s d then list_move d DPM_LATE_EARLY_LIST s else s)
      in if error \<noteq> 0
         then (True, error, dpm_save_failed_dev (dev_name (devices s d))
                              (pm_dev_err d state '' late'' error s))
         else (async_error s \<noteq> 0, error, s))"

lemma dpm_suspend_late_loop_empty:
  "dpm_suspended_list s = [] \<Longrightarrow> dpm_suspend_late_loop env state error s = (error, s)"
  by (subst dpm_suspend_late_loop.simps) simp

lemma dpm_suspend_late_loop_pass:
  "dpm_suspended_list s \<noteq> [] \<Longrightarrow>
     dpm_suspend_late_loop env state error s =
       (case dpm_suspend_late_pass env state s of
          (stop, error, s) \<Rightarrow> if stop then (error, s) else dpm_suspend_late_loop env state error s)"
  by (subst dpm_suspend_late_loop.simps) (simp add: dpm_suspend_late_pass_def Let_def split_def)

lemma dpm_suspend_late_pass_lists [simp]:
  "dpm_suspended_list s \<noteq> [] \<Longrightarrow>
     dpm_suspended_list (snd (snd (dpm_suspend_late_pass env state s))) =
       removeAll (last (dpm_suspended_list s)) (dpm_suspended_list s)"
  by (simp_all add: dpm_suspend_late_pass_def Let_def split_def)

lemma dpm_suspend_late_pass_fields [simp]:
  "pending_or_done (snd (snd (dpm_suspend_late_pass env state s))) x =
     (pending_or_done s x \<or> x = last (dpm_suspended_list s))"
  by (auto simp: dpm_suspend_late_pass_def Let_def split_def)

subsection \<open>What is added to the trace\<close>

text \<open>
  The device an event is about, if any. The events of the per-device functions are about
  their device, but for the abort reason logged by \<open>__device_suspend\<close>; the tracepoints
  of the phases and the calls that bracket a phase are about none.
\<close>

fun event_device :: "trace_event \<Rightarrow> nat option" where
  "event_device (Trace_suspend_resume name e start) = None"
| "event_device (Trace_device_pm_callback_start d info e) = Some d"
| "event_device (Trace_device_pm_callback_end d error) = Some d"
| "event_device (Callback f d) = Some d"
| "event_device (Legacy_callback f d e) = Some d"
| "event_device (Pm_dev_err d e info error) = Some d"
| "event_device (Ext name) = None"

fun dev_level :: "trace_event \<Rightarrow> bool" where
  "dev_level (Trace_suspend_resume name e start) = False"
| "dev_level (Ext name) = (name = ''log_suspend_abort_reason'')"
| "dev_level e = True"

definition of_device :: "nat \<Rightarrow> trace_event \<Rightarrow> bool" where
  "of_device d e = (dev_level e \<and> (event_device e = None \<or> event_device e = Some d))"

definition visited :: "trace_event list \<Rightarrow> nat list" where
  "visited tr = List.map_filter event_device tr"

definition extends :: "(trace_event \<Rightarrow> bool) \<Rightarrow> trace_event list \<Rightarrow> trace_event list \<Rightarrow> bool" where
  "extends P xs ys = (\<exists>tr. ys = xs @ tr \<and> list_all P tr)"

lemma extends_refl [simp]: "extends P xs xs"
  by (simp add: extends_def)

lemma extends_append [simp]: "extends P xs (xs @ tr) = list_all P tr"
  by (simp add: extends_def)

lemma extends_trans: "extends P xs ys \<Longrightarrow> extends P ys zs \<Longrightarrow> extends P xs zs"
  by (auto simp: extends_def)

lemma extends_snoc: "extends P xs ys \<Longrightarrow> P e \<Longrightarrow> extends P xs (ys @ [e])"
  by (auto simp: extends_def)

lemma extends_mono: "extends P xs ys \<Longrightarrow> (\<And>e. P e \<Longrightarrow> Q e) \<Longrightarrow> extends Q xs ys"
  by (auto simp: extends_def list_all_iff)

lemma of_device_simps [simp]:
  "of_device d (Trace_device_pm_callback_start x info e) = (x = d)"
  "of_device d (Trace_device_pm_callback_end x error) = (x = d)"
  "of_device d (Callback f x) = (x = d)"
  "of_device d (Legacy_callback f x e) = (x = d)"
  "of_device d (Pm_dev_err x e msg error) = (x = d)"
  "of_device d (Ext ''log_suspend_abort_reason'')"
  "\<not> of_device d (Trace_suspend_resume name e start)"
  by (simp_all add: of_device_def)

lemma of_device_dev_level: "of_device d e \<Longrightarrow> dev_level e"
  by (simp add: of_device_def)

lemma extends_dev_level: "extends (of_device d) xs ys \<Longrightarrow> extends dev_level xs ys"
  by (erule extends_mono) (rule of_device_dev_level)

lemma dpm_run_callback_extends [simp]:
  "extends (of_device d) (trace s) (trace (snd (dpm_run_callback env cb d state info s)))"
  by (simp add: dpm_run_callback_def Let_def split: option.split)

lemma legacy_suspend_extends [simp]:
  "extends (of_device d) (trace s) (trace (snd (legacy_suspend env d state cb info s)))"
  by (simp add: legacy_suspend_def Let_def)

lemma extends_after_callback:
  "trace t = trace s \<Longrightarrow>
     extends (of_device d) (trace s) (trace (snd (dpm_run_callback env cb d state info t)))"
  using dpm_run_callback_extends [of d t env cb state info] by simp

lemma device_resume_noirq_extends [simp]:
  "extends (of_device d) (trace s) (trace (snd (device_resume_noirq env d state async s)))"
  by (simp add: device_resume_noirq_def Let_def split_def extends_after_callback)

lemma device_resume_early_extends [simp]:
  "extends (of_device d) (trace s) (trace (snd (device_resume_early env d state async s)))"
  by (simp add: device_resume_early_def Let_def split_def extends_after_callback)

lemma device_resume_extends [simp]:
  "extends (of_device d) (trace s) (trace (snd (device_resume env d state async s)))"
  by (simp add: device_resume_def Let_def split_def extends_after_callback)

lemma dunder_device_suspend_noirq_extends [simp]:
  "extends (of_device d) (trace s) (trace (snd (dunder_device_suspend_noirq env d state async s)))"
  by (simp add: dunder_device_suspend_noirq_def Let_def split_def extends_after_callback)

lemma dunder_device_suspend_late_extends [simp]:
  "extends (of_device d) (trace s) (trace (snd (dunder_device_suspend_late env d state async s)))"
  by (simp add: dunder_device_suspend_late_def Let_def split_def extends_after_callback)

lemma trace_clear_suppliers [simp]:
  "trace (dpm_clear_suppliers_direct_complete d s) = trace s"
  unfolding dpm_clear_suppliers_direct_complete_def
  by (rule fold_frame) simp

lemma trace_suspend_End_ok [simp]: "trace (suspend_End_ok d s) = trace s"
  by (simp add: suspend_End_ok_def Let_def split: option.split)

lemma trace_suspend_Complete [simp]: "trace (snd (suspend_Complete d error s)) = trace s"
  by (simp add: suspend_Complete_def)

lemma dunder_device_suspend_extends [simp]:
  "extends (of_device d) (trace s) (trace (snd (dunder_device_suspend env d state async s)))"
  by (simp add: dunder_device_suspend_def Let_def split_def dpm_run_callback_def
        legacy_suspend_def split: suspend_choice.split option.split)

lemma async_resume_noirq_extends [simp]:
  "extends (of_device d) (trace s) (trace (async_resume_noirq env d s))"
  using device_resume_noirq_extends [of d s env "pm_transition s" True]
  by (simp add: async_resume_noirq_def Let_def split_def extends_snoc)

lemma async_resume_early_extends [simp]:
  "extends (of_device d) (trace s) (trace (async_resume_early env d s))"
  using device_resume_early_extends [of d s env "pm_transition s" True]
  by (simp add: async_resume_early_def Let_def split_def extends_snoc)

lemma async_resume_extends [simp]:
  "extends (of_device d) (trace s) (trace (async_resume env d s))"
  using device_resume_extends [of d s env "pm_transition s" True]
  by (simp add: async_resume_def Let_def split_def extends_snoc)

lemma async_suspend_noirq_extends [simp]:
  "extends (of_device d) (trace s) (trace (async_suspend_noirq env d s))"
  using dunder_device_suspend_noirq_extends [of d s env "pm_transition s" True]
  by (simp add: async_suspend_noirq_def Let_def split_def extends_snoc)

lemma async_suspend_late_extends [simp]:
  "extends (of_device d) (trace s) (trace (async_suspend_late env d s))"
  using dunder_device_suspend_late_extends [of d s env "pm_transition s" True]
  by (simp add: async_suspend_late_def Let_def split_def extends_snoc)

lemma async_suspend_extends [simp]:
  "extends (of_device d) (trace s) (trace (async_suspend env d s))"
  using dunder_device_suspend_extends [of d s env "pm_transition s" True]
  by (simp add: async_suspend_def Let_def split_def extends_snoc)

lemma run_task_extends [simp]:
  "extends (of_device d) (trace s) (trace (run_task env (f, d) s))"
  by (cases f) (simp_all add: run_task_def)

lemma fold_run_task_extends:
  "\<forall>task\<in>set tasks. P (snd task) \<Longrightarrow>
     extends (\<lambda>e. \<exists>d. P d \<and> of_device d e) (trace s) (trace (fold (run_task env) tasks s))"
proof (induction tasks arbitrary: s)
  case Nil
  then show ?case by simp
next
  case (Cons task tasks)
  obtain f d where task: "task = (f, d)" by (cases task)
  have pd: "P d"
    using Cons.prems task by simp
  have "extends (of_device d) (trace s) (trace (run_task env (f, d) s))"
    by simp
  then have "extends (\<lambda>e. \<exists>d. P d \<and> of_device d e) (trace s) (trace (run_task env (f, d) s))"
    by (rule extends_mono) (use pd in blast)
  then have "extends (\<lambda>e. \<exists>d. P d \<and> of_device d e) (trace s) (trace (run_task env task s))"
    using task by simp
  moreover have "extends (\<lambda>e. \<exists>d. P d \<and> of_device d e) (trace (run_task env task s))
      (trace (fold (run_task env) tasks (run_task env task s)))"
    using Cons by simp
  ultimately show ?case
    by (simp add: extends_trans)
qed

lemma async_workers_extends [simp]:
  "extends dev_level (trace s) (trace (async_workers env s))"
proof -
  have "extends (\<lambda>e. \<exists>x. True \<and> of_device x e) (trace s) (trace (async_workers env s))"
    using fold_run_task_extends [of "filter (scheduler env s) (async_pending s)" "\<lambda>x. True"
        "s\<lparr>async_pending := filter (\<lambda>task. \<not> scheduler env s task) (async_pending s)\<rparr>" env]
    by (simp add: async_workers_def)
  then show ?thesis
    by (rule extends_mono) (auto dest: of_device_dev_level)
qed


lemma device_suspend_extends [simp]:
  "extends (of_device d) (trace s) (trace (snd (device_suspend env d s)))"
  using dunder_device_suspend_extends [of d "reinit_completion d s" env "pm_transition s" False]
  by (simp add: device_suspend_def Let_def async_schedule_def)

lemma device_suspend_late_extends [simp]:
  "extends (of_device d) (trace s) (trace (snd (device_suspend_late env d s)))"
  using dunder_device_suspend_late_extends [of d "reinit_completion d s" env "pm_transition s" False]
  by (simp add: device_suspend_late_def Let_def async_schedule_def)

lemma device_suspend_noirq_extends [simp]:
  "extends (of_device d) (trace s) (trace (snd (device_suspend_noirq env d s)))"
  using dunder_device_suspend_noirq_extends [of d "reinit_completion d s" env "pm_transition s" False]
  by (simp add: device_suspend_noirq_def Let_def async_schedule_def)

lemma device_complete_extends [simp]:
  "extends (of_device d) (trace s) (trace (device_complete env d state s))"
  by (simp add: device_complete_def split_def split: option.split)

lemma record_trace [simp]:
  "trace (s\<lparr>async_pending := q\<rparr>) = trace s"
  "trace (s\<lparr>async_error := e\<rparr>) = trace s"
  "trace (s\<lparr>pm_transition := m\<rparr>) = trace s"
  by simp_all

subsection \<open>The order in which a loop visits the devices\<close>

text \<open>
  \<open>in_order ds tr\<close>: the events \<open>tr\<close> are events of devices, and the devices they are
  about come in the order of the list \<open>ds\<close>, each device in one block.
  \<open>follows ds s s'\<close>: the state \<open>s'\<close> has the trace of \<open>s\<close> followed by such events.
\<close>

definition in_order :: "nat list \<Rightarrow> trace_event list \<Rightarrow> bool" where
  "in_order ds tr = (list_all dev_level tr \<and> subseq (remdups_adj (visited tr)) ds)"

definition follows :: "nat list \<Rightarrow> dpm_state \<Rightarrow> dpm_state \<Rightarrow> bool" where
  "follows ds s s' = (\<exists>tr. trace s' = trace s @ tr \<and> in_order ds tr)"

lemma visited_append [simp]: "visited (a @ b) = visited a @ visited b"
  by (induction a) (simp_all add: visited_def split: option.split)

lemma visited_Nil [simp]: "visited [] = []"
  by (simp add: visited_def)

lemma visited_of_device: "list_all (of_device d) tr \<Longrightarrow> set (visited tr) \<subseteq> {d}"
  by (induction tr) (auto simp: visited_def of_device_def split: option.splits)

lemma remdups_adj_block:
  "set xs \<subseteq> {d} \<Longrightarrow> d \<notin> set ys \<Longrightarrow> remdups_adj (d # xs @ ys) = d # remdups_adj ys"
proof (induction xs)
  case Nil
  then show ?case by (cases ys) auto
next
  case (Cons a xs)
  then show ?case by simp
qed

lemma subseq_set: "subseq xs ys \<Longrightarrow> set xs \<subseteq> set ys"
  by (induction rule: list_emb.induct) auto

lemma subseq_block:
  assumes "set xs \<subseteq> {d}" "subseq (remdups_adj ys) zs" "d \<notin> set zs"
  shows "subseq (remdups_adj (xs @ ys)) (d # zs)"
proof (cases xs)
  case Nil
  then show ?thesis using assms(2) by auto
next
  case (Cons a rest)
  have "set (remdups_adj ys) \<subseteq> set zs"
    using assms(2) by (rule subseq_set)
  then have notin: "d \<notin> set ys"
    using assms(3) by auto
  have "a = d" "set rest \<subseteq> {d}"
    using assms(1) Cons by auto
  then have "remdups_adj (xs @ ys) = d # remdups_adj ys"
    using Cons remdups_adj_block [of rest d ys] notin by simp
  then show ?thesis using assms(2) by simp
qed

lemma subseq_removeAll: "subseq (removeAll d xs) xs"
  by (induction xs) auto

lemma in_order_Nil [simp]: "in_order ds []"
  by (simp add: in_order_def)

lemma in_order_hd:
  assumes "ds \<noteq> []" "list_all (of_device (hd ds)) tr1" "in_order (removeAll (hd ds) ds) tr2"
  shows "in_order ds (tr1 @ tr2)"
proof -
  obtain d rest where ds: "ds = d # rest"
    using assms(1) by (cases ds) auto
  have level: "list_all dev_level tr1"
    using assms(2) by (auto simp: list_all_iff dest: of_device_dev_level)
  have "subseq (remdups_adj (visited tr2)) (removeAll d rest)"
    using assms(3) ds by (simp add: in_order_def)
  moreover have "set (visited tr1) \<subseteq> {d}"
    using visited_of_device [OF assms(2)] ds by simp
  ultimately have "subseq (remdups_adj (visited tr1 @ visited tr2)) (d # removeAll d rest)"
    by (intro subseq_block) auto
  moreover have "subseq (d # removeAll d rest) (d # rest)"
    using subseq_removeAll [of d rest] by simp
  ultimately have "subseq (remdups_adj (visited tr1 @ visited tr2)) (d # rest)"
    by (rule subseq_order.order_trans)
  then show ?thesis
    using level assms(3) ds by (simp add: in_order_def)
qed

lemma in_order_last:
  assumes "ds \<noteq> []" "list_all (of_device (last ds)) tr1"
    "in_order (rev (removeAll (last ds) ds)) tr2"
  shows "in_order (rev ds) (tr1 @ tr2)"
proof -
  have "hd (rev ds) = last ds"
    using assms(1) by (simp add: hd_rev)
  moreover have "removeAll (last ds) (rev ds) = rev (removeAll (last ds) ds)"
    by (simp add: removeAll_filter_not_eq rev_filter)
  ultimately show ?thesis
    using in_order_hd [of "rev ds" tr1 tr2] assms by simp
qed

lemma follows_refl [simp]: "follows ds s s"
  by (simp add: follows_def)

lemma follows_hd:
  assumes "ds \<noteq> []" "extends (of_device (hd ds)) (trace s) (trace s1)"
    "follows (removeAll (hd ds) ds) s1 s2"
  shows "follows ds s s2"
proof -
  obtain tr1 where tr1: "trace s1 = trace s @ tr1" "list_all (of_device (hd ds)) tr1"
    using assms(2) by (auto simp: extends_def)
  obtain tr2 where tr2: "trace s2 = trace s1 @ tr2" "in_order (removeAll (hd ds) ds) tr2"
    using assms(3) by (auto simp: follows_def)
  have "in_order ds (tr1 @ tr2)"
    using assms(1) tr1(2) tr2(2) by (rule in_order_hd)
  then show ?thesis
    using tr1(1) tr2(1) by (auto simp: follows_def)
qed

lemma follows_last:
  assumes "ds \<noteq> []" "extends (of_device (last ds)) (trace s) (trace s1)"
    "follows (rev (removeAll (last ds) ds)) s1 s2"
  shows "follows (rev ds) s s2"
proof -
  obtain tr1 where tr1: "trace s1 = trace s @ tr1" "list_all (of_device (last ds)) tr1"
    using assms(2) by (auto simp: extends_def)
  obtain tr2 where tr2: "trace s2 = trace s1 @ tr2" "in_order (rev (removeAll (last ds) ds)) tr2"
    using assms(3) by (auto simp: follows_def)
  have "in_order (rev ds) (tr1 @ tr2)"
    using assms(1) tr1(2) tr2(2) by (rule in_order_last)
  then show ?thesis
    using tr1(1) tr2(1) by (auto simp: follows_def)
qed

lemma follows_dev_level: "follows ds s s' \<Longrightarrow> extends dev_level (trace s) (trace s')"
  by (auto simp: follows_def extends_def in_order_def)

subsection \<open>What the loops add to the trace\<close>

text \<open>
  A loop adds events of devices only. When no call is pending and the pool is switched off
  (\<open>pm_async_enabled\<close> is false), a pass adds events of the device it took from the list
  and of no other, so the events of a whole loop come in the order in which the loop takes
  the devices: from the first entry on in the loops of resume, from the last entry back in
  the loops of suspend. The loop of \<open>dpm_complete\<close> never uses the pool.
\<close>

lemma no_pool [simp]: "\<not> pm_async_enabled env \<Longrightarrow> \<not> is_async env s d"
  by (simp add: is_async_def)

lemma device_suspend_no_pool [simp]:
  "\<not> pm_async_enabled env \<Longrightarrow>
     async_pending (snd (device_suspend env d s)) = async_pending s"
  "\<not> pm_async_enabled env \<Longrightarrow>
     async_pending (snd (device_suspend_late env d s)) = async_pending s"
  "\<not> pm_async_enabled env \<Longrightarrow>
     async_pending (snd (device_suspend_noirq env d s)) = async_pending s"
  by (simp_all add: device_suspend_def device_suspend_late_def device_suspend_noirq_def Let_def)

lemma dpm_noirq_resume_pass_extends:
  "extends dev_level (trace s) (trace (dpm_noirq_resume_pass env state s))"
proof -
  let ?d = "hd (dpm_noirq_list s)"
  let ?s1 = "async_workers env (list_move_tail ?d DPM_LATE_EARLY_LIST s)"
  let ?r = "device_resume_noirq env ?d state False ?s1"
  let ?s2 = "if \<not> is_async env ?s1 ?d
             then (if fst ?r \<noteq> 0 then resume_noirq_failed ?d state (fst ?r) (snd ?r) else snd ?r)
             else ?s1"
  have a: "extends dev_level (trace s) (trace ?s1)"
    using async_workers_extends [of "(list_move_tail (hd (dpm_noirq_list s)) DPM_LATE_EARLY_LIST s)" env] by simp
  have "extends dev_level (trace ?s1) (trace (snd ?r))"
    by (rule extends_dev_level) (rule device_resume_noirq_extends)
  then have "extends dev_level (trace ?s1) (trace ?s2)"
    by (simp add: extends_snoc)
  with a have "extends dev_level (trace s) (trace ?s2)"
    by (rule extends_trans)
  then have "extends dev_level (trace s) (trace (async_workers env ?s2))"
    using async_workers_extends by (rule extends_trans)
  then show ?thesis
    unfolding dpm_noirq_resume_pass_def Let_def split_def .
qed

lemma dpm_noirq_resume_loop_extends:
  "extends dev_level (trace s) (trace (dpm_noirq_resume_loop env state s))"
proof (induction "length (dpm_noirq_list s)" arbitrary: s rule: less_induct)
  case less
  show ?case
  proof (cases "dpm_noirq_list s = []")
    case True
    then show ?thesis by (simp add: dpm_noirq_resume_loop_empty)
  next
    case False
    let ?s1 = "dpm_noirq_resume_pass env state s"
    have "length (dpm_noirq_list ?s1) < length (dpm_noirq_list s)"
      using False by simp
    then have "extends dev_level (trace ?s1) (trace (dpm_noirq_resume_loop env state ?s1))"
      by (rule less)
    with dpm_noirq_resume_pass_extends have "extends dev_level (trace s) (trace (dpm_noirq_resume_loop env state ?s1))"
      by (rule extends_trans)
    then show ?thesis
      using False by (simp add: dpm_noirq_resume_loop_pass)
  qed
qed

lemma dpm_noirq_resume_pass_no_pool:
  assumes "\<not> pm_async_enabled env" "async_pending s = []"
  shows "async_pending (dpm_noirq_resume_pass env state s) = []"
    and "extends (of_device (hd (dpm_noirq_list s))) (trace s) (trace (dpm_noirq_resume_pass env state s))"
proof -
  let ?d = "hd (dpm_noirq_list s)"
  let ?r = "device_resume_noirq env ?d state False (list_move_tail ?d DPM_LATE_EARLY_LIST s)"
  let ?s2 = "if fst ?r \<noteq> 0 then resume_noirq_failed ?d state (fst ?r) (snd ?r) else snd ?r"
  have p: "trace (dpm_noirq_resume_pass env state s) = trace ?s2"
    "async_pending (dpm_noirq_resume_pass env state s) = async_pending ?s2"
    using assms by (simp_all add: dpm_noirq_resume_pass_def Let_def split_def async_workers_idle)
  show "async_pending (dpm_noirq_resume_pass env state s) = []"
    unfolding p using assms by simp
  have "extends (of_device ?d) (trace s) (trace (snd ?r))"
    using device_resume_noirq_extends [of ?d "(list_move_tail (hd (dpm_noirq_list s)) DPM_LATE_EARLY_LIST s)" env state False] by simp
  then have "extends (of_device ?d) (trace s) (trace ?s2)"
    by (simp add: extends_snoc)
  then show "extends (of_device ?d) (trace s) (trace (dpm_noirq_resume_pass env state s))"
    unfolding p .
qed

lemma dpm_noirq_resume_loop_follows:
  assumes "\<not> pm_async_enabled env"
  shows "async_pending s = [] \<Longrightarrow> follows (dpm_noirq_list s) s (dpm_noirq_resume_loop env state s)"
proof (induction "length (dpm_noirq_list s)" arbitrary: s rule: less_induct)
  case less
  show ?case
  proof (cases "dpm_noirq_list s = []")
    case True
    then show ?thesis by (simp add: dpm_noirq_resume_loop_empty)
  next
    case False
    let ?s1 = "dpm_noirq_resume_pass env state s"
    have step: "extends (of_device (hd (dpm_noirq_list s))) (trace s) (trace ?s1)"
      and idle: "async_pending ?s1 = []"
      using dpm_noirq_resume_pass_no_pool [OF assms less.prems] by simp_all
    have "length (dpm_noirq_list ?s1) < length (dpm_noirq_list s)"
      using False by simp
    then have "follows (dpm_noirq_list ?s1) ?s1 (dpm_noirq_resume_loop env state ?s1)"
      using idle by (rule less.hyps)
    then have "follows (removeAll (hd (dpm_noirq_list s)) (dpm_noirq_list s)) ?s1 (dpm_noirq_resume_loop env state ?s1)"
      using False by simp
    with False step have "follows (dpm_noirq_list s) s (dpm_noirq_resume_loop env state ?s1)"
      by (rule follows_hd)
    then show ?thesis
      using False by (simp add: dpm_noirq_resume_loop_pass)
  qed
qed

lemma dpm_resume_early_pass_extends:
  "extends dev_level (trace s) (trace (dpm_resume_early_pass env state s))"
proof -
  let ?d = "hd (dpm_late_early_list s)"
  let ?s1 = "async_workers env (list_move_tail ?d DPM_SUSPENDED_LIST s)"
  let ?r = "device_resume_early env ?d state False ?s1"
  let ?s2 = "if \<not> is_async env ?s1 ?d
             then (if fst ?r \<noteq> 0 then resume_early_failed ?d state (fst ?r) (snd ?r) else snd ?r)
             else ?s1"
  have a: "extends dev_level (trace s) (trace ?s1)"
    using async_workers_extends [of "(list_move_tail (hd (dpm_late_early_list s)) DPM_SUSPENDED_LIST s)" env] by simp
  have "extends dev_level (trace ?s1) (trace (snd ?r))"
    by (rule extends_dev_level) (rule device_resume_early_extends)
  then have "extends dev_level (trace ?s1) (trace ?s2)"
    by (simp add: extends_snoc)
  with a have "extends dev_level (trace s) (trace ?s2)"
    by (rule extends_trans)
  then have "extends dev_level (trace s) (trace (async_workers env ?s2))"
    using async_workers_extends by (rule extends_trans)
  then show ?thesis
    unfolding dpm_resume_early_pass_def Let_def split_def .
qed

lemma dpm_resume_early_loop_extends:
  "extends dev_level (trace s) (trace (dpm_resume_early_loop env state s))"
proof (induction "length (dpm_late_early_list s)" arbitrary: s rule: less_induct)
  case less
  show ?case
  proof (cases "dpm_late_early_list s = []")
    case True
    then show ?thesis by (simp add: dpm_resume_early_loop_empty)
  next
    case False
    let ?s1 = "dpm_resume_early_pass env state s"
    have "length (dpm_late_early_list ?s1) < length (dpm_late_early_list s)"
      using False by simp
    then have "extends dev_level (trace ?s1) (trace (dpm_resume_early_loop env state ?s1))"
      by (rule less)
    with dpm_resume_early_pass_extends have "extends dev_level (trace s) (trace (dpm_resume_early_loop env state ?s1))"
      by (rule extends_trans)
    then show ?thesis
      using False by (simp add: dpm_resume_early_loop_pass)
  qed
qed

lemma dpm_resume_early_pass_no_pool:
  assumes "\<not> pm_async_enabled env" "async_pending s = []"
  shows "async_pending (dpm_resume_early_pass env state s) = []"
    and "extends (of_device (hd (dpm_late_early_list s))) (trace s) (trace (dpm_resume_early_pass env state s))"
proof -
  let ?d = "hd (dpm_late_early_list s)"
  let ?r = "device_resume_early env ?d state False (list_move_tail ?d DPM_SUSPENDED_LIST s)"
  let ?s2 = "if fst ?r \<noteq> 0 then resume_early_failed ?d state (fst ?r) (snd ?r) else snd ?r"
  have p: "trace (dpm_resume_early_pass env state s) = trace ?s2"
    "async_pending (dpm_resume_early_pass env state s) = async_pending ?s2"
    using assms by (simp_all add: dpm_resume_early_pass_def Let_def split_def async_workers_idle)
  show "async_pending (dpm_resume_early_pass env state s) = []"
    unfolding p using assms by simp
  have "extends (of_device ?d) (trace s) (trace (snd ?r))"
    using device_resume_early_extends [of ?d "(list_move_tail (hd (dpm_late_early_list s)) DPM_SUSPENDED_LIST s)" env state False] by simp
  then have "extends (of_device ?d) (trace s) (trace ?s2)"
    by (simp add: extends_snoc)
  then show "extends (of_device ?d) (trace s) (trace (dpm_resume_early_pass env state s))"
    unfolding p .
qed

lemma dpm_resume_early_loop_follows:
  assumes "\<not> pm_async_enabled env"
  shows "async_pending s = [] \<Longrightarrow> follows (dpm_late_early_list s) s (dpm_resume_early_loop env state s)"
proof (induction "length (dpm_late_early_list s)" arbitrary: s rule: less_induct)
  case less
  show ?case
  proof (cases "dpm_late_early_list s = []")
    case True
    then show ?thesis by (simp add: dpm_resume_early_loop_empty)
  next
    case False
    let ?s1 = "dpm_resume_early_pass env state s"
    have step: "extends (of_device (hd (dpm_late_early_list s))) (trace s) (trace ?s1)"
      and idle: "async_pending ?s1 = []"
      using dpm_resume_early_pass_no_pool [OF assms less.prems] by simp_all
    have "length (dpm_late_early_list ?s1) < length (dpm_late_early_list s)"
      using False by simp
    then have "follows (dpm_late_early_list ?s1) ?s1 (dpm_resume_early_loop env state ?s1)"
      using idle by (rule less.hyps)
    then have "follows (removeAll (hd (dpm_late_early_list s)) (dpm_late_early_list s)) ?s1 (dpm_resume_early_loop env state ?s1)"
      using False by simp
    with False step have "follows (dpm_late_early_list s) s (dpm_resume_early_loop env state ?s1)"
      by (rule follows_hd)
    then show ?thesis
      using False by (simp add: dpm_resume_early_loop_pass)
  qed
qed

lemma dpm_resume_pass_extends:
  "extends dev_level (trace s) (trace (dpm_resume_pass env state s))"
proof -
  let ?d = "hd (dpm_suspended_list s)"
  let ?s1 = "async_workers env s"
  let ?r = "device_resume env ?d state False ?s1"
  let ?s2 = "if \<not> is_async env ?s1 ?d
             then (if fst ?r \<noteq> 0 then resume_failed ?d state (fst ?r) (snd ?r) else snd ?r)
             else ?s1"
  have a: "extends dev_level (trace s) (trace ?s1)"
    using async_workers_extends [of "s" env] by simp
  have "extends dev_level (trace ?s1) (trace (snd ?r))"
    by (rule extends_dev_level) (rule device_resume_extends)
  then have "extends dev_level (trace ?s1) (trace ?s2)"
    by (simp add: extends_snoc)
  with a have "extends dev_level (trace s) (trace ?s2)"
    by (rule extends_trans)
  then have "extends dev_level (trace s) (trace (async_workers env ?s2))"
    using async_workers_extends by (rule extends_trans)
  moreover have "trace (dpm_resume_pass env state s) = trace (async_workers env ?s2)"
    by (simp add: dpm_resume_pass_def Let_def split_def)
  ultimately show ?thesis
    by simp
qed

lemma dpm_resume_loop_extends:
  "extends dev_level (trace s) (trace (dpm_resume_loop env state s))"
proof (induction "length (dpm_suspended_list s)" arbitrary: s rule: less_induct)
  case less
  show ?case
  proof (cases "dpm_suspended_list s = []")
    case True
    then show ?thesis by (simp add: dpm_resume_loop_empty)
  next
    case False
    let ?s1 = "dpm_resume_pass env state s"
    have "length (dpm_suspended_list ?s1) < length (dpm_suspended_list s)"
      using False by simp
    then have "extends dev_level (trace ?s1) (trace (dpm_resume_loop env state ?s1))"
      by (rule less)
    with dpm_resume_pass_extends have "extends dev_level (trace s) (trace (dpm_resume_loop env state ?s1))"
      by (rule extends_trans)
    then show ?thesis
      using False by (simp add: dpm_resume_loop_pass)
  qed
qed

lemma dpm_resume_pass_no_pool:
  assumes "\<not> pm_async_enabled env" "async_pending s = []"
  shows "async_pending (dpm_resume_pass env state s) = []"
    and "extends (of_device (hd (dpm_suspended_list s))) (trace s) (trace (dpm_resume_pass env state s))"
proof -
  let ?d = "hd (dpm_suspended_list s)"
  let ?r = "device_resume env ?d state False s"
  let ?s2 = "if fst ?r \<noteq> 0 then resume_failed ?d state (fst ?r) (snd ?r) else snd ?r"
  have p: "trace (dpm_resume_pass env state s) = trace ?s2"
    "async_pending (dpm_resume_pass env state s) = async_pending ?s2"
    using assms by (simp_all add: dpm_resume_pass_def Let_def split_def async_workers_idle)
  show "async_pending (dpm_resume_pass env state s) = []"
    unfolding p using assms by simp
  have "extends (of_device ?d) (trace s) (trace (snd ?r))"
    using device_resume_extends [of ?d "s" env state False] by simp
  then have "extends (of_device ?d) (trace s) (trace ?s2)"
    by (simp add: extends_snoc)
  then show "extends (of_device ?d) (trace s) (trace (dpm_resume_pass env state s))"
    unfolding p .
qed

lemma dpm_resume_loop_follows:
  assumes "\<not> pm_async_enabled env"
  shows "async_pending s = [] \<Longrightarrow> follows (dpm_suspended_list s) s (dpm_resume_loop env state s)"
proof (induction "length (dpm_suspended_list s)" arbitrary: s rule: less_induct)
  case less
  show ?case
  proof (cases "dpm_suspended_list s = []")
    case True
    then show ?thesis by (simp add: dpm_resume_loop_empty)
  next
    case False
    let ?s1 = "dpm_resume_pass env state s"
    have step: "extends (of_device (hd (dpm_suspended_list s))) (trace s) (trace ?s1)"
      and idle: "async_pending ?s1 = []"
      using dpm_resume_pass_no_pool [OF assms less.prems] by simp_all
    have "length (dpm_suspended_list ?s1) < length (dpm_suspended_list s)"
      using False by simp
    then have "follows (dpm_suspended_list ?s1) ?s1 (dpm_resume_loop env state ?s1)"
      using idle by (rule less.hyps)
    then have "follows (removeAll (hd (dpm_suspended_list s)) (dpm_suspended_list s)) ?s1 (dpm_resume_loop env state ?s1)"
      using False by simp
    with False step have "follows (dpm_suspended_list s) s (dpm_resume_loop env state ?s1)"
      by (rule follows_hd)
    then show ?thesis
      using False by (simp add: dpm_resume_loop_pass)
  qed
qed

lemma dpm_complete_pass_extends:
  "extends (of_device (last (dpm_prepared_list s))) (trace s) (trace (dpm_complete_pass env state s))"
proof -
  let ?d = "last (dpm_prepared_list s)"
  let ?s1 = "emit (Trace_device_pm_callback_start ?d (Some []) (event state))
               (list_del ?d (upd_power ?d (\<lambda>p. p\<lparr>is_prepared := False\<rparr>) s))"
  have "extends (of_device ?d) (trace s) (trace ?s1)"
    by simp
  moreover have "extends (of_device ?d) (trace ?s1) (trace (device_complete env ?d state ?s1))"
    by (rule device_complete_extends)
  ultimately have "extends (of_device ?d) (trace s) (trace (device_complete env ?d state ?s1))"
    by (rule extends_trans)
  then have "extends (of_device ?d) (trace s)
      (trace (device_complete env ?d state ?s1) @ [Trace_device_pm_callback_end ?d 0])"
    by (rule extends_snoc) simp
  then show ?thesis
    by (simp add: dpm_complete_pass_def Let_def)
qed

lemma dpm_complete_loop_follows:
  "follows (rev (dpm_prepared_list s)) s (snd (dpm_complete_loop env state list s))"
proof (induction "length (dpm_prepared_list s)" arbitrary: s list rule: less_induct)
  case less
  show ?case
  proof (cases "dpm_prepared_list s = []")
    case True
    then show ?thesis by (simp add: dpm_complete_loop_empty)
  next
    case False
    let ?d = "last (dpm_prepared_list s)"
    let ?s1 = "dpm_complete_pass env state s"
    have step: "extends (of_device ?d) (trace s) (trace ?s1)"
      by (rule dpm_complete_pass_extends)
    have "length (dpm_prepared_list ?s1) < length (dpm_prepared_list s)"
      using False by simp
    then have "follows (rev (dpm_prepared_list ?s1)) ?s1
        (snd (dpm_complete_loop env state (?d # list) ?s1))"
      by (rule less)
    then have "follows (rev (removeAll ?d (dpm_prepared_list s))) ?s1
        (snd (dpm_complete_loop env state (?d # list) ?s1))"
      by simp
    with False step have "follows (rev (dpm_prepared_list s)) s
        (snd (dpm_complete_loop env state (?d # list) ?s1))"
      by (rule follows_last)
    then show ?thesis
      using False by (simp add: dpm_complete_loop_pass)
  qed
qed

lemma dpm_suspend_pass_extends:
  "extends dev_level (trace s) (trace (snd (snd (dpm_suspend_pass env state s))))"
proof -
  let ?d = "last (dpm_prepared_list s)"
  let ?s1 = "async_workers env s"
  let ?r = "device_suspend env ?d ?s1"
  have "extends dev_level (trace ?s1) (trace (snd ?r))"
    by (rule extends_dev_level) (rule device_suspend_extends)
  with async_workers_extends have "extends dev_level (trace s) (trace (snd ?r))"
    by (rule extends_trans)
  then have a: "extends dev_level (trace s) (trace (async_workers env (snd ?r)))"
    using async_workers_extends by (rule extends_trans)
  show ?thesis
    by (simp add: dpm_suspend_pass_def Let_def split_def a extends_snoc [OF a])
qed

lemma dpm_suspend_loop_extends:
  "extends dev_level (trace s) (trace (snd (dpm_suspend_loop env state error s)))"
proof (induction "length (dpm_prepared_list s)" arbitrary: s error rule: less_induct)
  case less
  show ?case
  proof (cases "dpm_prepared_list s = []")
    case True
    then show ?thesis by (simp add: dpm_suspend_loop_empty)
  next
    case False
    let ?p = "dpm_suspend_pass env state s"
    have step: "extends dev_level (trace s) (trace (snd (snd ?p)))"
      by (rule dpm_suspend_pass_extends)
    show ?thesis
    proof (cases "fst ?p")
      case True
      then show ?thesis
        using False step by (simp add: dpm_suspend_loop_pass split_def)
    next
      case stop: False
      have "length (dpm_prepared_list (snd (snd ?p))) < length (dpm_prepared_list s)"
        using False stop by simp
      then have "extends dev_level (trace (snd (snd ?p)))
          (trace (snd (dpm_suspend_loop env state (fst (snd ?p)) (snd (snd ?p)))))"
        by (rule less)
      with step have "extends dev_level (trace s)
          (trace (snd (dpm_suspend_loop env state (fst (snd ?p)) (snd (snd ?p)))))"
        by (rule extends_trans)
      then show ?thesis
        using False stop by (simp add: dpm_suspend_loop_pass split_def)
    qed
  qed
qed

lemma dpm_suspend_pass_no_pool:
  assumes "\<not> pm_async_enabled env" "async_pending s = []"
  shows "async_pending (snd (snd (dpm_suspend_pass env state s))) = []"
    and "extends (of_device (last (dpm_prepared_list s))) (trace s) (trace (snd (snd (dpm_suspend_pass env state s))))"
proof -
  let ?d = "last (dpm_prepared_list s)"
  let ?r = "device_suspend env ?d s"
  have idle: "async_pending (snd ?r) = []"
    using assms by simp
  show "async_pending (snd (snd (dpm_suspend_pass env state s))) = []"
    using assms by (simp add: dpm_suspend_pass_def Let_def split_def async_workers_idle)
  have a: "extends (of_device ?d) (trace s) (trace (snd ?r))"
    by (rule device_suspend_extends)
  show "extends (of_device ?d) (trace s) (trace (snd (snd (dpm_suspend_pass env state s))))"
    using assms idle
    by (simp add: dpm_suspend_pass_def Let_def split_def async_workers_idle a extends_snoc [OF a])
qed

lemma dpm_suspend_loop_follows:
  assumes "\<not> pm_async_enabled env"
  shows "async_pending s = [] \<Longrightarrow>
     follows (rev (dpm_prepared_list s)) s (snd (dpm_suspend_loop env state error s))"
proof (induction "length (dpm_prepared_list s)" arbitrary: s error rule: less_induct)
  case less
  show ?case
  proof (cases "dpm_prepared_list s = []")
    case True
    then show ?thesis by (simp add: dpm_suspend_loop_empty)
  next
    case False
    let ?d = "last (dpm_prepared_list s)"
    let ?p = "dpm_suspend_pass env state s"
    have step: "extends (of_device ?d) (trace s) (trace (snd (snd ?p)))"
      and idle: "async_pending (snd (snd ?p)) = []"
      using dpm_suspend_pass_no_pool [OF assms less.prems] by simp_all
    show ?thesis
    proof (cases "fst ?p")
      case True
      have "follows (rev (dpm_prepared_list s)) s (snd (snd ?p))"
        using False step follows_refl by (rule follows_last)
      then show ?thesis
        using False True by (simp add: dpm_suspend_loop_pass split_def)
    next
      case stop: False
      have l: "dpm_prepared_list (snd (snd ?p)) = removeAll ?d (dpm_prepared_list s)"
        using False stop by simp
      then have "length (dpm_prepared_list (snd (snd ?p))) < length (dpm_prepared_list s)"
        using False by simp
      then have "follows (rev (dpm_prepared_list (snd (snd ?p)))) (snd (snd ?p))
          (snd (dpm_suspend_loop env state (fst (snd ?p)) (snd (snd ?p))))"
        using idle by (rule less.hyps)
      then have "follows (rev (removeAll ?d (dpm_prepared_list s))) (snd (snd ?p))
          (snd (dpm_suspend_loop env state (fst (snd ?p)) (snd (snd ?p))))"
        using l by simp
      with False step have "follows (rev (dpm_prepared_list s)) s
          (snd (dpm_suspend_loop env state (fst (snd ?p)) (snd (snd ?p))))"
        by (rule follows_last)
      then show ?thesis
        using False stop by (simp add: dpm_suspend_loop_pass split_def)
    qed
  qed
qed

lemma dpm_suspend_late_pass_extends:
  "extends dev_level (trace s) (trace (snd (snd (dpm_suspend_late_pass env state s))))"
proof -
  let ?d = "last (dpm_suspended_list s)"
  let ?s1 = "async_workers env s"
  let ?r = "device_suspend_late env ?d ?s1"
  have "extends dev_level (trace ?s1) (trace (snd ?r))"
    by (rule extends_dev_level) (rule device_suspend_late_extends)
  with async_workers_extends have "extends dev_level (trace s) (trace (snd ?r))"
    by (rule extends_trans)
  then have a: "extends dev_level (trace s) (trace (async_workers env (snd ?r)))"
    using async_workers_extends by (rule extends_trans)
  show ?thesis
    by (simp add: dpm_suspend_late_pass_def Let_def split_def a extends_snoc [OF a])
qed

lemma dpm_suspend_late_loop_extends:
  "extends dev_level (trace s) (trace (snd (dpm_suspend_late_loop env state error s)))"
proof (induction "length (dpm_suspended_list s)" arbitrary: s error rule: less_induct)
  case less
  show ?case
  proof (cases "dpm_suspended_list s = []")
    case True
    then show ?thesis by (simp add: dpm_suspend_late_loop_empty)
  next
    case False
    let ?p = "dpm_suspend_late_pass env state s"
    have step: "extends dev_level (trace s) (trace (snd (snd ?p)))"
      by (rule dpm_suspend_late_pass_extends)
    show ?thesis
    proof (cases "fst ?p")
      case True
      then show ?thesis
        using False step by (simp add: dpm_suspend_late_loop_pass split_def)
    next
      case stop: False
      have "length (dpm_suspended_list (snd (snd ?p))) < length (dpm_suspended_list s)"
        using False by simp
      then have "extends dev_level (trace (snd (snd ?p)))
          (trace (snd (dpm_suspend_late_loop env state (fst (snd ?p)) (snd (snd ?p)))))"
        by (rule less)
      with step have "extends dev_level (trace s)
          (trace (snd (dpm_suspend_late_loop env state (fst (snd ?p)) (snd (snd ?p)))))"
        by (rule extends_trans)
      then show ?thesis
        using False stop by (simp add: dpm_suspend_late_loop_pass split_def)
    qed
  qed
qed

lemma dpm_suspend_late_pass_no_pool:
  assumes "\<not> pm_async_enabled env" "async_pending s = []"
  shows "async_pending (snd (snd (dpm_suspend_late_pass env state s))) = []"
    and "extends (of_device (last (dpm_suspended_list s))) (trace s) (trace (snd (snd (dpm_suspend_late_pass env state s))))"
proof -
  let ?d = "last (dpm_suspended_list s)"
  let ?r = "device_suspend_late env ?d s"
  have idle: "async_pending (snd ?r) = []"
    using assms by simp
  show "async_pending (snd (snd (dpm_suspend_late_pass env state s))) = []"
    using assms by (simp add: dpm_suspend_late_pass_def Let_def split_def async_workers_idle)
  have a: "extends (of_device ?d) (trace s) (trace (snd ?r))"
    by (rule device_suspend_late_extends)
  show "extends (of_device ?d) (trace s) (trace (snd (snd (dpm_suspend_late_pass env state s))))"
    using assms idle
    by (simp add: dpm_suspend_late_pass_def Let_def split_def async_workers_idle a extends_snoc [OF a])
qed

lemma dpm_suspend_late_loop_follows:
  assumes "\<not> pm_async_enabled env"
  shows "async_pending s = [] \<Longrightarrow>
     follows (rev (dpm_suspended_list s)) s (snd (dpm_suspend_late_loop env state error s))"
proof (induction "length (dpm_suspended_list s)" arbitrary: s error rule: less_induct)
  case less
  show ?case
  proof (cases "dpm_suspended_list s = []")
    case True
    then show ?thesis by (simp add: dpm_suspend_late_loop_empty)
  next
    case False
    let ?d = "last (dpm_suspended_list s)"
    let ?p = "dpm_suspend_late_pass env state s"
    have step: "extends (of_device ?d) (trace s) (trace (snd (snd ?p)))"
      and idle: "async_pending (snd (snd ?p)) = []"
      using dpm_suspend_late_pass_no_pool [OF assms less.prems] by simp_all
    show ?thesis
    proof (cases "fst ?p")
      case True
      have "follows (rev (dpm_suspended_list s)) s (snd (snd ?p))"
        using False step follows_refl by (rule follows_last)
      then show ?thesis
        using False True by (simp add: dpm_suspend_late_loop_pass split_def)
    next
      case stop: False
      have l: "dpm_suspended_list (snd (snd ?p)) = removeAll ?d (dpm_suspended_list s)"
        using False by simp
      then have "length (dpm_suspended_list (snd (snd ?p))) < length (dpm_suspended_list s)"
        using False by simp
      then have "follows (rev (dpm_suspended_list (snd (snd ?p)))) (snd (snd ?p))
          (snd (dpm_suspend_late_loop env state (fst (snd ?p)) (snd (snd ?p))))"
        using idle by (rule less.hyps)
      then have "follows (rev (removeAll ?d (dpm_suspended_list s))) (snd (snd ?p))
          (snd (dpm_suspend_late_loop env state (fst (snd ?p)) (snd (snd ?p))))"
        using l by simp
      with False step have "follows (rev (dpm_suspended_list s)) s
          (snd (dpm_suspend_late_loop env state (fst (snd ?p)) (snd (snd ?p))))"
        by (rule follows_last)
      then show ?thesis
        using False stop by (simp add: dpm_suspend_late_loop_pass split_def)
    qed
  qed
qed

lemma dpm_noirq_suspend_pass_extends:
  "extends dev_level (trace s) (trace (snd (snd (dpm_noirq_suspend_pass env state s))))"
proof -
  let ?d = "last (dpm_late_early_list s)"
  let ?s1 = "async_workers env s"
  let ?r = "device_suspend_noirq env ?d ?s1"
  have "extends dev_level (trace ?s1) (trace (snd ?r))"
    by (rule extends_dev_level) (rule device_suspend_noirq_extends)
  with async_workers_extends have "extends dev_level (trace s) (trace (snd ?r))"
    by (rule extends_trans)
  then have a: "extends dev_level (trace s) (trace (async_workers env (snd ?r)))"
    using async_workers_extends by (rule extends_trans)
  show ?thesis
    by (simp add: dpm_noirq_suspend_pass_def Let_def split_def a extends_snoc [OF a])
qed

lemma dpm_noirq_suspend_loop_extends:
  "extends dev_level (trace s) (trace (snd (dpm_noirq_suspend_loop env state error s)))"
proof (induction "length (dpm_late_early_list s)" arbitrary: s error rule: less_induct)
  case less
  show ?case
  proof (cases "dpm_late_early_list s = []")
    case True
    then show ?thesis by (simp add: dpm_noirq_suspend_loop_empty)
  next
    case False
    let ?p = "dpm_noirq_suspend_pass env state s"
    have step: "extends dev_level (trace s) (trace (snd (snd ?p)))"
      by (rule dpm_noirq_suspend_pass_extends)
    show ?thesis
    proof (cases "fst ?p")
      case True
      then show ?thesis
        using False step by (simp add: dpm_noirq_suspend_loop_pass split_def)
    next
      case stop: False
      have "length (dpm_late_early_list (snd (snd ?p))) < length (dpm_late_early_list s)"
        using False stop by simp
      then have "extends dev_level (trace (snd (snd ?p)))
          (trace (snd (dpm_noirq_suspend_loop env state (fst (snd ?p)) (snd (snd ?p)))))"
        by (rule less)
      with step have "extends dev_level (trace s)
          (trace (snd (dpm_noirq_suspend_loop env state (fst (snd ?p)) (snd (snd ?p)))))"
        by (rule extends_trans)
      then show ?thesis
        using False stop by (simp add: dpm_noirq_suspend_loop_pass split_def)
    qed
  qed
qed

lemma dpm_noirq_suspend_pass_no_pool:
  assumes "\<not> pm_async_enabled env" "async_pending s = []"
  shows "async_pending (snd (snd (dpm_noirq_suspend_pass env state s))) = []"
    and "extends (of_device (last (dpm_late_early_list s))) (trace s) (trace (snd (snd (dpm_noirq_suspend_pass env state s))))"
proof -
  let ?d = "last (dpm_late_early_list s)"
  let ?r = "device_suspend_noirq env ?d s"
  have idle: "async_pending (snd ?r) = []"
    using assms by simp
  show "async_pending (snd (snd (dpm_noirq_suspend_pass env state s))) = []"
    using assms by (simp add: dpm_noirq_suspend_pass_def Let_def split_def async_workers_idle)
  have a: "extends (of_device ?d) (trace s) (trace (snd ?r))"
    by (rule device_suspend_noirq_extends)
  show "extends (of_device ?d) (trace s) (trace (snd (snd (dpm_noirq_suspend_pass env state s))))"
    using assms idle
    by (simp add: dpm_noirq_suspend_pass_def Let_def split_def async_workers_idle a extends_snoc [OF a])
qed

lemma dpm_noirq_suspend_loop_follows:
  assumes "\<not> pm_async_enabled env"
  shows "async_pending s = [] \<Longrightarrow>
     follows (rev (dpm_late_early_list s)) s (snd (dpm_noirq_suspend_loop env state error s))"
proof (induction "length (dpm_late_early_list s)" arbitrary: s error rule: less_induct)
  case less
  show ?case
  proof (cases "dpm_late_early_list s = []")
    case True
    then show ?thesis by (simp add: dpm_noirq_suspend_loop_empty)
  next
    case False
    let ?d = "last (dpm_late_early_list s)"
    let ?p = "dpm_noirq_suspend_pass env state s"
    have step: "extends (of_device ?d) (trace s) (trace (snd (snd ?p)))"
      and idle: "async_pending (snd (snd ?p)) = []"
      using dpm_noirq_suspend_pass_no_pool [OF assms less.prems] by simp_all
    show ?thesis
    proof (cases "fst ?p")
      case True
      have "follows (rev (dpm_late_early_list s)) s (snd (snd ?p))"
        using False step follows_refl by (rule follows_last)
      then show ?thesis
        using False True by (simp add: dpm_noirq_suspend_loop_pass split_def)
    next
      case stop: False
      have l: "dpm_late_early_list (snd (snd ?p)) = removeAll ?d (dpm_late_early_list s)"
        using False stop by simp
      then have "length (dpm_late_early_list (snd (snd ?p))) < length (dpm_late_early_list s)"
        using False by simp
      then have "follows (rev (dpm_late_early_list (snd (snd ?p)))) (snd (snd ?p))
          (snd (dpm_noirq_suspend_loop env state (fst (snd ?p)) (snd (snd ?p))))"
        using idle by (rule less.hyps)
      then have "follows (rev (removeAll ?d (dpm_late_early_list s))) (snd (snd ?p))
          (snd (dpm_noirq_suspend_loop env state (fst (snd ?p)) (snd (snd ?p))))"
        using l by simp
      with False step have "follows (rev (dpm_late_early_list s)) s
          (snd (dpm_noirq_suspend_loop env state (fst (snd ?p)) (snd (snd ?p))))"
        by (rule follows_last)
      then show ?thesis
        using False stop by (simp add: dpm_noirq_suspend_loop_pass split_def)
    qed
  qed
qed

section \<open>The deny list\<close>

text \<open>No device of \<open>dpm_list\<close> has a name of the deny list.\<close>

definition deny_free :: "dpm_state \<Rightarrow> bool" where
  "deny_free s =
     list_all (\<lambda>x. \<not> is_device_in_suspend_denied_list (dev_name (devices s x))) (dpm_list s)"

text \<open>
  A state with a device called \<open>cpu0\<close>, which is on the deny list and on no list head,
  and a device called \<open>a\<close> on \<open>dpm_list\<close>.
\<close>

definition deny_state :: dpm_state where
  "deny_state = empty_state\<lparr>devices := (devices empty_state)
       (1 := plain_device ''cpu0'' no_ops, 2 := plain_device ''a'' no_ops),
     dpm_list := [2]\<rparr>"

lemma deny_list_scan_iff: "deny_list_scan table name \<longleftrightarrow> name \<in> set table"
  by (induction table) auto

lemma denied_iff: "is_device_in_suspend_denied_list name \<longleftrightarrow> name \<in> set suspend_deny_list"
  by (simp add: is_device_in_suspend_denied_list_def deny_list_scan_iff)

lemma upd_power_name [simp]: "dev_name (devices (upd_power d f s) x) = dev_name (devices s x)"
  by (simp add: upd_power_def)

lemma list_add_tail_devices [simp]: "devices (list_add_tail d l s) = devices s"
  by (cases l; simp add: list_add_tail_def set_list_def)

lemma list_add_tail_dpm_list [simp]:
  "dpm_list (list_add_tail d DPM_LIST s) = dpm_list s @ [d]"
  by (simp add: list_add_tail_def set_list_def get_list_def)

lemma deny_free_add: "deny_free s \<Longrightarrow> deny_free (device_pm_add x s)"
  by (simp add: deny_free_def device_pm_add_def device_pm_check_callbacks_def Let_def
        list_all_iff)

lemma deny_free_move_last: "deny_free s \<Longrightarrow> deny_free (device_pm_move_last x s)"
  by (auto simp: deny_free_def device_pm_move_last_def list_all_iff)

lemma insert_before_mem: "b \<in> set xs \<Longrightarrow> a \<in> set (insert_before a b xs)"
  by (induction xs) auto

lemma insert_after_mem: "b \<in> set xs \<Longrightarrow> a \<in> set (insert_after a b xs)"
  by (induction xs) auto

lemma move_before_mem:
  "b \<in> set (dpm_list s) \<Longrightarrow> a \<noteq> b \<Longrightarrow> a \<in> set (dpm_list (device_pm_move_before a b s))"
  by (simp add: device_pm_move_before_def list_move_tail_entry_def map_lists_def
        insert_before_mem)

lemma move_after_mem:
  "b \<in> set (dpm_list s) \<Longrightarrow> a \<noteq> b \<Longrightarrow> a \<in> set (dpm_list (device_pm_move_after a b s))"
  by (simp add: device_pm_move_after_def list_move_entry_def map_lists_def insert_after_mem)

text \<open>
  Claim C6. For a device whose name equals an entry of \<open>suspend_deny_list\<close>, the scan
  answers true, \<open>device_pm_add\<close> and \<open>device_pm_move_last\<close> return the state as it was, and
  so these two operations, applied to any device, never put a device of the deny list on
  \<open>dpm_list\<close>. \<open>device_pm_move_before\<close> and \<open>device_pm_move_after\<close> do not look at the deny
  list: they link the same device next to any other device of \<open>dpm_list\<close>.
\<close>

theorem deny_list_filter:
  assumes "dev_name (devices s d) \<in> set suspend_deny_list"
  shows "is_device_in_suspend_denied_list (dev_name (devices s d))
    \<and> device_pm_add d s = s
    \<and> device_pm_move_last d s = s
    \<and> (deny_free s \<longrightarrow> (\<forall>x. deny_free (device_pm_add x s) \<and> deny_free (device_pm_move_last x s)))
    \<and> (\<forall>b. b \<in> set (dpm_list s) \<and> b \<noteq> d \<longrightarrow>
          d \<in> set (dpm_list (device_pm_move_before d b s))
          \<and> d \<in> set (dpm_list (device_pm_move_after d b s)))"
proof -
  have denied: "is_device_in_suspend_denied_list (dev_name (devices s d))"
    using assms by (simp add: denied_iff)
  have "device_pm_add d s = s"
    using denied by (simp add: device_pm_add_def)
  moreover have "device_pm_move_last d s = s"
    using denied by (simp add: device_pm_move_last_def)
  ultimately show ?thesis
    using denied by (simp add: deny_free_add deny_free_move_last move_before_mem move_after_mem)
qed

lemma cpu0_denied: "''cpu0'' \<in> set suspend_deny_list"
  unfolding suspend_deny_list_def by (rule list.set_intros(1))

lemma not_in_Cons: "x \<noteq> y \<Longrightarrow> x \<notin> set ys \<Longrightarrow> x \<notin> set (y # ys)"
  by simp

lemma a_not_in_table: "''a'' \<notin> set suspend_deny_list"
  unfolding suspend_deny_list_def
  by ((rule not_in_Cons, simp)+, simp)

lemma a_not_denied: "\<not> is_device_in_suspend_denied_list ''a''"
  by (simp add: denied_iff a_not_in_table)

theorem deny_list_filter_witness:
  "dev_name (devices deny_state 1) \<in> set suspend_deny_list
   \<and> deny_free deny_state
   \<and> 2 \<in> set (dpm_list deny_state)
   \<and> device_pm_add 1 deny_state = deny_state
   \<and> device_pm_move_last 1 deny_state = deny_state
   \<and> deny_free (device_pm_add 2 deny_state)
   \<and> 1 \<in> set (dpm_list (device_pm_move_before 1 2 deny_state))
   \<and> 1 \<in> set (dpm_list (device_pm_move_after 1 2 deny_state))"
proof -
  have name: "dev_name (devices deny_state 1) \<in> set suspend_deny_list"
    by (simp add: deny_state_def plain_device_def cpu0_denied)
  have free: "deny_free deny_state"
    by (simp add: deny_free_def deny_state_def plain_device_def a_not_denied)
  have mem: "2 \<in> set (dpm_list deny_state)"
    by (simp add: deny_state_def)
  show ?thesis
    using deny_list_filter [OF name] name free mem by auto
qed

section \<open>The per-device resume functions\<close>

text \<open>
  A device that has gone through the three phases of suspend: it sits on
  \<open>dpm_noirq_list\<close> with its three flags set. Its driver has a callback for every phase of
  suspend and resume, at the addresses 1 to 6, and a \<open>complete\<close> callback at address 7.
\<close>

definition driver_table :: dev_pm_ops where
  "driver_table = no_ops\<lparr>suspend := Some 1, suspend_late := Some 2, suspend_noirq := Some 3,
     resume_noirq := Some 4, resume_early := Some 5, resume := Some 6, complete := Some 7\<rparr>"

definition suspended_device :: device where
  "suspended_device = (plain_device ''a'' driver_table)\<lparr>dev_power :=
     plain_power\<lparr>is_prepared := True, is_suspended := True, is_late_suspended := True,
       is_noirq_suspended := True\<rparr>\<rparr>"

definition suspended_state :: dpm_state where
  "suspended_state = empty_state\<lparr>devices := (devices empty_state)(1 := suspended_device),
     dpm_noirq_list := [1]\<rparr>"

lemma resume_noirq_skip:
  "\<not> is_noirq_suspended (pwr s d) \<Longrightarrow>
     device_resume_noirq env d state async s = (0, complete_all d s)"
  by (simp add: device_resume_noirq_def)

lemma resume_early_skip:
  "\<not> is_late_suspended (pwr s d) \<Longrightarrow>
     device_resume_early env d state async s = (0, complete_all d s)"
  by (simp add: device_resume_early_def)

lemma resume_skip:
  "\<not> is_suspended (pwr s d) \<Longrightarrow>
     fst (device_resume env d state async s) = 0
     \<and> trace (snd (device_resume env d state async s)) = trace s"
  by (simp add: device_resume_def Let_def)

lemma resume_noirq_clears:
  assumes "\<not> syscore (pwr s d)" "\<not> direct_complete (pwr s d)" "device_pm_initialized s d"
  shows "\<not> is_noirq_suspended (pwr (snd (device_resume_noirq env d state async s)) d)"
  using assms
  by (simp add: device_resume_noirq_def dpm_wait_for_superior_def Let_def split_def)

lemma resume_early_clears:
  assumes "\<not> syscore (pwr s d)" "\<not> direct_complete (pwr s d)" "device_pm_initialized s d"
  shows "\<not> is_late_suspended (pwr (snd (device_resume_early env d state async s)) d)"
  using assms
  by (simp add: device_resume_early_def dpm_wait_for_superior_def Let_def split_def)

lemma resume_clears:
  assumes "\<not> syscore (pwr s d)" "\<not> direct_complete (pwr s d)" "device_pm_initialized s d"
  shows "\<not> is_suspended (pwr (snd (device_resume env d state async s)) d)"
  using assms
  by (simp add: device_resume_def dpm_wait_for_superior_def Let_def split_def)

lemma resume_noirq_runs:
  assumes "\<not> syscore (pwr s d)" "\<not> direct_complete (pwr s d)" "device_pm_initialized s d"
    "is_noirq_suspended (pwr s d)"
    "select_callback (\<lambda>ops. pm_noirq_op env ops state) (devices s d) = (info, Some f)"
  shows "trace (snd (device_resume_noirq env d state async s)) =
           trace s @ [Trace_device_pm_callback_start d (phase_info ''noirq '' info) (event state),
             Callback f d,
             Trace_device_pm_callback_end d (fst (device_resume_noirq env d state async s))]"
  using assms
  by (simp add: device_resume_noirq_def dpm_wait_for_superior_def Let_def
        dpm_run_callback_Some)

lemma resume_early_runs:
  assumes "\<not> syscore (pwr s d)" "\<not> direct_complete (pwr s d)" "device_pm_initialized s d"
    "is_late_suspended (pwr s d)"
    "select_callback (\<lambda>ops. pm_late_early_op env ops state) (devices s d) = (info, Some f)"
  shows "trace (snd (device_resume_early env d state async s)) =
           trace s @ [Trace_device_pm_callback_start d (phase_info ''early '' info) (event state),
             Callback f d,
             Trace_device_pm_callback_end d (fst (device_resume_early env d state async s))]"
  using assms
  by (simp add: device_resume_early_def dpm_wait_for_superior_def Let_def
        dpm_run_callback_Some)

lemma resume_runs:
  assumes "\<not> syscore (pwr s d)" "\<not> direct_complete (pwr s d)" "device_pm_initialized s d"
    "is_suspended (pwr s d)"
    "resume_callback env (devices s d) state = (info, Some f)"
  shows "trace (snd (device_resume env d state async s)) =
           trace s @ [Trace_device_pm_callback_start d info (event state),
             Callback f d,
             Trace_device_pm_callback_end d (fst (device_resume env d state async s))]"
  using assms
  by (simp add: device_resume_def dpm_wait_for_superior_def Let_def dpm_run_callback_Some)

text \<open>
  Claim C9. Take a device that a resume function does not skip at once (not \<open>syscore\<close>,
  not \<open>direct_complete\<close>, still initialised for PM). After \<open>device_resume_noirq\<close> its flag
  \<open>is_noirq_suspended\<close> is false, after \<open>device_resume_early\<close> its flag \<open>is_late_suspended\<close>
  is false and after \<open>device_resume\<close> its flag \<open>is_suspended\<close> is false, whatever the
  environment makes the callback return. When the flag was set and a callback was
  chosen, the callback has run and its return value, zero or not, is the return value
  of the function. A second call of the same function, in any environment, returns
  zero and runs no callback: the device is not tried again at that phase.
\<close>

theorem resume_clears_flag_on_error:
  assumes "\<not> syscore (pwr s d)" "\<not> direct_complete (pwr s d)" "device_pm_initialized s d"
  shows
    "(\<not> is_noirq_suspended (pwr (snd (device_resume_noirq env d state async s)) d)
      \<and> (\<forall>info f. is_noirq_suspended (pwr s d)
            \<and> select_callback (\<lambda>ops. pm_noirq_op env ops state) (devices s d) = (info, Some f)
          \<longrightarrow> trace (snd (device_resume_noirq env d state async s)) =
                trace s @ [Trace_device_pm_callback_start d (phase_info ''noirq '' info) (event state),
                  Callback f d,
                  Trace_device_pm_callback_end d (fst (device_resume_noirq env d state async s))])
      \<and> (\<forall>env' state' async'.
            fst (device_resume_noirq env' d state' async'
                   (snd (device_resume_noirq env d state async s))) = 0
            \<and> trace (snd (device_resume_noirq env' d state' async'
                   (snd (device_resume_noirq env d state async s))))
                = trace (snd (device_resume_noirq env d state async s))))
   \<and> (\<not> is_late_suspended (pwr (snd (device_resume_early env d state async s)) d)
      \<and> (\<forall>info f. is_late_suspended (pwr s d)
            \<and> select_callback (\<lambda>ops. pm_late_early_op env ops state) (devices s d) = (info, Some f)
          \<longrightarrow> trace (snd (device_resume_early env d state async s)) =
                trace s @ [Trace_device_pm_callback_start d (phase_info ''early '' info) (event state),
                  Callback f d,
                  Trace_device_pm_callback_end d (fst (device_resume_early env d state async s))])
      \<and> (\<forall>env' state' async'.
            fst (device_resume_early env' d state' async'
                   (snd (device_resume_early env d state async s))) = 0
            \<and> trace (snd (device_resume_early env' d state' async'
                   (snd (device_resume_early env d state async s))))
                = trace (snd (device_resume_early env d state async s))))
   \<and> (\<not> is_suspended (pwr (snd (device_resume env d state async s)) d)
      \<and> (\<forall>info f. is_suspended (pwr s d)
            \<and> resume_callback env (devices s d) state = (info, Some f)
          \<longrightarrow> trace (snd (device_resume env d state async s)) =
                trace s @ [Trace_device_pm_callback_start d info (event state),
                  Callback f d,
                  Trace_device_pm_callback_end d (fst (device_resume env d state async s))])
      \<and> (\<forall>env' state' async'.
            fst (device_resume env' d state' async'
                   (snd (device_resume env d state async s))) = 0
            \<and> trace (snd (device_resume env' d state' async'
                   (snd (device_resume env d state async s))))
                = trace (snd (device_resume env d state async s))))"
proof -
  note n = resume_noirq_clears [OF assms, of env state async]
  note e = resume_early_clears [OF assms, of env state async]
  note r = resume_clears [OF assms, of env state async]
  show ?thesis
    using n e r
    by (auto simp: resume_noirq_skip resume_early_skip resume_skip
          resume_noirq_runs [OF assms] resume_early_runs [OF assms] resume_runs [OF assms])
qed

text \<open>
  The witness: the resume callbacks of the device return \<open>-5\<close>; each function returns
  \<open>-5\<close> and leaves its flag false.
\<close>

definition all_failing_env :: env where
  "all_failing_env = plain_env\<lparr>cb_ret := (\<lambda>f d s. - 5)\<rparr>"

theorem resume_clears_flag_on_error_witness:
  "\<not> syscore (pwr suspended_state 1) \<and> \<not> direct_complete (pwr suspended_state 1)
   \<and> device_pm_initialized suspended_state 1
   \<and> is_noirq_suspended (pwr suspended_state 1)
   \<and> is_late_suspended (pwr suspended_state 1)
   \<and> is_suspended (pwr suspended_state 1)
   \<and> fst (device_resume_noirq all_failing_env 1 PMSG_RESUME False suspended_state) = - 5
   \<and> \<not> is_noirq_suspended
         (pwr (snd (device_resume_noirq all_failing_env 1 PMSG_RESUME False suspended_state)) 1)
   \<and> fst (device_resume_early all_failing_env 1 PMSG_RESUME False suspended_state) = - 5
   \<and> \<not> is_late_suspended
         (pwr (snd (device_resume_early all_failing_env 1 PMSG_RESUME False suspended_state)) 1)
   \<and> fst (device_resume all_failing_env 1 PMSG_RESUME False suspended_state) = - 5
   \<and> \<not> is_suspended
         (pwr (snd (device_resume all_failing_env 1 PMSG_RESUME False suspended_state)) 1)"
proof -
  have a: "\<not> syscore (pwr suspended_state 1)" "\<not> direct_complete (pwr suspended_state 1)"
    "device_pm_initialized suspended_state 1"
    by (simp_all add: suspended_state_def suspended_device_def plain_power_def pwr_def
          device_pm_initialized_def)
  have b: "is_noirq_suspended (pwr suspended_state 1)" "is_late_suspended (pwr suspended_state 1)"
    "is_suspended (pwr suspended_state 1)"
    by (simp_all add: suspended_state_def suspended_device_def plain_power_def pwr_def)
  have c: "fst (device_resume_noirq all_failing_env 1 PMSG_RESUME False suspended_state) = - 5"
    "fst (device_resume_early all_failing_env 1 PMSG_RESUME False suspended_state) = - 5"
    "fst (device_resume all_failing_env 1 PMSG_RESUME False suspended_state) = - 5"
    by code_simp+
  show ?thesis
    using resume_clears_flag_on_error [OF a, of all_failing_env PMSG_RESUME False] a b c
    by simp
qed

section \<open>The phase flags\<close>

lemma suspend_flag_clear_suppliers [simp]:
  "is_suspended (pwr (dpm_clear_suppliers_direct_complete d s) x) = is_suspended (pwr s x)"
  unfolding dpm_clear_suppliers_direct_complete_def
  by (rule fold_frame) simp

lemma suspend_End_ok_flag [simp]:
  "is_suspended (pwr (suspend_End_ok d s) x) = (x = d \<or> is_suspended (pwr s x))"
  by (simp add: suspend_End_ok_def Let_def split: option.split)

lemma suspend_Complete_flag [simp]:
  "is_suspended (pwr (snd (suspend_Complete d error s)) x) = is_suspended (pwr s x)"
  "fst (suspend_Complete d error s) = error"
  by (simp_all add: suspend_Complete_def)

lemma suspend_noirq_sets_flag:
  "is_noirq_suspended (pwr (snd (dunder_device_suspend_noirq env d state async s)) d) \<longrightarrow>
     is_noirq_suspended (pwr s d)
     \<or> (fst (dunder_device_suspend_noirq env d state async s) = 0 \<and> async_error s = 0
         \<and> \<not> pm_wakeup_pending env s \<and> \<not> syscore (pwr s d) \<and> \<not> direct_complete (pwr s d))"
  by (simp add: dunder_device_suspend_noirq_def Let_def split_def)

lemma suspend_late_sets_flag:
  "is_late_suspended (pwr (snd (dunder_device_suspend_late env d state async s)) d) \<longrightarrow>
     is_late_suspended (pwr s d)
     \<or> (fst (dunder_device_suspend_late env d state async s) = 0 \<and> async_error s = 0
         \<and> \<not> pm_wakeup_pending env s \<and> \<not> syscore (pwr s d) \<and> \<not> direct_complete (pwr s d))"
  by (simp add: dunder_device_suspend_late_def Let_def split_def)

lemma suspend_sets_flag:
  "is_suspended (pwr (snd (dunder_device_suspend env d state async s)) d) \<longrightarrow>
     is_suspended (pwr s d)
     \<or> (fst (dunder_device_suspend env d state async s) = 0 \<and> async_error s = 0
         \<and> \<not> pm_wakeup_pending env s \<and> \<not> syscore (pwr s d))"
  by (simp add: dunder_device_suspend_def Let_def split_def split: suspend_choice.split)

text \<open>
  Claim C5, as amended. \<open>__device_suspend_noirq\<close>, \<open>__device_suspend_late\<close> and
  \<open>__device_suspend\<close> turn the flag of their phase on only when the function went as far
  as the callback and the result was zero. \<open>device_resume_noirq\<close>, \<open>device_resume_early\<close>
  and \<open>device_resume\<close> return zero without running a callback when the flag of the
  matching suspend phase is off. So a resume callback of a phase runs only for a device
  whose suspend callback of the same phase has succeeded. Nothing ties a phase to the
  phase before it: the resume functions do not look at the result of the earlier resume
  phase, and the suspend functions do not look at the flag of the earlier suspend phase.
\<close>

theorem phase_flags_gate_resume:
  "(is_noirq_suspended (pwr (snd (dunder_device_suspend_noirq env d state async s)) d) \<longrightarrow>
      is_noirq_suspended (pwr s d)
      \<or> (fst (dunder_device_suspend_noirq env d state async s) = 0 \<and> async_error s = 0
          \<and> \<not> pm_wakeup_pending env s \<and> \<not> syscore (pwr s d) \<and> \<not> direct_complete (pwr s d)))
   \<and> (is_late_suspended (pwr (snd (dunder_device_suspend_late env d state async s)) d) \<longrightarrow>
      is_late_suspended (pwr s d)
      \<or> (fst (dunder_device_suspend_late env d state async s) = 0 \<and> async_error s = 0
          \<and> \<not> pm_wakeup_pending env s \<and> \<not> syscore (pwr s d) \<and> \<not> direct_complete (pwr s d)))
   \<and> (is_suspended (pwr (snd (dunder_device_suspend env d state async s)) d) \<longrightarrow>
      is_suspended (pwr s d)
      \<or> (fst (dunder_device_suspend env d state async s) = 0 \<and> async_error s = 0
          \<and> \<not> pm_wakeup_pending env s \<and> \<not> syscore (pwr s d)))
   \<and> (\<not> is_noirq_suspended (pwr s d) \<longrightarrow>
        fst (device_resume_noirq env d state async s) = 0
        \<and> trace (snd (device_resume_noirq env d state async s)) = trace s)
   \<and> (\<not> is_late_suspended (pwr s d) \<longrightarrow>
        fst (device_resume_early env d state async s) = 0
        \<and> trace (snd (device_resume_early env d state async s)) = trace s)
   \<and> (\<not> is_suspended (pwr s d) \<longrightarrow>
        fst (device_resume env d state async s) = 0
        \<and> trace (snd (device_resume env d state async s)) = trace s)"
  using suspend_noirq_sets_flag [of env d state async s]
    suspend_late_sets_flag [of env d state async s]
    suspend_sets_flag [of env d state async s]
  by (simp add: resume_noirq_skip resume_early_skip resume_skip)

text \<open>
  The witness. A prepared device goes through \<open>__device_suspend\<close>,
  \<open>__device_suspend_late\<close> and \<open>__device_suspend_noirq\<close> with callbacks that return zero,
  which sets its three flags. The same device with its flags off is skipped by the three
  resume functions.
\<close>

definition prepared_state :: dpm_state where
  "prepared_state = empty_state\<lparr>devices := (devices empty_state)
       (1 := plain_device ''a'' driver_table),
     dpm_prepared_list := [1]\<rparr>"

lemma prepared_state_facts:
  "\<not> is_noirq_suspended (pwr prepared_state 1)"
  "\<not> is_late_suspended (pwr prepared_state 1)"
  "\<not> is_suspended (pwr prepared_state 1)"
  by (simp_all add: prepared_state_def plain_device_def plain_power_def pwr_def)

theorem phase_flags_gate_resume_witness:
  "is_noirq_suspended
     (pwr (snd (dunder_device_suspend_noirq plain_env 1 PMSG_SUSPEND False prepared_state)) 1)
   \<and> fst (dunder_device_suspend_noirq plain_env 1 PMSG_SUSPEND False prepared_state) = 0
   \<and> is_late_suspended
     (pwr (snd (dunder_device_suspend_late plain_env 1 PMSG_SUSPEND False prepared_state)) 1)
   \<and> fst (dunder_device_suspend_late plain_env 1 PMSG_SUSPEND False prepared_state) = 0
   \<and> is_suspended
     (pwr (snd (dunder_device_suspend plain_env 1 PMSG_SUSPEND False prepared_state)) 1)
   \<and> fst (dunder_device_suspend plain_env 1 PMSG_SUSPEND False prepared_state) = 0
   \<and> \<not> is_noirq_suspended (pwr prepared_state 1)
   \<and> \<not> is_late_suspended (pwr prepared_state 1)
   \<and> \<not> is_suspended (pwr prepared_state 1)
   \<and> trace (snd (device_resume_noirq plain_env 1 PMSG_RESUME False prepared_state)) = []
   \<and> trace (snd (device_resume_early plain_env 1 PMSG_RESUME False prepared_state)) = []
   \<and> trace (snd (device_resume plain_env 1 PMSG_RESUME False prepared_state)) = []"
proof -
  have set: "is_noirq_suspended
      (pwr (snd (dunder_device_suspend_noirq plain_env 1 PMSG_SUSPEND False prepared_state)) 1)"
    "is_late_suspended
      (pwr (snd (dunder_device_suspend_late plain_env 1 PMSG_SUSPEND False prepared_state)) 1)"
    "is_suspended
      (pwr (snd (dunder_device_suspend plain_env 1 PMSG_SUSPEND False prepared_state)) 1)"
    by code_simp+
  have empty: "trace prepared_state = []"
    by (simp add: prepared_state_def empty_state_def)
  show ?thesis
    using phase_flags_gate_resume [of plain_env 1 PMSG_SUSPEND False prepared_state]
      phase_flags_gate_resume [of plain_env 1 PMSG_RESUME False prepared_state]
      set prepared_state_facts empty
    by simp
qed

text \<open>
  The claim as first stated says that the callback of phase N+1 never runs unless the
  device's own callback of phase N has succeeded. It fails in the resume direction: the
  noirq resume callback of the device (address 4) returns \<open>-5\<close>, and the early resume
  callback (address 5) runs all the same in the next phase.
\<close>

theorem next_phase_runs_after_failure:
  "trace (dpm_resume_early (failing_env 4) PMSG_RESUME
            (dpm_resume_noirq (failing_env 4) PMSG_RESUME suspended_state)) =
     [Trace_suspend_resume ''dpm_resume_noirq'' PM_EVENT_RESUME True,
      Trace_device_pm_callback_start 1 (Some ''noirq driver '') PM_EVENT_RESUME,
      Callback 4 1, Trace_device_pm_callback_end 1 (- 5),
      Pm_dev_err 1 PM_EVENT_RESUME '' noirq'' (- 5),
      Trace_suspend_resume ''dpm_resume_noirq'' PM_EVENT_RESUME False,
      Ext ''resume_device_irqs'', Ext ''device_wakeup_disarm_wake_irqs'',
      Ext ''cpuidle_resume'',
      Trace_suspend_resume ''dpm_resume_early'' PM_EVENT_RESUME True,
      Trace_device_pm_callback_start 1 (Some ''early driver '') PM_EVENT_RESUME,
      Callback 5 1, Trace_device_pm_callback_end 1 0,
      Trace_suspend_resume ''dpm_resume_early'' PM_EVENT_RESUME False]"
  by code_simp

section \<open>The complete phase\<close>

lemma device_complete_syscore: "syscore (pwr s d) \<Longrightarrow> device_complete env d state s = s"
  by (simp add: device_complete_def)

lemma device_complete_runs:
  "\<not> syscore (pwr s d) \<Longrightarrow> select_callback complete (devices s d) = (info, Some f) \<Longrightarrow>
     device_complete env d state s = emit (Callback f d) s"
  by (simp add: device_complete_def)

lemma upd_power_emit: "upd_power d g (emit e s) = emit e (upd_power d g s)"
  by (simp add: upd_power_def emit_def)

lemma device_complete_ignores_is_prepared:
  "device_complete env d state (upd_power d (\<lambda>p. p\<lparr>is_prepared := b\<rparr>) s) =
     upd_power d (\<lambda>p. p\<lparr>is_prepared := b\<rparr>) (device_complete env d state s)"
  by (simp add: device_complete_def upd_power_emit split_def split: option.split)

lemma dpm_complete_loop_drains:
  "dpm_prepared_list (snd (dpm_complete_loop env state list s)) = []"
proof (induction env state list s rule: dpm_complete_loop.induct)
  case (1 env state list s)
  show ?case
  proof (cases "dpm_prepared_list s = []")
    case True
    then show ?thesis by (simp add: dpm_complete_loop.simps)
  next
    case False
    then show ?thesis
      using "1.IH" [OF False refl refl refl refl refl refl refl]
      by (subst dpm_complete_loop.simps) (simp add: Let_def)
  qed
qed

lemma dpm_complete_drains: "dpm_prepared_list (dpm_complete env state s) = []"
  by (simp add: dpm_complete_def Let_def split_def dpm_complete_loop_drains)

lemma dpm_complete_on_empty:
  "dpm_prepared_list s = [] \<Longrightarrow>
     trace (dpm_complete env state s) =
       trace s @ [Trace_suspend_resume ''dpm_complete'' (event state) True,
         Ext ''device_unblock_probing'',
         Trace_suspend_resume ''dpm_complete'' (event state) False]"
  by (simp add: dpm_complete_def Let_def dpm_complete_loop.simps)

text \<open>
  Claim C7, as amended. \<open>device_complete\<close> does not read \<open>power.is_prepared\<close>: setting the
  flag to any value before the call gives the same result. It returns at once for a
  \<open>syscore\<close> device, and for any other device it calls the \<open>complete\<close> callback that was
  chosen, if there is one. What keeps a callback from being called twice is the list:
  \<open>dpm_complete\<close> empties \<open>dpm_prepared_list\<close>, so a second \<open>dpm_complete\<close> calls no
  callback.
\<close>

theorem complete_is_gated_by_the_list:
  "device_complete env d state (upd_power d (\<lambda>p. p\<lparr>is_prepared := b\<rparr>) s) =
     upd_power d (\<lambda>p. p\<lparr>is_prepared := b\<rparr>) (device_complete env d state s)
   \<and> (syscore (pwr s d) \<longrightarrow> device_complete env d state s = s)
   \<and> (\<forall>info f. \<not> syscore (pwr s d) \<and> select_callback complete (devices s d) = (info, Some f)
        \<longrightarrow> device_complete env d state s = emit (Callback f d) s)
   \<and> dpm_prepared_list (dpm_complete env state s) = []
   \<and> trace (dpm_complete env' state' (dpm_complete env state s)) =
       trace (dpm_complete env state s) @
         [Trace_suspend_resume ''dpm_complete'' (event state') True,
          Ext ''device_unblock_probing'',
          Trace_suspend_resume ''dpm_complete'' (event state') False]"
  by (simp add: device_complete_ignores_is_prepared device_complete_syscore
        device_complete_runs dpm_complete_drains dpm_complete_on_empty)

text \<open>
  The witness: a device that is not \<open>syscore\<close>, has a \<open>complete\<close> callback and has
  \<open>is_prepared\<close> false; and the same device with \<open>syscore\<close> set.
\<close>

theorem complete_is_gated_by_the_list_witness:
  "\<not> syscore (pwr prepared_state 1)
   \<and> select_callback complete (devices prepared_state 1) = (Some ''driver '', Some 7)
   \<and> device_complete plain_env 1 PMSG_RESUME prepared_state = emit (Callback 7 1) prepared_state
   \<and> syscore (pwr (upd_power 1 (\<lambda>p. p\<lparr>syscore := True\<rparr>) prepared_state) 1)
   \<and> device_complete plain_env 1 PMSG_RESUME
        (upd_power 1 (\<lambda>p. p\<lparr>syscore := True\<rparr>) prepared_state)
      = upd_power 1 (\<lambda>p. p\<lparr>syscore := True\<rparr>) prepared_state"
proof -
  have a: "\<not> syscore (pwr prepared_state 1)"
    by (simp add: prepared_state_def plain_device_def plain_power_def pwr_def)
  have b: "select_callback complete (devices prepared_state 1) = (Some ''driver '', Some 7)"
    by (simp add: prepared_state_def plain_device_def select_callback_def type_ops_def
          class_ops_def bus_ops_def driver_ops_def driver_table_def no_ops_def)
  have c: "syscore (pwr (upd_power 1 (\<lambda>p. p\<lparr>syscore := True\<rparr>) prepared_state) 1)"
    by simp
  show ?thesis
    using complete_is_gated_by_the_list [of plain_env 1 PMSG_RESUME False prepared_state]
      complete_is_gated_by_the_list [of plain_env 1 PMSG_RESUME False
        "upd_power 1 (\<lambda>p. p\<lparr>syscore := True\<rparr>) prepared_state"]
      a b c
    by simp
qed

text \<open>
  The claim as first stated fails: the device has \<open>is_prepared\<close> false, and
  \<open>device_complete\<close> calls its \<open>complete\<close> callback (address 7).
\<close>

theorem complete_runs_when_not_prepared:
  "\<not> is_prepared (pwr prepared_state 1)
   \<and> trace prepared_state = []
   \<and> trace (device_complete plain_env 1 PMSG_RESUME prepared_state) = [Callback 7 1]"
  by code_simp

section \<open>The prepare phase\<close>

text \<open>
  The body of the loop of \<open>dpm_prepare\<close> up to the test of \<open>error\<close>: the call of
  \<open>device_prepare\<close> for the first device of \<open>dpm_list\<close>, between its two tracepoints.
\<close>

definition prepare_first :: "env \<Rightarrow> pm_message_t \<Rightarrow> dpm_state \<Rightarrow> int \<times> dpm_state" where
  "prepare_first env state s =
     (let d = hd (dpm_list s);
          s = emit (Trace_device_pm_callback_start d (Some []) (event state)) s;
          (error, s) = device_prepare env d state s
      in (error, emit (Trace_device_pm_callback_end d error) s))"

definition dpm_prepare_begin :: "pm_message_t \<Rightarrow> dpm_state \<Rightarrow> dpm_state" where
  "dpm_prepare_begin state s =
     emit (Ext ''device_block_probing'')
       (emit (Ext ''wait_for_device_probe'')
         (emit (Trace_suspend_resume ''dpm_prepare'' (event state) True) s))"

text \<open>A registered device whose driver has a \<open>prepare\<close> callback at address 8.\<close>

definition registered_state :: dpm_state where
  "registered_state = empty_state\<lparr>devices := (devices empty_state)
       (1 := plain_device ''a'' (driver_table\<lparr>prepare := Some 8\<rparr>)),
     dpm_list := [1]\<rparr>"

definition returning_env :: "int \<Rightarrow> env" where
  "returning_env r = plain_env\<lparr>cb_ret := (\<lambda>f d s. r)\<rparr>"

lemma device_prepare_is_prepared [simp]:
  "is_prepared (pwr (snd (device_prepare env d state s)) x) = is_prepared (pwr s x)"
  by (simp add: device_prepare_def Let_def split_def split: option.split)

lemma prepare_first_frame [simp]:
  "dpm_list (snd (prepare_first env state s)) = dpm_list s"
  "dpm_prepared_list (snd (prepare_first env state s)) = dpm_prepared_list s"
  "dpm_suspended_list (snd (prepare_first env state s)) = dpm_suspended_list s"
  "dpm_late_early_list (snd (prepare_first env state s)) = dpm_late_early_list s"
  "dpm_noirq_list (snd (prepare_first env state s)) = dpm_noirq_list s"
  "is_prepared (pwr (snd (prepare_first env state s)) x) = is_prepared (pwr s x)"
  "entry_empty (snd (prepare_first env state s)) x = entry_empty s x"
  by (simp_all add: prepare_first_def Let_def split_def entry_empty_def)

lemma dpm_prepare_loop_empty:
  "dpm_list s = [] \<Longrightarrow> dpm_prepare_loop env state error s = Some (error, s)"
  by (subst dpm_prepare_loop.simps) simp

lemma dpm_prepare_loop_again:
  "dpm_list s \<noteq> [] \<Longrightarrow> fst (prepare_first env state s) = - EAGAIN \<Longrightarrow>
     dpm_prepare_loop env state error s =
       dpm_prepare_loop env state 0 (snd (prepare_first env state s))"
  by (subst dpm_prepare_loop.simps) (simp add: prepare_first_def Let_def split_def EAGAIN_def)

lemma dpm_prepare_loop_error:
  "dpm_list s \<noteq> [] \<Longrightarrow> fst (prepare_first env state s) \<noteq> 0 \<Longrightarrow>
   fst (prepare_first env state s) \<noteq> - EAGAIN \<Longrightarrow>
     dpm_prepare_loop env state error s =
       Some (fst (prepare_first env state s),
         dpm_save_failed_dev (dev_name (devices (snd (prepare_first env state s)) (hd (dpm_list s))))
           (snd (prepare_first env state s)))"
  by (subst dpm_prepare_loop.simps) (simp add: prepare_first_def Let_def split_def)

lemma dpm_prepare_loop_ok:
  "dpm_list s \<noteq> [] \<Longrightarrow> fst (prepare_first env state s) = 0 \<Longrightarrow>
     dpm_prepare_loop env state error s =
       dpm_prepare_loop env state 0
         (list_move_tail (hd (dpm_list s)) DPM_PREPARED_LIST
           (upd_power (hd (dpm_list s)) (\<lambda>p. p\<lparr>is_prepared := True\<rparr>)
             (snd (prepare_first env state s))))"
  by (subst dpm_prepare_loop.simps)
     (simp add: prepare_first_def Let_def split_def entry_empty_def)

lemma device_prepare_value:
  "fst (device_prepare env d state s) = 0
   \<or> (\<exists>f s'. fst (device_prepare env d state s) = cb_ret env f d s')"
  by (simp add: device_prepare_def Let_def split_def split: option.split) blast

lemma prepare_first_value:
  "fst (prepare_first env state s) = 0
   \<or> (\<exists>f d s'. fst (prepare_first env state s) = cb_ret env f d s')"
  using device_prepare_value [of env "hd (dpm_list s)" state]
  by (simp add: prepare_first_def Let_def split_def) blast

text \<open>
  When no callback answers \<open>-EAGAIN\<close>, every pass of the loop either stops or moves the
  first device of \<open>dpm_list\<close> away, so the loop returns.
\<close>

lemma dpm_prepare_loop_returns:
  assumes "\<And>f d s. cb_ret env f d s \<noteq> - EAGAIN"
  shows "\<exists>r. dpm_prepare_loop env state error s = Some r"
proof (induction "length (dpm_list s)" arbitrary: s error rule: less_induct)
  case less
  show ?case
  proof (cases "dpm_list s = []")
    case True
    then show ?thesis by (simp add: dpm_prepare_loop_empty)
  next
    case False
    have not_again: "fst (prepare_first env state s) \<noteq> - EAGAIN"
      using prepare_first_value [of env state s] assms by (auto simp: EAGAIN_def)
    show ?thesis
    proof (cases "fst (prepare_first env state s) = 0")
      case True
      let ?s = "list_move_tail (hd (dpm_list s)) DPM_PREPARED_LIST
           (upd_power (hd (dpm_list s)) (\<lambda>p. p\<lparr>is_prepared := True\<rparr>)
             (snd (prepare_first env state s)))"
      have "length (dpm_list ?s) < length (dpm_list s)"
        using False by simp
      then show ?thesis
        using less [of ?s 0] dpm_prepare_loop_ok [OF False True] by simp
    next
      case nonzero: False
      then show ?thesis
        using dpm_prepare_loop_error [OF False nonzero not_again] by simp
    qed
  qed
qed

lemma device_prepare_positive:
  assumes "\<not> syscore (pwr s d)" "\<not> no_pm_callbacks (pwr s d)"
    "select_callback prepare (devices s d) = (info, Some f)"
    "0 < cb_ret env f d (upd_power d (\<lambda>p. p\<lparr>wakeup_path := device_may_wakeup s d\<rparr>) s)"
  shows "fst (device_prepare env d state s) = 0
    \<and> direct_complete (pwr (snd (device_prepare env d state s)) d) = (event state = PM_EVENT_SUSPEND)"
  using assms by (simp add: device_prepare_def Let_def)

lemma device_prepare_no_callbacks:
  assumes "\<not> syscore (pwr s d)" "no_pm_callbacks (pwr s d)"
  shows "fst (device_prepare env d state s) = 0
    \<and> direct_complete (pwr (snd (device_prepare env d state s)) d) = (event state = PM_EVENT_SUSPEND)"
  using assms by (simp add: device_prepare_def Let_def)

lemma device_prepare_negative:
  assumes "\<not> syscore (pwr s d)" "\<not> no_pm_callbacks (pwr s d)"
    "select_callback prepare (devices s d) = (info, Some f)"
    "cb_ret env f d (upd_power d (\<lambda>p. p\<lparr>wakeup_path := device_may_wakeup s d\<rparr>) s) < 0"
  shows "fst (device_prepare env d state s)
           = cb_ret env f d (upd_power d (\<lambda>p. p\<lparr>wakeup_path := device_may_wakeup s d\<rparr>) s)
    \<and> direct_complete (pwr (snd (device_prepare env d state s)) d) = direct_complete (pwr s d)"
  using assms by (simp add: device_prepare_def Let_def)

lemma device_prepare_nonpos: "fst (device_prepare env d state s) \<le> 0"
  by (simp add: device_prepare_def Let_def split_def split: option.split)

text \<open>
  Claim C10. \<open>device_prepare\<close> never returns a positive value. For a device that is not
  \<open>syscore\<close>, a positive return of the \<open>prepare\<close> callback, or the absence of any PM
  callback, gives the result 0 and sets \<open>direct_complete\<close> exactly when the event is
  \<open>PM_EVENT_SUSPEND\<close>; a negative return is the result of \<open>device_prepare\<close>. In the loop of
  \<open>dpm_prepare\<close>, with a device on \<open>dpm_list\<close>: when \<open>device_prepare\<close> returns \<open>-EAGAIN\<close>
  the loop goes on with \<open>error\<close> reset to 0, the lists as they were and \<open>is_prepared\<close>
  untouched; any other non-zero value ends the loop, which returns it; on 0 the device
  gets \<open>is_prepared\<close> and moves to the tail of \<open>dpm_prepared_list\<close>. \<open>dpm_prepare\<close>
  returns what the loop returns. When no callback answers \<open>-EAGAIN\<close>, the loop returns.
\<close>

theorem dpm_prepare_errors:
  "fst (device_prepare env d state s) \<le> 0
   \<and> (\<forall>info f. \<not> syscore (pwr s d) \<and> \<not> no_pm_callbacks (pwr s d)
        \<and> select_callback prepare (devices s d) = (info, Some f)
        \<and> 0 < cb_ret env f d (upd_power d (\<lambda>p. p\<lparr>wakeup_path := device_may_wakeup s d\<rparr>) s)
      \<longrightarrow> fst (device_prepare env d state s) = 0
          \<and> direct_complete (pwr (snd (device_prepare env d state s)) d)
              = (event state = PM_EVENT_SUSPEND))
   \<and> (\<not> syscore (pwr s d) \<and> no_pm_callbacks (pwr s d)
      \<longrightarrow> fst (device_prepare env d state s) = 0
          \<and> direct_complete (pwr (snd (device_prepare env d state s)) d)
              = (event state = PM_EVENT_SUSPEND))
   \<and> (\<forall>info f. \<not> syscore (pwr s d) \<and> \<not> no_pm_callbacks (pwr s d)
        \<and> select_callback prepare (devices s d) = (info, Some f)
        \<and> cb_ret env f d (upd_power d (\<lambda>p. p\<lparr>wakeup_path := device_may_wakeup s d\<rparr>) s) < 0
      \<longrightarrow> fst (device_prepare env d state s)
            = cb_ret env f d (upd_power d (\<lambda>p. p\<lparr>wakeup_path := device_may_wakeup s d\<rparr>) s))
   \<and> (dpm_list s \<noteq> [] \<and> fst (prepare_first env state s) = - EAGAIN
      \<longrightarrow> dpm_prepare_loop env state error s
            = dpm_prepare_loop env state 0 (snd (prepare_first env state s))
          \<and> dpm_list (snd (prepare_first env state s)) = dpm_list s
          \<and> dpm_prepared_list (snd (prepare_first env state s)) = dpm_prepared_list s
          \<and> is_prepared (pwr (snd (prepare_first env state s)) (hd (dpm_list s)))
              = is_prepared (pwr s (hd (dpm_list s))))
   \<and> (dpm_list s \<noteq> [] \<and> fst (prepare_first env state s) \<noteq> 0
        \<and> fst (prepare_first env state s) \<noteq> - EAGAIN
      \<longrightarrow> dpm_prepare_loop env state error s =
            Some (fst (prepare_first env state s),
              dpm_save_failed_dev
                (dev_name (devices (snd (prepare_first env state s)) (hd (dpm_list s))))
                (snd (prepare_first env state s))))
   \<and> (dpm_list s \<noteq> [] \<and> fst (prepare_first env state s) = 0
      \<longrightarrow> dpm_prepare_loop env state error s =
            dpm_prepare_loop env state 0
              (list_move_tail (hd (dpm_list s)) DPM_PREPARED_LIST
                (upd_power (hd (dpm_list s)) (\<lambda>p. p\<lparr>is_prepared := True\<rparr>)
                  (snd (prepare_first env state s)))))
   \<and> (\<forall>e s'. dpm_prepare_loop env state 0 (dpm_prepare_begin state s) = Some (e, s')
      \<longrightarrow> dpm_prepare env state s =
            Some (e, emit (Trace_suspend_resume ''dpm_prepare'' (event state) False) s'))
   \<and> ((\<forall>f x t. cb_ret env f x t \<noteq> - EAGAIN) \<longrightarrow> (\<exists>r. dpm_prepare env state s = Some r))"
proof -
  have ret: "(\<forall>f x t. cb_ret env f x t \<noteq> - EAGAIN) \<longrightarrow> (\<exists>r. dpm_prepare env state s = Some r)"
  proof
    assume a: "\<forall>f x t. cb_ret env f x t \<noteq> - EAGAIN"
    obtain r where "dpm_prepare_loop env state 0 (dpm_prepare_begin state s) = Some r"
      using dpm_prepare_loop_returns [of env state 0 "dpm_prepare_begin state s"] a by blast
    then show "\<exists>r. dpm_prepare env state s = Some r"
      by (cases r) (simp add: dpm_prepare_def dpm_prepare_begin_def Let_def)
  qed
  have top: "\<forall>e s'. dpm_prepare_loop env state 0 (dpm_prepare_begin state s) = Some (e, s')
      \<longrightarrow> dpm_prepare env state s =
            Some (e, emit (Trace_suspend_resume ''dpm_prepare'' (event state) False) s')"
    by (simp add: dpm_prepare_def dpm_prepare_begin_def Let_def)
  show ?thesis
    using ret top
    by (simp add: device_prepare_nonpos device_prepare_positive device_prepare_no_callbacks
          device_prepare_negative dpm_prepare_loop_again dpm_prepare_loop_error
          dpm_prepare_loop_ok)
qed

text \<open>
  The witness: the \<open>prepare\<close> callback of the one registered device returns \<open>-11\<close>
  (\<open>-EAGAIN\<close>), \<open>-5\<close>, \<open>1\<close> and \<open>0\<close> in turn.
\<close>

lemma registered_state_facts:
  "dpm_list registered_state \<noteq> []"
  "\<not> syscore (pwr registered_state 1)"
  "\<not> no_pm_callbacks (pwr registered_state 1)"
  "select_callback prepare (devices registered_state 1) = (Some ''driver '', Some 8)"
  by (simp_all add: registered_state_def plain_device_def plain_power_def pwr_def
        select_callback_def type_ops_def class_ops_def bus_ops_def driver_ops_def
        driver_table_def no_ops_def)

lemma returning_env_cb [simp]: "cb_ret (returning_env r) f d s = r"
  by (simp add: returning_env_def)

lemma prepare_first_registered:
  "fst (prepare_first (returning_env (- 11)) PMSG_SUSPEND registered_state) = - EAGAIN"
  "fst (prepare_first (returning_env (- 5)) PMSG_SUSPEND registered_state) = - 5"
  by code_simp+

theorem dpm_prepare_errors_witness:
  "dpm_list registered_state \<noteq> []
   \<and> fst (prepare_first (returning_env (- 11)) PMSG_SUSPEND registered_state) = - EAGAIN
   \<and> dpm_prepare_loop (returning_env (- 11)) PMSG_SUSPEND 0 registered_state
       = dpm_prepare_loop (returning_env (- 11)) PMSG_SUSPEND 0
           (snd (prepare_first (returning_env (- 11)) PMSG_SUSPEND registered_state))
   \<and> dpm_list (snd (prepare_first (returning_env (- 11)) PMSG_SUSPEND registered_state)) = [1]
   \<and> dpm_prepared_list (snd (prepare_first (returning_env (- 11)) PMSG_SUSPEND registered_state)) = []
   \<and> map_option fst (dpm_prepare_loop (returning_env (- 5)) PMSG_SUSPEND 0 registered_state)
       = Some (- 5)
   \<and> fst (device_prepare (returning_env 1) 1 PMSG_SUSPEND registered_state) = 0
   \<and> direct_complete (pwr (snd (device_prepare (returning_env 1) 1 PMSG_SUSPEND registered_state)) 1)
   \<and> \<not> direct_complete (pwr (snd (device_prepare (returning_env 1) 1 PMSG_RESUME registered_state)) 1)
   \<and> fst (device_prepare (returning_env (- 5)) 1 PMSG_SUSPEND registered_state) = - 5
   \<and> (\<exists>r. dpm_prepare (returning_env 0) PMSG_SUSPEND registered_state = Some r)"
proof -
  have lists: "dpm_list registered_state = [1]" "dpm_prepared_list registered_state = []"
    by (simp_all add: registered_state_def empty_state_def)
  have never: "\<forall>f x t. cb_ret (returning_env 0) f x t \<noteq> - EAGAIN"
    by (simp add: EAGAIN_def)
  have neq: "(- 5::int) \<noteq> 0" "(- 5::int) \<noteq> - EAGAIN"
    by (simp_all add: EAGAIN_def)
  show ?thesis
    using dpm_prepare_errors [of "returning_env (- 11)" 1 PMSG_SUSPEND registered_state 0]
      dpm_prepare_errors [of "returning_env (- 5)" 1 PMSG_SUSPEND registered_state 0]
      dpm_prepare_errors [of "returning_env 1" 1 PMSG_SUSPEND registered_state 0]
      dpm_prepare_errors [of "returning_env 1" 1 PMSG_RESUME registered_state 0]
      dpm_prepare_errors [of "returning_env 0" 1 PMSG_SUSPEND registered_state 0]
      registered_state_facts prepare_first_registered lists never neq
    by (simp add: PMSG_SUSPEND_def PMSG_RESUME_def)
qed

section \<open>The callback that is run\<close>

text \<open>
  The resolution in the words of the specification: the layers are asked in a fixed
  order, power domain, type, class, bus. A layer that is present with a table of
  callbacks offers that table; a class or a bus without a table offers its legacy hook,
  where the phase has one. The first layer that offers anything decides: a legacy hook is
  the callback; a table gives its slot for the phase, and when that slot is empty, or no
  layer offers anything, the table of the driver is asked.
\<close>

datatype offer =
    Table string dev_pm_ops
  | Hook string nat

definition layer_offers ::
  "(device_class \<Rightarrow> pm_callback_t) \<Rightarrow> (bus_type \<Rightarrow> pm_callback_t) \<Rightarrow> device \<Rightarrow> offer option list" where
  "layer_offers class_hook bus_hook dv =
     [map_option (\<lambda>pd. Table ''power domain '' (domain_ops pd)) (dev_pm_domain dv),
      map_option (Table ''type '') (type_ops dv),
      (case dev_class dv of
         None \<Rightarrow> None
       | Some c \<Rightarrow> (case class_pm c of
           Some ops \<Rightarrow> Some (Table ''class '' ops)
         | None \<Rightarrow> map_option (Hook ''legacy class '') (class_hook c))),
      (case dev_bus dv of
         None \<Rightarrow> None
       | Some b \<Rightarrow> (case bus_pm b of
           Some ops \<Rightarrow> Some (Table ''bus '' ops)
         | None \<Rightarrow> map_option (Hook ''legacy bus '') (bus_hook b)))]"

fun first_offer :: "offer option list \<Rightarrow> offer option" where
  "first_offer [] = None"
| "first_offer (Some x # rest) = Some x"
| "first_offer (None # rest) = first_offer rest"

definition priority_resolve ::
  "(dev_pm_ops \<Rightarrow> pm_callback_t) \<Rightarrow> offer option list \<Rightarrow> dev_pm_ops option \<Rightarrow> suspend_choice" where
  "priority_resolve sel offers driver =
     (let ask_driver = (\<lambda>info. case driver of
            Some ops \<Rightarrow> Run (Some ''driver '') (sel ops)
          | None \<Rightarrow> Run info None)
      in case first_offer offers of
           Some (Hook info f) \<Rightarrow> Legacy_suspend info f
         | Some (Table layer ops) \<Rightarrow> (case sel ops of
             Some f \<Rightarrow> Run (Some layer) (Some f)
           | None \<Rightarrow> ask_driver (Some layer))
         | None \<Rightarrow> ask_driver None)"

fun as_pair :: "suspend_choice \<Rightarrow> string option \<times> pm_callback_t" where
  "as_pair (Run info callback) = (info, callback)"
| "as_pair (Legacy_suspend info f) = (Some info, Some f)"

text \<open>A device of a class that has legacy hooks and no table, with the driver of before.\<close>

definition legacy_class_state :: dpm_state where
  "legacy_class_state = empty_state\<lparr>devices := (devices empty_state)
       (1 := (plain_device ''a'' driver_table)\<lparr>dev_class :=
          Some \<lparr>class_pm = None, class_suspend = Some 11, class_resume = Some 12\<rparr>\<rparr>),
     dpm_late_early_list := [1]\<rparr>"

lemma select_callback_priority:
  "select_callback sel dv =
     as_pair (priority_resolve sel (layer_offers (\<lambda>c. None) (\<lambda>b. None) dv) (driver_ops dv))"
  by (simp add: select_callback_def priority_resolve_def layer_offers_def class_ops_def
        bus_ops_def split: option.split)

lemma resume_callback_priority:
  "resume_callback env dv state =
     as_pair (priority_resolve (\<lambda>ops. pm_op env ops state)
       (layer_offers class_resume bus_resume dv) (driver_ops dv))"
  by (cases "dev_pm_domain dv"; cases "type_ops dv"; cases "dev_class dv"; cases "dev_bus dv";
      cases "driver_ops dv";
      simp add: resume_callback_def priority_resolve_def layer_offers_def Let_def
        split: option.split)

lemma suspend_callback_priority:
  "suspend_callback env dv state =
     priority_resolve (\<lambda>ops. pm_op env ops state)
       (layer_offers class_suspend bus_suspend dv) (driver_ops dv)"
  by (cases "dev_pm_domain dv"; cases "type_ops dv"; cases "dev_class dv"; cases "dev_bus dv";
      cases "driver_ops dv";
      simp add: suspend_callback_def priority_resolve_def layer_offers_def Let_def
        split: option.split)

lemma resume_noirq_uses:
  "\<not> syscore (pwr s d) \<Longrightarrow> \<not> direct_complete (pwr s d) \<Longrightarrow> is_noirq_suspended (pwr s d) \<Longrightarrow>
   device_pm_initialized s d \<Longrightarrow>
     trace (snd (device_resume_noirq env d state async s)) =
       trace (snd (dpm_run_callback env
         (snd (select_callback (\<lambda>ops. pm_noirq_op env ops state) (devices s d))) d state
         (phase_info ''noirq '' (fst (select_callback (\<lambda>ops. pm_noirq_op env ops state) (devices s d))))
         s))"
  by (simp add: device_resume_noirq_def dpm_wait_for_superior_def Let_def split_def)

lemma resume_early_uses:
  "\<not> syscore (pwr s d) \<Longrightarrow> \<not> direct_complete (pwr s d) \<Longrightarrow> is_late_suspended (pwr s d) \<Longrightarrow>
   device_pm_initialized s d \<Longrightarrow>
     trace (snd (device_resume_early env d state async s)) =
       trace (snd (dpm_run_callback env
         (snd (select_callback (\<lambda>ops. pm_late_early_op env ops state) (devices s d))) d state
         (phase_info ''early '' (fst (select_callback (\<lambda>ops. pm_late_early_op env ops state) (devices s d))))
         s))"
  by (simp add: device_resume_early_def dpm_wait_for_superior_def Let_def split_def)

lemma resume_uses:
  "\<not> syscore (pwr s d) \<Longrightarrow> \<not> direct_complete (pwr s d) \<Longrightarrow> is_suspended (pwr s d) \<Longrightarrow>
   device_pm_initialized s d \<Longrightarrow>
     trace (snd (device_resume env d state async s)) =
       trace (snd (dpm_run_callback env (snd (resume_callback env (devices s d) state)) d state
         (fst (resume_callback env (devices s d) state))
         (upd_power d (\<lambda>p. p\<lparr>is_prepared := False\<rparr>) s)))"
  by (simp add: device_resume_def dpm_wait_for_superior_def Let_def split_def)

lemma suspend_noirq_uses:
  "async_error s = 0 \<Longrightarrow> \<not> pm_wakeup_pending env s \<Longrightarrow> \<not> syscore (pwr s d) \<Longrightarrow>
   \<not> direct_complete (pwr s d) \<Longrightarrow>
     trace (snd (dunder_device_suspend_noirq env d state async s)) =
       trace (snd (dpm_run_callback env
         (snd (select_callback (\<lambda>ops. pm_noirq_op env ops state) (devices s d))) d state
         (phase_info ''noirq '' (fst (select_callback (\<lambda>ops. pm_noirq_op env ops state) (devices s d))))
         s))"
  by (simp add: dunder_device_suspend_noirq_def Let_def split_def)

lemma suspend_late_uses:
  "async_error s = 0 \<Longrightarrow> \<not> pm_wakeup_pending env s \<Longrightarrow> \<not> syscore (pwr s d) \<Longrightarrow>
   \<not> direct_complete (pwr s d) \<Longrightarrow>
     trace (snd (dunder_device_suspend_late env d state async s)) =
       trace (snd (dpm_run_callback env
         (snd (select_callback (\<lambda>ops. pm_late_early_op env ops state) (devices s d))) d state
         (phase_info ''late '' (fst (select_callback (\<lambda>ops. pm_late_early_op env ops state) (devices s d))))
         s))"
  by (simp add: dunder_device_suspend_late_def Let_def split_def)

lemma upd_power_same: "f (pwr s d) = pwr s d \<Longrightarrow> upd_power d f s = s"
  by (simp add: upd_power_def pwr_def)

lemma direct_complete_already_off [simp]:
  "\<not> direct_complete (pwr s d) \<Longrightarrow> upd_power d (\<lambda>p. p\<lparr>direct_complete := False\<rparr>) s = s"
  by (rule upd_power_same) simp

lemma suspend_uses:
  "async_error s = 0 \<Longrightarrow> \<not> pm_wakeup_pending env s \<Longrightarrow> \<not> syscore (pwr s d) \<Longrightarrow>
   \<not> direct_complete (pwr s d) \<Longrightarrow>
     trace (snd (dunder_device_suspend env d state async s)) =
       (case suspend_callback env (devices s d) state of
          Run info callback \<Rightarrow>
            trace (snd (dpm_run_callback env callback d state info s))
        | Legacy_suspend info f \<Rightarrow>
            trace s @ [Trace_device_pm_callback_start d (Some info) (event state),
              Legacy_callback f d (event state),
              Trace_device_pm_callback_end d (fst (dunder_device_suspend env d state async s))])"
  by (simp add: dunder_device_suspend_def legacy_suspend_def Let_def split_def
        dpm_run_callback_def emit_def suspend_Complete_def
        split: suspend_choice.split option.split)

text \<open>
  Claim C4, as amended. In every phase the choice made by the code is the choice by
  priority described above. The legacy hooks of a class or a bus take part in the suspend
  phase (\<open>__device_suspend\<close>) and in the resume phase (\<open>device_resume\<close>) only; in the
  noirq, late, early, prepare and complete paths a class or a bus without a table offers
  nothing. The per-device functions of the six phases that go through
  \<open>dpm_run_callback\<close> run what was chosen, and \<open>dpm_run_callback\<close> with a \<open>NULL\<close>
  callback returns 0 and leaves the state as it is.
\<close>

theorem callback_resolution:
  "select_callback sel dv =
     as_pair (priority_resolve sel (layer_offers (\<lambda>c. None) (\<lambda>b. None) dv) (driver_ops dv))
   \<and> resume_callback env dv state =
       as_pair (priority_resolve (\<lambda>ops. pm_op env ops state)
         (layer_offers class_resume bus_resume dv) (driver_ops dv))
   \<and> suspend_callback env dv state =
       priority_resolve (\<lambda>ops. pm_op env ops state)
         (layer_offers class_suspend bus_suspend dv) (driver_ops dv)
   \<and> dpm_run_callback env None d state info s = (0, s)
   \<and> (\<not> syscore (pwr s d) \<and> \<not> direct_complete (pwr s d) \<and> device_pm_initialized s d \<longrightarrow>
        (is_noirq_suspended (pwr s d) \<longrightarrow>
           trace (snd (device_resume_noirq env d state async s)) =
             trace (snd (dpm_run_callback env
               (snd (select_callback (\<lambda>ops. pm_noirq_op env ops state) (devices s d))) d state
               (phase_info ''noirq ''
                 (fst (select_callback (\<lambda>ops. pm_noirq_op env ops state) (devices s d))))
               s)))
        \<and> (is_late_suspended (pwr s d) \<longrightarrow>
           trace (snd (device_resume_early env d state async s)) =
             trace (snd (dpm_run_callback env
               (snd (select_callback (\<lambda>ops. pm_late_early_op env ops state) (devices s d))) d state
               (phase_info ''early ''
                 (fst (select_callback (\<lambda>ops. pm_late_early_op env ops state) (devices s d))))
               s)))
        \<and> (is_suspended (pwr s d) \<longrightarrow>
           trace (snd (device_resume env d state async s)) =
             trace (snd (dpm_run_callback env (snd (resume_callback env (devices s d) state)) d state
               (fst (resume_callback env (devices s d) state))
               (upd_power d (\<lambda>p. p\<lparr>is_prepared := False\<rparr>) s)))))
   \<and> (async_error s = 0 \<and> \<not> pm_wakeup_pending env s \<and> \<not> syscore (pwr s d)
        \<and> \<not> direct_complete (pwr s d) \<longrightarrow>
        trace (snd (dunder_device_suspend_noirq env d state async s)) =
          trace (snd (dpm_run_callback env
            (snd (select_callback (\<lambda>ops. pm_noirq_op env ops state) (devices s d))) d state
            (phase_info ''noirq ''
              (fst (select_callback (\<lambda>ops. pm_noirq_op env ops state) (devices s d))))
            s))
        \<and> trace (snd (dunder_device_suspend_late env d state async s)) =
          trace (snd (dpm_run_callback env
            (snd (select_callback (\<lambda>ops. pm_late_early_op env ops state) (devices s d))) d state
            (phase_info ''late ''
              (fst (select_callback (\<lambda>ops. pm_late_early_op env ops state) (devices s d))))
            s))
        \<and> trace (snd (dunder_device_suspend env d state async s)) =
          (case suspend_callback env (devices s d) state of
             Run info callback \<Rightarrow>
               trace (snd (dpm_run_callback env callback d state info s))
           | Legacy_suspend info f \<Rightarrow>
               trace s @ [Trace_device_pm_callback_start d (Some info) (event state),
                 Legacy_callback f d (event state),
                 Trace_device_pm_callback_end d
                   (fst (dunder_device_suspend env d state async s))]))"
  using select_callback_priority [of sel dv] resume_callback_priority [of env dv state]
    suspend_callback_priority [of env dv state]
  by (simp add: resume_noirq_uses resume_early_uses resume_uses suspend_noirq_uses
        suspend_late_uses suspend_uses)

text \<open>
  The witness: the device of a class with legacy hooks only. In the suspend phase the
  legacy \<open>suspend\<close> hook of the class (address 11) is called, in the resume phase its
  legacy \<open>resume\<close> hook (address 12).
\<close>

lemma legacy_class_state_facts:
  "async_error legacy_class_state = 0"
  "\<not> pm_wakeup_pending plain_env legacy_class_state"
  "\<not> syscore (pwr legacy_class_state 1)"
  "\<not> direct_complete (pwr legacy_class_state 1)"
  "device_pm_initialized legacy_class_state 1"
  "trace legacy_class_state = []"
  by (simp_all add: legacy_class_state_def empty_state_def plain_env_def plain_device_def
        plain_power_def pwr_def device_pm_initialized_def)

lemma legacy_class_state_choice:
  "suspend_callback plain_env (devices legacy_class_state 1) PMSG_SUSPEND =
     Legacy_suspend ''legacy class '' 11"
  "resume_callback plain_env (devices legacy_class_state 1) PMSG_RESUME =
     (Some ''legacy class '', Some 12)"
  "fst (dunder_device_suspend plain_env 1 PMSG_SUSPEND False legacy_class_state) = 0"
  by code_simp+

theorem callback_resolution_witness:
  "async_error legacy_class_state = 0 \<and> \<not> pm_wakeup_pending plain_env legacy_class_state
   \<and> \<not> syscore (pwr legacy_class_state 1) \<and> \<not> direct_complete (pwr legacy_class_state 1)
   \<and> priority_resolve (\<lambda>ops. pm_op plain_env ops PMSG_SUSPEND)
        (layer_offers class_suspend bus_suspend (devices legacy_class_state 1))
        (driver_ops (devices legacy_class_state 1))
      = Legacy_suspend ''legacy class '' 11
   \<and> as_pair (priority_resolve (\<lambda>ops. pm_op plain_env ops PMSG_RESUME)
        (layer_offers class_resume bus_resume (devices legacy_class_state 1))
        (driver_ops (devices legacy_class_state 1)))
      = (Some ''legacy class '', Some 12)
   \<and> trace (snd (dunder_device_suspend plain_env 1 PMSG_SUSPEND False legacy_class_state)) =
       [Trace_device_pm_callback_start 1 (Some ''legacy class '') PM_EVENT_SUSPEND,
        Legacy_callback 11 1 PM_EVENT_SUSPEND, Trace_device_pm_callback_end 1 0]"
  using callback_resolution [of "\<lambda>ops. None" "devices legacy_class_state 1" plain_env
      PMSG_SUSPEND 1 None legacy_class_state False]
    callback_resolution [of "\<lambda>ops. None" "devices legacy_class_state 1" plain_env
      PMSG_RESUME 1 None legacy_class_state False]
    legacy_class_state_facts legacy_class_state_choice
  by (simp add: PMSG_SUSPEND_def)

text \<open>
  The claim as first stated lets a legacy hook stand in for a missing table in every
  phase. It fails in the noirq phase: the class of the device has no table and has a
  legacy \<open>suspend\<close> hook (address 11), and \<open>__device_suspend_noirq\<close> runs the
  \<open>suspend_noirq\<close> callback of the driver (address 3).
\<close>

theorem legacy_hook_not_used_in_noirq:
  "class_ops (devices legacy_class_state 1) = None
   \<and> map_option class_suspend (dev_class (devices legacy_class_state 1)) = Some (Some 11)
   \<and> trace (snd (dunder_device_suspend_noirq plain_env 1 PMSG_SUSPEND False legacy_class_state)) =
       [Trace_device_pm_callback_start 1 (Some ''noirq driver '') PM_EVENT_SUSPEND,
        Callback 3 1, Trace_device_pm_callback_end 1 0]"
  by code_simp

section \<open>The first-error flag\<close>

lemma suspend_skips:
  "async_error s \<noteq> 0 \<Longrightarrow>
     dunder_device_suspend env d state async s =
       (0, complete_all d (upd_power d (\<lambda>p. p\<lparr>direct_complete := False\<rparr>) s))"
  by (simp add: dunder_device_suspend_def suspend_Complete_def)

lemma suspend_late_skips:
  "async_error s \<noteq> 0 \<Longrightarrow> dunder_device_suspend_late env d state async s = (0, complete_all d s)"
  by (simp add: dunder_device_suspend_late_def)

lemma suspend_noirq_skips:
  "async_error s \<noteq> 0 \<Longrightarrow> dunder_device_suspend_noirq env d state async s = (0, complete_all d s)"
  by (simp add: dunder_device_suspend_noirq_def)

lemma flag_set_skips:
  "(async_error s \<noteq> 0 \<longrightarrow>
      dunder_device_suspend env d state async s =
        (0, complete_all d (upd_power d (\<lambda>p. p\<lparr>direct_complete := False\<rparr>) s))
      \<and> dunder_device_suspend_late env d state async s = (0, complete_all d s)
      \<and> dunder_device_suspend_noirq env d state async s = (0, complete_all d s)
      \<and> run_task env (ASYNC_SUSPEND, d) s =
          complete_all d (upd_power d (\<lambda>p. p\<lparr>direct_complete := False\<rparr>) s)
      \<and> run_task env (ASYNC_SUSPEND_LATE, d) s = complete_all d s
      \<and> run_task env (ASYNC_SUSPEND_NOIRQ, d) s = complete_all d s)"
  by (simp add: run_task_def async_suspend_def async_suspend_late_def async_suspend_noirq_def
        suspend_skips suspend_late_skips suspend_noirq_skips)

lemma suspend_task_runs:
  "run_task env (ASYNC_SUSPEND, d) s =
       (let r = dunder_device_suspend env d (pm_transition s) True s
        in if fst r \<noteq> 0
           then pm_dev_err d (pm_transition (snd r)) '' async'' (fst r)
                  (dpm_save_failed_dev (dev_name (devices (snd r) d)) (snd r))
           else snd r)"
  "run_task env (ASYNC_SUSPEND_LATE, d) s =
       (let r = dunder_device_suspend_late env d (pm_transition s) True s
        in if fst r \<noteq> 0
           then pm_dev_err d (pm_transition (snd r)) '' async'' (fst r)
                  (dpm_save_failed_dev (dev_name (devices (snd r) d)) (snd r))
           else snd r)"
  "run_task env (ASYNC_SUSPEND_NOIRQ, d) s =
       (let r = dunder_device_suspend_noirq env d (pm_transition s) True s
        in if fst r \<noteq> 0
           then pm_dev_err d (pm_transition (snd r)) '' async'' (fst r)
                  (dpm_save_failed_dev (dev_name (devices (snd r) d)) (snd r))
           else snd r)"
  by (simp_all add: run_task_def async_suspend_def async_suspend_late_def async_suspend_noirq_def
        Let_def split_def)

lemma dpm_suspend_loop_stops:
  "(dpm_prepared_list s \<noteq> [] \<longrightarrow>
      (let d = last (dpm_prepared_list s);
           r = device_suspend env d (async_workers env s);
           s' = async_workers env (snd r)
       in async_error s' \<noteq> 0 \<longrightarrow>
            dpm_prepared_list (snd (dpm_suspend_loop env state error s)) =
              (if fst r \<noteq> 0 then dpm_prepared_list s else removeAll d (dpm_prepared_list s))
            \<and> trace (snd (dpm_suspend_loop env state error s)) =
                trace s' @ (if fst r \<noteq> 0 then [Pm_dev_err d (event state) [] (fst r)]
                            else [])))"
  by (simp add: Let_def dpm_suspend_loop_pass dpm_suspend_pass_def split_def)

lemma dpm_suspend_late_loop_stops:
  "(dpm_suspended_list s \<noteq> [] \<longrightarrow>
      (let d = last (dpm_suspended_list s);
           r = device_suspend_late env d (async_workers env s);
           s' = async_workers env (snd r)
       in async_error s' \<noteq> 0 \<longrightarrow>
            dpm_suspended_list (snd (dpm_suspend_late_loop env state error s)) =
              removeAll d (dpm_suspended_list s)
            \<and> trace (snd (dpm_suspend_late_loop env state error s)) =
                trace s' @ (if fst r \<noteq> 0 then [Pm_dev_err d (event state) '' late'' (fst r)]
                            else [])))"
  by (simp add: Let_def dpm_suspend_late_loop_pass dpm_suspend_late_pass_def split_def)

lemma dpm_noirq_suspend_loop_stops:
  "(dpm_late_early_list s \<noteq> [] \<longrightarrow>
      (let d = last (dpm_late_early_list s);
           r = device_suspend_noirq env d (async_workers env s);
           s' = async_workers env (snd r)
       in async_error s' \<noteq> 0 \<longrightarrow>
            dpm_late_early_list (snd (dpm_noirq_suspend_loop env state error s)) =
              (if fst r \<noteq> 0 then dpm_late_early_list s else removeAll d (dpm_late_early_list s))
            \<and> trace (snd (dpm_noirq_suspend_loop env state error s)) =
                trace s' @ (if fst r \<noteq> 0 then [Pm_dev_err d (event state) '' noirq'' (fst r)]
                            else [])))"
  by (simp add: Let_def dpm_noirq_suspend_loop_pass dpm_noirq_suspend_pass_def split_def)

lemma dpm_suspend_pass_others:
  "x \<in> set (dpm_prepared_list s) \<Longrightarrow> x \<noteq> last (dpm_prepared_list s) \<Longrightarrow>
     x \<in> set (dpm_prepared_list (snd (snd (dpm_suspend_pass env state s))))"
  by (simp add: dpm_suspend_pass_def Let_def split_def)

lemma dpm_suspend_loop_done:
  "pending_or_done s x
     \<or> (x \<in> set (dpm_prepared_list s) \<and> x \<notin> set (dpm_prepared_list (snd (dpm_suspend_loop env state error s)))) \<Longrightarrow>
   pending_or_done (snd (dpm_suspend_loop env state error s)) x"
proof (induction "length (dpm_prepared_list s)" arbitrary: s error rule: less_induct)
  case less
  show ?case
  proof (cases "dpm_prepared_list s = []")
    case True
    then show ?thesis
      using less.prems by (simp add: dpm_suspend_loop_empty)
  next
    case False
    let ?d = "last (dpm_prepared_list s)"
    let ?p = "dpm_suspend_pass env state s"
    show ?thesis
    proof (cases "fst ?p")
      case True
      then have result: "snd (dpm_suspend_loop env state error s) = snd (snd ?p)"
        using False by (simp add: dpm_suspend_loop_pass split_def)
      have "pending_or_done s x \<or> x = ?d"
        using less.prems dpm_suspend_pass_others [of x s env state] unfolding result by blast
      then show ?thesis
        unfolding result by simp
    next
      case stop: False
      then have result: "snd (dpm_suspend_loop env state error s)
          = snd (dpm_suspend_loop env state (fst (snd ?p)) (snd (snd ?p)))"
        using False by (simp add: dpm_suspend_loop_pass split_def)
      have shorter: "length (dpm_prepared_list (snd (snd ?p))) < length (dpm_prepared_list s)"
        using False stop by simp
      have "pending_or_done (snd (snd ?p)) x
          \<or> (x \<in> set (dpm_prepared_list (snd (snd ?p)))
              \<and> x \<notin> set (dpm_prepared_list (snd (dpm_suspend_loop env state (fst (snd ?p)) (snd (snd ?p))))))"
        using less.prems dpm_suspend_pass_others [of x s env state] unfolding result by auto
      with shorter have "pending_or_done (snd (dpm_suspend_loop env state (fst (snd ?p)) (snd (snd ?p)))) x"
        by (rule less.hyps)
      then show ?thesis
        unfolding result .
    qed
  qed
qed

lemma dpm_suspend_late_pass_others:
  "x \<in> set (dpm_suspended_list s) \<Longrightarrow> x \<noteq> last (dpm_suspended_list s) \<Longrightarrow>
     x \<in> set (dpm_suspended_list (snd (snd (dpm_suspend_late_pass env state s))))"
  by (simp add: dpm_suspend_late_pass_def Let_def split_def)

lemma dpm_suspend_late_loop_done:
  "pending_or_done s x
     \<or> (x \<in> set (dpm_suspended_list s) \<and> x \<notin> set (dpm_suspended_list (snd (dpm_suspend_late_loop env state error s)))) \<Longrightarrow>
   pending_or_done (snd (dpm_suspend_late_loop env state error s)) x"
proof (induction "length (dpm_suspended_list s)" arbitrary: s error rule: less_induct)
  case less
  show ?case
  proof (cases "dpm_suspended_list s = []")
    case True
    then show ?thesis
      using less.prems by (simp add: dpm_suspend_late_loop_empty)
  next
    case False
    let ?d = "last (dpm_suspended_list s)"
    let ?p = "dpm_suspend_late_pass env state s"
    show ?thesis
    proof (cases "fst ?p")
      case True
      then have result: "snd (dpm_suspend_late_loop env state error s) = snd (snd ?p)"
        using False by (simp add: dpm_suspend_late_loop_pass split_def)
      have "pending_or_done s x \<or> x = ?d"
        using less.prems dpm_suspend_late_pass_others [of x s env state] unfolding result by blast
      then show ?thesis
        unfolding result by simp
    next
      case stop: False
      then have result: "snd (dpm_suspend_late_loop env state error s)
          = snd (dpm_suspend_late_loop env state (fst (snd ?p)) (snd (snd ?p)))"
        using False by (simp add: dpm_suspend_late_loop_pass split_def)
      have shorter: "length (dpm_suspended_list (snd (snd ?p))) < length (dpm_suspended_list s)"
        using False stop by simp
      have "pending_or_done (snd (snd ?p)) x
          \<or> (x \<in> set (dpm_suspended_list (snd (snd ?p)))
              \<and> x \<notin> set (dpm_suspended_list (snd (dpm_suspend_late_loop env state (fst (snd ?p)) (snd (snd ?p))))))"
        using less.prems dpm_suspend_late_pass_others [of x s env state] unfolding result by auto
      with shorter have "pending_or_done (snd (dpm_suspend_late_loop env state (fst (snd ?p)) (snd (snd ?p)))) x"
        by (rule less.hyps)
      then show ?thesis
        unfolding result .
    qed
  qed
qed

lemma dpm_noirq_suspend_pass_others:
  "x \<in> set (dpm_late_early_list s) \<Longrightarrow> x \<noteq> last (dpm_late_early_list s) \<Longrightarrow>
     x \<in> set (dpm_late_early_list (snd (snd (dpm_noirq_suspend_pass env state s))))"
  by (simp add: dpm_noirq_suspend_pass_def Let_def split_def)

lemma dpm_noirq_suspend_loop_done:
  "pending_or_done s x
     \<or> (x \<in> set (dpm_late_early_list s) \<and> x \<notin> set (dpm_late_early_list (snd (dpm_noirq_suspend_loop env state error s)))) \<Longrightarrow>
   pending_or_done (snd (dpm_noirq_suspend_loop env state error s)) x"
proof (induction "length (dpm_late_early_list s)" arbitrary: s error rule: less_induct)
  case less
  show ?case
  proof (cases "dpm_late_early_list s = []")
    case True
    then show ?thesis
      using less.prems by (simp add: dpm_noirq_suspend_loop_empty)
  next
    case False
    let ?d = "last (dpm_late_early_list s)"
    let ?p = "dpm_noirq_suspend_pass env state s"
    show ?thesis
    proof (cases "fst ?p")
      case True
      then have result: "snd (dpm_noirq_suspend_loop env state error s) = snd (snd ?p)"
        using False by (simp add: dpm_noirq_suspend_loop_pass split_def)
      have "pending_or_done s x \<or> x = ?d"
        using less.prems dpm_noirq_suspend_pass_others [of x s env state] unfolding result by blast
      then show ?thesis
        unfolding result by simp
    next
      case stop: False
      then have result: "snd (dpm_noirq_suspend_loop env state error s)
          = snd (dpm_noirq_suspend_loop env state (fst (snd ?p)) (snd (snd ?p)))"
        using False by (simp add: dpm_noirq_suspend_loop_pass split_def)
      have shorter: "length (dpm_late_early_list (snd (snd ?p))) < length (dpm_late_early_list s)"
        using False stop by simp
      have "pending_or_done (snd (snd ?p)) x
          \<or> (x \<in> set (dpm_late_early_list (snd (snd ?p)))
              \<and> x \<notin> set (dpm_late_early_list (snd (dpm_noirq_suspend_loop env state (fst (snd ?p)) (snd (snd ?p))))))"
        using less.prems dpm_noirq_suspend_pass_others [of x s env state] unfolding result by auto
      with shorter have "pending_or_done (snd (dpm_noirq_suspend_loop env state (fst (snd ?p)) (snd (snd ?p)))) x"
        by (rule less.hyps)
      then show ?thesis
        unfolding result .
    qed
  qed
qed



lemma dpm_suspend_loop_barrier:
  "(\<forall>x. completion (pwr s x) \<or> x \<in> snd ` set (async_pending s)
          \<or> (x \<in> set (dpm_prepared_list s) \<and> x \<notin> set (dpm_prepared_list (snd (dpm_suspend_loop env state error s)))) \<longrightarrow>
        completion (pwr (async_synchronize_full env (snd (dpm_suspend_loop env state error s))) x))"
  using dpm_suspend_loop_done [of s _ env state error]
  by (auto simp: pending_or_done_def)

lemma dpm_suspend_late_loop_barrier:
  "(\<forall>x. completion (pwr s x) \<or> x \<in> snd ` set (async_pending s)
          \<or> (x \<in> set (dpm_suspended_list s) \<and> x \<notin> set (dpm_suspended_list (snd (dpm_suspend_late_loop env state error s)))) \<longrightarrow>
        completion (pwr (async_synchronize_full env (snd (dpm_suspend_late_loop env state error s))) x))"
  using dpm_suspend_late_loop_done [of s _ env state error]
  by (auto simp: pending_or_done_def)

lemma dpm_noirq_suspend_loop_barrier:
  "(\<forall>x. completion (pwr s x) \<or> x \<in> snd ` set (async_pending s)
          \<or> (x \<in> set (dpm_late_early_list s) \<and> x \<notin> set (dpm_late_early_list (snd (dpm_noirq_suspend_loop env state error s)))) \<longrightarrow>
        completion (pwr (async_synchronize_full env (snd (dpm_noirq_suspend_loop env state error s))) x))"
  using dpm_noirq_suspend_loop_done [of s _ env state error]
  by (auto simp: pending_or_done_def)

lemma resume_phase_pending [simp]:
  "async_pending (dpm_noirq_resume_devices env state s) = []"
  "async_pending (dpm_resume_noirq env state s) = []"
  "async_pending (dpm_resume_early env state s) = []"
  "async_pending (dpm_resume env state s) = []"
  by (simp_all add: dpm_noirq_resume_devices_def dpm_resume_noirq_def dpm_noirq_end_def
        dpm_resume_early_def dpm_resume_def Let_def)

lemma suspend_phase_pending:
  "async_pending (snd (dpm_suspend env state s)) = []"
  "async_pending (snd (dpm_suspend_late env state s)) = []"
  "async_pending (snd (dpm_noirq_suspend_devices env state s)) = []"
  by (simp_all add: dpm_suspend_def dpm_suspend_late_def dpm_noirq_suspend_devices_def Let_def
        split_def)

text \<open>
  Two devices, 1 before 2, on the list \<open>l\<close>, in the course of a suspend transition.
  The callbacks of the driver of device 2 are at the addresses 11 to 17.
\<close>

definition second_table :: dev_pm_ops where
  "second_table = no_ops\<lparr>suspend := Some 11, suspend_late := Some 12, suspend_noirq := Some 13,
     resume_noirq := Some 14, resume_early := Some 15, resume := Some 16, complete := Some 17\<rparr>"

definition two_devices :: "list_id \<Rightarrow> dpm_state" where
  "two_devices l = set_list l [1, 2]
     (empty_state\<lparr>devices := (devices empty_state)
        (1 := plain_device ''a'' driver_table, 2 := plain_device ''b'' second_table),
        pm_transition := PMSG_SUSPEND\<rparr>)"

text \<open>
  The same two devices with \<open>power.async_suspend\<close> set, and an environment with the pool
  switched on in which the callback at the address \<open>bad\<close> returns \<open>-EIO\<close>. Its scheduler
  is either eager, every pending call runs at the next turn of the worker threads, or lazy,
  no call runs before \<open>async_synchronize_full\<close>.
\<close>

definition async_devices :: "list_id \<Rightarrow> dpm_state" where
  "async_devices l = set_list l [1, 2]
     (empty_state\<lparr>devices := (devices empty_state)
        (1 := (plain_device ''a'' driver_table)
                \<lparr>dev_power := plain_power\<lparr>power_async_suspend := True\<rparr>\<rparr>,
         2 := (plain_device ''b'' second_table)
                \<lparr>dev_power := plain_power\<lparr>power_async_suspend := True\<rparr>\<rparr>),
        pm_transition := PMSG_SUSPEND\<rparr>)"

definition pool_env :: "nat \<Rightarrow> bool \<Rightarrow> env" where
  "pool_env bad eager =
     (failing_env bad)\<lparr>pm_async_enabled := True, scheduler := (\<lambda>s task. eager)\<rparr>"

text \<open>
  Claim C2. With \<open>async_error\<close> non-zero, \<open>__device_suspend\<close>, \<open>__device_suspend_late\<close>
  and \<open>__device_suspend_noirq\<close> return 0 after completing the completion of the device,
  with no callback run (\<open>__device_suspend\<close> also clears \<open>direct_complete\<close>). The wait
  for the dependencies that precedes the test of the flag only delays the thread; in the
  embedding it is the turn of the worker threads before the call. A call of the pool is
  the per-device function with \<open>async\<close> true, followed by \<open>dpm_save_failed_dev\<close> and the
  error line when it failed; with the flag set it completes the completion and does nothing
  else. In each of the three loops, when \<open>async_error\<close> is non-zero at the moment the loop
  reads it, which is after the per-device call and after whatever the worker threads have
  run by then, the loop ends there: the other devices stay on the list of the phase and
  nothing is run for them. A call that is still pending then is not dropped:
  \<open>async_synchronize_full\<close>, which follows each loop, completes the completion of every
  device that had a call pending or that the loop has taken from its list, and when
  \<open>dpm_suspend\<close>, \<open>dpm_suspend_late\<close> or \<open>dpm_noirq_suspend_devices\<close> returns no call
  is pending.
\<close>

theorem first_error_stops_suspend:
  "(async_error s \<noteq> 0 \<longrightarrow>
      dunder_device_suspend env d state async s =
        (0, complete_all d (upd_power d (\<lambda>p. p\<lparr>direct_complete := False\<rparr>) s))
      \<and> dunder_device_suspend_late env d state async s = (0, complete_all d s)
      \<and> dunder_device_suspend_noirq env d state async s = (0, complete_all d s)
      \<and> run_task env (ASYNC_SUSPEND, d) s =
          complete_all d (upd_power d (\<lambda>p. p\<lparr>direct_complete := False\<rparr>) s)
      \<and> run_task env (ASYNC_SUSPEND_LATE, d) s = complete_all d s
      \<and> run_task env (ASYNC_SUSPEND_NOIRQ, d) s = complete_all d s)
   \<and> run_task env (ASYNC_SUSPEND, d) s =
       (let r = dunder_device_suspend env d (pm_transition s) True s
        in if fst r \<noteq> 0
           then pm_dev_err d (pm_transition (snd r)) '' async'' (fst r)
                  (dpm_save_failed_dev (dev_name (devices (snd r) d)) (snd r))
           else snd r)
   \<and> run_task env (ASYNC_SUSPEND_LATE, d) s =
       (let r = dunder_device_suspend_late env d (pm_transition s) True s
        in if fst r \<noteq> 0
           then pm_dev_err d (pm_transition (snd r)) '' async'' (fst r)
                  (dpm_save_failed_dev (dev_name (devices (snd r) d)) (snd r))
           else snd r)
   \<and> run_task env (ASYNC_SUSPEND_NOIRQ, d) s =
       (let r = dunder_device_suspend_noirq env d (pm_transition s) True s
        in if fst r \<noteq> 0
           then pm_dev_err d (pm_transition (snd r)) '' async'' (fst r)
                  (dpm_save_failed_dev (dev_name (devices (snd r) d)) (snd r))
           else snd r)
   \<and> (dpm_prepared_list s \<noteq> [] \<longrightarrow>
      (let d = last (dpm_prepared_list s);
           r = device_suspend env d (async_workers env s);
           s' = async_workers env (snd r)
       in async_error s' \<noteq> 0 \<longrightarrow>
            dpm_prepared_list (snd (dpm_suspend_loop env state error s)) =
              (if fst r \<noteq> 0 then dpm_prepared_list s else removeAll d (dpm_prepared_list s))
            \<and> trace (snd (dpm_suspend_loop env state error s)) =
                trace s' @ (if fst r \<noteq> 0 then [Pm_dev_err d (event state) [] (fst r)]
                            else [])))
   \<and> (dpm_suspended_list s \<noteq> [] \<longrightarrow>
      (let d = last (dpm_suspended_list s);
           r = device_suspend_late env d (async_workers env s);
           s' = async_workers env (snd r)
       in async_error s' \<noteq> 0 \<longrightarrow>
            dpm_suspended_list (snd (dpm_suspend_late_loop env state error s)) =
              removeAll d (dpm_suspended_list s)
            \<and> trace (snd (dpm_suspend_late_loop env state error s)) =
                trace s' @ (if fst r \<noteq> 0 then [Pm_dev_err d (event state) '' late'' (fst r)]
                            else [])))
   \<and> (dpm_late_early_list s \<noteq> [] \<longrightarrow>
      (let d = last (dpm_late_early_list s);
           r = device_suspend_noirq env d (async_workers env s);
           s' = async_workers env (snd r)
       in async_error s' \<noteq> 0 \<longrightarrow>
            dpm_late_early_list (snd (dpm_noirq_suspend_loop env state error s)) =
              (if fst r \<noteq> 0 then dpm_late_early_list s else removeAll d (dpm_late_early_list s))
            \<and> trace (snd (dpm_noirq_suspend_loop env state error s)) =
                trace s' @ (if fst r \<noteq> 0 then [Pm_dev_err d (event state) '' noirq'' (fst r)]
                            else [])))
   \<and> (\<forall>x. completion (pwr s x) \<or> x \<in> snd ` set (async_pending s)
          \<or> (x \<in> set (dpm_prepared_list s) \<and> x \<notin> set (dpm_prepared_list (snd (dpm_suspend_loop env state error s)))) \<longrightarrow>
        completion (pwr (async_synchronize_full env (snd (dpm_suspend_loop env state error s))) x))
   \<and> (\<forall>x. completion (pwr s x) \<or> x \<in> snd ` set (async_pending s)
          \<or> (x \<in> set (dpm_suspended_list s) \<and> x \<notin> set (dpm_suspended_list (snd (dpm_suspend_late_loop env state error s)))) \<longrightarrow>
        completion (pwr (async_synchronize_full env (snd (dpm_suspend_late_loop env state error s))) x))
   \<and> (\<forall>x. completion (pwr s x) \<or> x \<in> snd ` set (async_pending s)
          \<or> (x \<in> set (dpm_late_early_list s) \<and> x \<notin> set (dpm_late_early_list (snd (dpm_noirq_suspend_loop env state error s)))) \<longrightarrow>
        completion (pwr (async_synchronize_full env (snd (dpm_noirq_suspend_loop env state error s))) x))
   \<and> async_pending (snd (dpm_suspend env state s)) = []
   \<and> async_pending (snd (dpm_suspend_late env state s)) = []
   \<and> async_pending (snd (dpm_noirq_suspend_devices env state s)) = []"
proof (intro conjI)
  show "(async_error s \<noteq> 0 \<longrightarrow>
      dunder_device_suspend env d state async s =
        (0, complete_all d (upd_power d (\<lambda>p. p\<lparr>direct_complete := False\<rparr>) s))
      \<and> dunder_device_suspend_late env d state async s = (0, complete_all d s)
      \<and> dunder_device_suspend_noirq env d state async s = (0, complete_all d s)
      \<and> run_task env (ASYNC_SUSPEND, d) s =
          complete_all d (upd_power d (\<lambda>p. p\<lparr>direct_complete := False\<rparr>) s)
      \<and> run_task env (ASYNC_SUSPEND_LATE, d) s = complete_all d s
      \<and> run_task env (ASYNC_SUSPEND_NOIRQ, d) s = complete_all d s)"
    by (rule flag_set_skips)
  show "run_task env (ASYNC_SUSPEND, d) s =
       (let r = dunder_device_suspend env d (pm_transition s) True s
        in if fst r \<noteq> 0
           then pm_dev_err d (pm_transition (snd r)) '' async'' (fst r)
                  (dpm_save_failed_dev (dev_name (devices (snd r) d)) (snd r))
           else snd r)"
    by (rule suspend_task_runs(1))
  show "run_task env (ASYNC_SUSPEND_LATE, d) s =
       (let r = dunder_device_suspend_late env d (pm_transition s) True s
        in if fst r \<noteq> 0
           then pm_dev_err d (pm_transition (snd r)) '' async'' (fst r)
                  (dpm_save_failed_dev (dev_name (devices (snd r) d)) (snd r))
           else snd r)"
    by (rule suspend_task_runs(2))
  show "run_task env (ASYNC_SUSPEND_NOIRQ, d) s =
       (let r = dunder_device_suspend_noirq env d (pm_transition s) True s
        in if fst r \<noteq> 0
           then pm_dev_err d (pm_transition (snd r)) '' async'' (fst r)
                  (dpm_save_failed_dev (dev_name (devices (snd r) d)) (snd r))
           else snd r)"
    by (rule suspend_task_runs(3))
  show "(dpm_prepared_list s \<noteq> [] \<longrightarrow>
      (let d = last (dpm_prepared_list s);
           r = device_suspend env d (async_workers env s);
           s' = async_workers env (snd r)
       in async_error s' \<noteq> 0 \<longrightarrow>
            dpm_prepared_list (snd (dpm_suspend_loop env state error s)) =
              (if fst r \<noteq> 0 then dpm_prepared_list s else removeAll d (dpm_prepared_list s))
            \<and> trace (snd (dpm_suspend_loop env state error s)) =
                trace s' @ (if fst r \<noteq> 0 then [Pm_dev_err d (event state) [] (fst r)]
                            else [])))"
    by (rule dpm_suspend_loop_stops)
  show "(dpm_suspended_list s \<noteq> [] \<longrightarrow>
      (let d = last (dpm_suspended_list s);
           r = device_suspend_late env d (async_workers env s);
           s' = async_workers env (snd r)
       in async_error s' \<noteq> 0 \<longrightarrow>
            dpm_suspended_list (snd (dpm_suspend_late_loop env state error s)) =
              removeAll d (dpm_suspended_list s)
            \<and> trace (snd (dpm_suspend_late_loop env state error s)) =
                trace s' @ (if fst r \<noteq> 0 then [Pm_dev_err d (event state) '' late'' (fst r)]
                            else [])))"
    by (rule dpm_suspend_late_loop_stops)
  show "(dpm_late_early_list s \<noteq> [] \<longrightarrow>
      (let d = last (dpm_late_early_list s);
           r = device_suspend_noirq env d (async_workers env s);
           s' = async_workers env (snd r)
       in async_error s' \<noteq> 0 \<longrightarrow>
            dpm_late_early_list (snd (dpm_noirq_suspend_loop env state error s)) =
              (if fst r \<noteq> 0 then dpm_late_early_list s else removeAll d (dpm_late_early_list s))
            \<and> trace (snd (dpm_noirq_suspend_loop env state error s)) =
                trace s' @ (if fst r \<noteq> 0 then [Pm_dev_err d (event state) '' noirq'' (fst r)]
                            else [])))"
    by (rule dpm_noirq_suspend_loop_stops)
  show "(\<forall>x. completion (pwr s x) \<or> x \<in> snd ` set (async_pending s)
          \<or> (x \<in> set (dpm_prepared_list s) \<and> x \<notin> set (dpm_prepared_list (snd (dpm_suspend_loop env state error s)))) \<longrightarrow>
        completion (pwr (async_synchronize_full env (snd (dpm_suspend_loop env state error s))) x))"
    by (rule dpm_suspend_loop_barrier)
  show "(\<forall>x. completion (pwr s x) \<or> x \<in> snd ` set (async_pending s)
          \<or> (x \<in> set (dpm_suspended_list s) \<and> x \<notin> set (dpm_suspended_list (snd (dpm_suspend_late_loop env state error s)))) \<longrightarrow>
        completion (pwr (async_synchronize_full env (snd (dpm_suspend_late_loop env state error s))) x))"
    by (rule dpm_suspend_late_loop_barrier)
  show "(\<forall>x. completion (pwr s x) \<or> x \<in> snd ` set (async_pending s)
          \<or> (x \<in> set (dpm_late_early_list s) \<and> x \<notin> set (dpm_late_early_list (snd (dpm_noirq_suspend_loop env state error s)))) \<longrightarrow>
        completion (pwr (async_synchronize_full env (snd (dpm_noirq_suspend_loop env state error s))) x))"
    by (rule dpm_noirq_suspend_loop_barrier)
  show "async_pending (snd (dpm_suspend env state s)) = []"
    by (rule suspend_phase_pending(1))
  show "async_pending (snd (dpm_suspend_late env state s)) = []"
    by (rule suspend_phase_pending(2))
  show "async_pending (snd (dpm_noirq_suspend_devices env state s)) = []"
    by (rule suspend_phase_pending(3))
qed

text \<open>
  The witness. In a state with \<open>async_error = -16\<close> nothing is run for device 1. With
  the pool switched on, both devices asynchronous and the suspend callback of device 2
  failing: under the eager scheduler the call for device 2 has run when the loop reads
  \<open>async_error\<close>, the loop ends there and device 1 stays on the list; under the lazy
  scheduler both calls are still pending when the loop ends with the list empty, and
  \<open>async_synchronize_full\<close> runs them: the callback of device 2 fails and sets the flag,
  the call for device 1 then completes the completion without its callback.
\<close>

lemma two_devices_facts:
  "async_error ((two_devices DPM_PREPARED_LIST)\<lparr>async_error := - 16\<rparr>) \<noteq> 0"
  "trace ((two_devices DPM_PREPARED_LIST)\<lparr>async_error := - 16\<rparr>) = []"
  "dpm_prepared_list (two_devices DPM_PREPARED_LIST) = [1, 2]"
  "dpm_suspended_list (two_devices DPM_SUSPENDED_LIST) = [1, 2]"
  "dpm_late_early_list (two_devices DPM_LATE_EARLY_LIST) = [1, 2]"
  by (simp_all add: two_devices_def set_list_def empty_state_def)

lemma async_devices_lists:
  "dpm_prepared_list (async_devices DPM_PREPARED_LIST) = [1, 2]"
  "dpm_suspended_list (async_devices DPM_SUSPENDED_LIST) = [1, 2]"
  "dpm_late_early_list (async_devices DPM_LATE_EARLY_LIST) = [1, 2]"
  by (simp_all add: async_devices_def set_list_def empty_state_def)

lemma async_devices_eager:
  "async_error (async_workers (pool_env 11 True)
      (snd (device_suspend (pool_env 11 True) 2
             (async_workers (pool_env 11 True) (async_devices DPM_PREPARED_LIST))))) = - 5"
  "fst (device_suspend (pool_env 11 True) 2
         (async_workers (pool_env 11 True) (async_devices DPM_PREPARED_LIST))) = 0"
  "async_error (async_workers (pool_env 12 True)
      (snd (device_suspend_late (pool_env 12 True) 2
             (async_workers (pool_env 12 True) (async_devices DPM_SUSPENDED_LIST))))) = - 5"
  "async_error (async_workers (pool_env 13 True)
      (snd (device_suspend_noirq (pool_env 13 True) 2
             (async_workers (pool_env 13 True) (async_devices DPM_LATE_EARLY_LIST))))) = - 5"
  "fst (device_suspend_noirq (pool_env 13 True) 2
         (async_workers (pool_env 13 True) (async_devices DPM_LATE_EARLY_LIST))) = 0"
  by code_simp+

lemma async_devices_lazy:
  "dpm_prepared_list (snd (dpm_suspend_loop (pool_env 11 False) PMSG_SUSPEND 0
      (async_devices DPM_PREPARED_LIST))) = []"
  "async_pending (snd (dpm_suspend_loop (pool_env 11 False) PMSG_SUSPEND 0
      (async_devices DPM_PREPARED_LIST))) = [(ASYNC_SUSPEND, 2), (ASYNC_SUSPEND, 1)]"
  "\<not> completion (pwr (snd (dpm_suspend_loop (pool_env 11 False) PMSG_SUSPEND 0
      (async_devices DPM_PREPARED_LIST))) 1)"
  "fst (dpm_suspend (pool_env 11 False) PMSG_SUSPEND (async_devices DPM_PREPARED_LIST)) = - 5"
  "trace (snd (dpm_suspend (pool_env 11 False) PMSG_SUSPEND (async_devices DPM_PREPARED_LIST))) =
     [Trace_suspend_resume ''dpm_suspend'' PM_EVENT_SUSPEND True, Ext ''cpufreq_suspend'',
      Trace_device_pm_callback_start 2 (Some ''driver '') PM_EVENT_SUSPEND, Callback 11 2,
      Trace_device_pm_callback_end 2 (- 5), Pm_dev_err 2 PM_EVENT_SUSPEND '' async'' (- 5),
      Trace_suspend_resume ''dpm_suspend'' PM_EVENT_SUSPEND False]"
  by code_simp+

theorem first_error_stops_suspend_witness:
  "async_error ((two_devices DPM_PREPARED_LIST)\<lparr>async_error := - 16\<rparr>) \<noteq> 0
   \<and> fst (dunder_device_suspend plain_env 1 PMSG_SUSPEND False
           ((two_devices DPM_PREPARED_LIST)\<lparr>async_error := - 16\<rparr>)) = 0
   \<and> trace (snd (dunder_device_suspend plain_env 1 PMSG_SUSPEND False
           ((two_devices DPM_PREPARED_LIST)\<lparr>async_error := - 16\<rparr>))) = []
   \<and> trace (snd (dunder_device_suspend_late plain_env 1 PMSG_SUSPEND False
           ((two_devices DPM_PREPARED_LIST)\<lparr>async_error := - 16\<rparr>))) = []
   \<and> trace (snd (dunder_device_suspend_noirq plain_env 1 PMSG_SUSPEND False
           ((two_devices DPM_PREPARED_LIST)\<lparr>async_error := - 16\<rparr>))) = []
   \<and> trace (run_task plain_env (ASYNC_SUSPEND, 1)
           ((two_devices DPM_PREPARED_LIST)\<lparr>async_error := - 16\<rparr>)) = []
   \<and> dpm_prepared_list (async_devices DPM_PREPARED_LIST) \<noteq> []
   \<and> async_error (async_workers (pool_env 11 True)
        (snd (device_suspend (pool_env 11 True) 2
               (async_workers (pool_env 11 True) (async_devices DPM_PREPARED_LIST))))) \<noteq> 0
   \<and> dpm_prepared_list (snd (dpm_suspend_loop (pool_env 11 True) PMSG_SUSPEND 0
        (async_devices DPM_PREPARED_LIST))) = [1]
   \<and> dpm_suspended_list (async_devices DPM_SUSPENDED_LIST) \<noteq> []
   \<and> async_error (async_workers (pool_env 12 True)
        (snd (device_suspend_late (pool_env 12 True) 2
               (async_workers (pool_env 12 True) (async_devices DPM_SUSPENDED_LIST))))) \<noteq> 0
   \<and> dpm_suspended_list (snd (dpm_suspend_late_loop (pool_env 12 True) PMSG_SUSPEND 0
        (async_devices DPM_SUSPENDED_LIST))) = [1]
   \<and> dpm_late_early_list (async_devices DPM_LATE_EARLY_LIST) \<noteq> []
   \<and> async_error (async_workers (pool_env 13 True)
        (snd (device_suspend_noirq (pool_env 13 True) 2
               (async_workers (pool_env 13 True) (async_devices DPM_LATE_EARLY_LIST))))) \<noteq> 0
   \<and> dpm_late_early_list (snd (dpm_noirq_suspend_loop (pool_env 13 True) PMSG_SUSPEND 0
        (async_devices DPM_LATE_EARLY_LIST))) = [1]
   \<and> 1 \<in> set (dpm_prepared_list (async_devices DPM_PREPARED_LIST))
   \<and> 1 \<notin> set (dpm_prepared_list (snd (dpm_suspend_loop (pool_env 11 False) PMSG_SUSPEND 0
        (async_devices DPM_PREPARED_LIST))))
   \<and> async_pending (snd (dpm_suspend_loop (pool_env 11 False) PMSG_SUSPEND 0
        (async_devices DPM_PREPARED_LIST))) = [(ASYNC_SUSPEND, 2), (ASYNC_SUSPEND, 1)]
   \<and> \<not> completion (pwr (snd (dpm_suspend_loop (pool_env 11 False) PMSG_SUSPEND 0
        (async_devices DPM_PREPARED_LIST))) 1)
   \<and> completion (pwr (async_synchronize_full (pool_env 11 False)
        (snd (dpm_suspend_loop (pool_env 11 False) PMSG_SUSPEND 0
               (async_devices DPM_PREPARED_LIST)))) 1)
   \<and> fst (dpm_suspend (pool_env 11 False) PMSG_SUSPEND (async_devices DPM_PREPARED_LIST)) = - 5
   \<and> trace (snd (dpm_suspend (pool_env 11 False) PMSG_SUSPEND
        (async_devices DPM_PREPARED_LIST))) =
       [Trace_suspend_resume ''dpm_suspend'' PM_EVENT_SUSPEND True, Ext ''cpufreq_suspend'',
        Trace_device_pm_callback_start 2 (Some ''driver '') PM_EVENT_SUSPEND, Callback 11 2,
        Trace_device_pm_callback_end 2 (- 5), Pm_dev_err 2 PM_EVENT_SUSPEND '' async'' (- 5),
        Trace_suspend_resume ''dpm_suspend'' PM_EVENT_SUSPEND False]"
  using first_error_stops_suspend [where s = "(two_devices DPM_PREPARED_LIST)\<lparr>async_error := - 16\<rparr>"
      and env = plain_env and d = 1 and state = PMSG_SUSPEND and async = False and error = 0,
      THEN conjunct1]
    first_error_stops_suspend [where s = "async_devices DPM_PREPARED_LIST"
      and env = "pool_env 11 True" and d = 1 and state = PMSG_SUSPEND and async = False
      and error = 0, THEN conjunct2, THEN conjunct2, THEN conjunct2, THEN conjunct2, THEN conjunct1]
    first_error_stops_suspend [where s = "async_devices DPM_SUSPENDED_LIST"
      and env = "pool_env 12 True" and d = 1 and state = PMSG_SUSPEND and async = False
      and error = 0, THEN conjunct2, THEN conjunct2, THEN conjunct2, THEN conjunct2, THEN conjunct2, THEN conjunct1]
    first_error_stops_suspend [where s = "async_devices DPM_LATE_EARLY_LIST"
      and env = "pool_env 13 True" and d = 1 and state = PMSG_SUSPEND and async = False
      and error = 0, THEN conjunct2, THEN conjunct2, THEN conjunct2, THEN conjunct2, THEN conjunct2, THEN conjunct2, THEN conjunct1]
    first_error_stops_suspend [where s = "async_devices DPM_PREPARED_LIST"
      and env = "pool_env 11 False" and d = 1 and state = PMSG_SUSPEND and async = False
      and error = 0, THEN conjunct2, THEN conjunct2, THEN conjunct2, THEN conjunct2, THEN conjunct2, THEN conjunct2, THEN conjunct2, THEN conjunct1, THEN spec [where x = 1]]
    two_devices_facts async_devices_lists async_devices_eager async_devices_lazy
  by (simp add: Let_def)

section \<open>The resume phases run to the end\<close>

lemma resume_dispatch_is_async [simp]:
  "is_async env (resume_dispatch env func ds s) x = is_async env s x"
  unfolding resume_dispatch_def
  by (rule fold_frame) (simp add: Let_def async_schedule_def)


































lemma device_resume_stats [simp]:
  "suspend_stats (snd (device_resume_noirq env d state async s)) = suspend_stats s"
  "suspend_stats (snd (device_resume_early env d state async s)) = suspend_stats s"
  "suspend_stats (snd (device_resume env d state async s)) = suspend_stats s"
  by (simp_all add: device_resume_noirq_def device_resume_early_def device_resume_def Let_def
        split_def)


















subsection \<open>Failure of a suspend phase\<close>


lemma resume_dispatch_trace [simp]: "trace (resume_dispatch env func ds s) = trace s"
  unfolding resume_dispatch_def
  by (rule fold_frame) (simp add: Let_def async_schedule_def)




















lemma dpm_noirq_begin_simps [simp]:
  "trace (dpm_noirq_begin s) = trace s @ [Ext ''cpuidle_pause'',
     Ext ''device_wakeup_arm_wake_irqs'', Ext ''suspend_device_irqs'']"
  "dpm_late_early_list (dpm_noirq_begin s) = dpm_late_early_list s"
  "dpm_noirq_list (dpm_noirq_begin s) = dpm_noirq_list s"
  by (simp_all add: dpm_noirq_begin_def)









subsection \<open>The end of the list a loop takes the device from\<close>

lemma dpm_suspend_loop_first:
  "(dpm_prepared_list s \<noteq> [] \<longrightarrow>
        extends dev_level
          (trace (snd (device_suspend env (last (dpm_prepared_list s)) (async_workers env s))))
          (trace (snd (dpm_suspend_loop env state error s))))"
proof
  assume ne: "dpm_prepared_list s \<noteq> []"
  let ?d = "last (dpm_prepared_list s)"
  let ?r = "device_suspend env ?d (async_workers env s)"
  let ?p = "dpm_suspend_pass env state s"
  have y: "extends dev_level (trace (snd ?r)) (trace (async_workers env (snd ?r)))"
    by (rule async_workers_extends)
  have a: "extends dev_level (trace (snd ?r)) (trace (snd (snd ?p)))"
    by (simp add: dpm_suspend_pass_def Let_def split_def y extends_snoc [OF y])
  have b: "extends dev_level (trace (snd (snd ?p))) (trace (snd (dpm_suspend_loop env state error s)))"
  proof (cases "fst ?p")
    case True
    then show ?thesis
      using ne by (simp add: dpm_suspend_loop_pass split_def)
  next
    case False
    have "extends dev_level (trace (snd (snd ?p)))
        (trace (snd (dpm_suspend_loop env state (fst (snd ?p)) (snd (snd ?p)))))"
      by (rule dpm_suspend_loop_extends)
    then show ?thesis
      using ne False by (simp add: dpm_suspend_loop_pass split_def)
  qed
  show "extends dev_level (trace (snd ?r)) (trace (snd (dpm_suspend_loop env state error s)))"
    using a b by (rule extends_trans)
qed

lemma dpm_suspend_late_loop_first:
  "(dpm_suspended_list s \<noteq> [] \<longrightarrow>
        extends dev_level
          (trace (snd (device_suspend_late env (last (dpm_suspended_list s)) (async_workers env s))))
          (trace (snd (dpm_suspend_late_loop env state error s))))"
proof
  assume ne: "dpm_suspended_list s \<noteq> []"
  let ?d = "last (dpm_suspended_list s)"
  let ?r = "device_suspend_late env ?d (async_workers env s)"
  let ?p = "dpm_suspend_late_pass env state s"
  have y: "extends dev_level (trace (snd ?r)) (trace (async_workers env (snd ?r)))"
    by (rule async_workers_extends)
  have a: "extends dev_level (trace (snd ?r)) (trace (snd (snd ?p)))"
    by (simp add: dpm_suspend_late_pass_def Let_def split_def y extends_snoc [OF y])
  have b: "extends dev_level (trace (snd (snd ?p))) (trace (snd (dpm_suspend_late_loop env state error s)))"
  proof (cases "fst ?p")
    case True
    then show ?thesis
      using ne by (simp add: dpm_suspend_late_loop_pass split_def)
  next
    case False
    have "extends dev_level (trace (snd (snd ?p)))
        (trace (snd (dpm_suspend_late_loop env state (fst (snd ?p)) (snd (snd ?p)))))"
      by (rule dpm_suspend_late_loop_extends)
    then show ?thesis
      using ne False by (simp add: dpm_suspend_late_loop_pass split_def)
  qed
  show "extends dev_level (trace (snd ?r)) (trace (snd (dpm_suspend_late_loop env state error s)))"
    using a b by (rule extends_trans)
qed

lemma dpm_noirq_suspend_loop_first:
  "(dpm_late_early_list s \<noteq> [] \<longrightarrow>
        extends dev_level
          (trace (snd (device_suspend_noirq env (last (dpm_late_early_list s)) (async_workers env s))))
          (trace (snd (dpm_noirq_suspend_loop env state error s))))"
proof
  assume ne: "dpm_late_early_list s \<noteq> []"
  let ?d = "last (dpm_late_early_list s)"
  let ?r = "device_suspend_noirq env ?d (async_workers env s)"
  let ?p = "dpm_noirq_suspend_pass env state s"
  have y: "extends dev_level (trace (snd ?r)) (trace (async_workers env (snd ?r)))"
    by (rule async_workers_extends)
  have a: "extends dev_level (trace (snd ?r)) (trace (snd (snd ?p)))"
    by (simp add: dpm_noirq_suspend_pass_def Let_def split_def y extends_snoc [OF y])
  have b: "extends dev_level (trace (snd (snd ?p))) (trace (snd (dpm_noirq_suspend_loop env state error s)))"
  proof (cases "fst ?p")
    case True
    then show ?thesis
      using ne by (simp add: dpm_noirq_suspend_loop_pass split_def)
  next
    case False
    have "extends dev_level (trace (snd (snd ?p)))
        (trace (snd (dpm_noirq_suspend_loop env state (fst (snd ?p)) (snd (snd ?p)))))"
      by (rule dpm_noirq_suspend_loop_extends)
    then show ?thesis
      using ne False by (simp add: dpm_noirq_suspend_loop_pass split_def)
  qed
  show "extends dev_level (trace (snd ?r)) (trace (snd (dpm_noirq_suspend_loop env state error s)))"
    using a b by (rule extends_trans)
qed

lemma dpm_noirq_resume_loop_first:
  "(dpm_noirq_list s \<noteq> [] \<and> \<not> is_async env s (hd (dpm_noirq_list s)) \<longrightarrow>
        extends dev_level
          (trace (snd (device_resume_noirq env (hd (dpm_noirq_list s)) state False
                    (async_workers env (list_move_tail (hd (dpm_noirq_list s)) DPM_LATE_EARLY_LIST s)))))
          (trace (dpm_noirq_resume_loop env state s)))"
proof
  assume a: "dpm_noirq_list s \<noteq> [] \<and> \<not> is_async env s (hd (dpm_noirq_list s))"
  let ?d = "hd (dpm_noirq_list s)"
  let ?r = "device_resume_noirq env ?d state False (async_workers env (list_move_tail (hd (dpm_noirq_list s)) DPM_LATE_EARLY_LIST s))"
  let ?p = "dpm_noirq_resume_pass env state s"
  let ?s2 = "if fst ?r \<noteq> 0 then resume_noirq_failed ?d state (fst ?r) (snd ?r) else snd ?r"
  have "extends dev_level (trace (snd ?r)) (trace ?s2)"
    by (simp add: extends_snoc)
  moreover have "extends dev_level (trace ?s2) (trace (async_workers env ?s2))"
    by (rule async_workers_extends)
  ultimately have "extends dev_level (trace (snd ?r)) (trace (async_workers env ?s2))"
    by (rule extends_trans)
  moreover have "trace ?p = trace (async_workers env ?s2)"
    using a by (simp add: dpm_noirq_resume_pass_def Let_def split_def)
  ultimately have b: "extends dev_level (trace (snd ?r)) (trace ?p)"
    by simp
  have "extends dev_level (trace ?p) (trace (dpm_noirq_resume_loop env state ?p))"
    by (rule dpm_noirq_resume_loop_extends)
  then have c: "extends dev_level (trace ?p) (trace (dpm_noirq_resume_loop env state s))"
    using a by (simp add: dpm_noirq_resume_loop_pass)
  show "extends dev_level (trace (snd ?r)) (trace (dpm_noirq_resume_loop env state s))"
    using b c by (rule extends_trans)
qed

lemma dpm_resume_early_loop_first:
  "(dpm_late_early_list s \<noteq> [] \<and> \<not> is_async env s (hd (dpm_late_early_list s)) \<longrightarrow>
        extends dev_level
          (trace (snd (device_resume_early env (hd (dpm_late_early_list s)) state False
                    (async_workers env (list_move_tail (hd (dpm_late_early_list s)) DPM_SUSPENDED_LIST s)))))
          (trace (dpm_resume_early_loop env state s)))"
proof
  assume a: "dpm_late_early_list s \<noteq> [] \<and> \<not> is_async env s (hd (dpm_late_early_list s))"
  let ?d = "hd (dpm_late_early_list s)"
  let ?r = "device_resume_early env ?d state False (async_workers env (list_move_tail (hd (dpm_late_early_list s)) DPM_SUSPENDED_LIST s))"
  let ?p = "dpm_resume_early_pass env state s"
  let ?s2 = "if fst ?r \<noteq> 0 then resume_early_failed ?d state (fst ?r) (snd ?r) else snd ?r"
  have "extends dev_level (trace (snd ?r)) (trace ?s2)"
    by (simp add: extends_snoc)
  moreover have "extends dev_level (trace ?s2) (trace (async_workers env ?s2))"
    by (rule async_workers_extends)
  ultimately have "extends dev_level (trace (snd ?r)) (trace (async_workers env ?s2))"
    by (rule extends_trans)
  moreover have "trace ?p = trace (async_workers env ?s2)"
    using a by (simp add: dpm_resume_early_pass_def Let_def split_def)
  ultimately have b: "extends dev_level (trace (snd ?r)) (trace ?p)"
    by simp
  have "extends dev_level (trace ?p) (trace (dpm_resume_early_loop env state ?p))"
    by (rule dpm_resume_early_loop_extends)
  then have c: "extends dev_level (trace ?p) (trace (dpm_resume_early_loop env state s))"
    using a by (simp add: dpm_resume_early_loop_pass)
  show "extends dev_level (trace (snd ?r)) (trace (dpm_resume_early_loop env state s))"
    using b c by (rule extends_trans)
qed

lemma dpm_resume_loop_first:
  "(dpm_suspended_list s \<noteq> [] \<and> \<not> is_async env s (hd (dpm_suspended_list s)) \<longrightarrow>
        extends dev_level
          (trace (snd (device_resume env (hd (dpm_suspended_list s)) state False
                    (async_workers env s))))
          (trace (dpm_resume_loop env state s)))"
proof
  assume a: "dpm_suspended_list s \<noteq> [] \<and> \<not> is_async env s (hd (dpm_suspended_list s))"
  let ?d = "hd (dpm_suspended_list s)"
  let ?r = "device_resume env ?d state False (async_workers env s)"
  let ?p = "dpm_resume_pass env state s"
  let ?s2 = "if fst ?r \<noteq> 0 then resume_failed ?d state (fst ?r) (snd ?r) else snd ?r"
  have "extends dev_level (trace (snd ?r)) (trace ?s2)"
    by (simp add: extends_snoc)
  moreover have "extends dev_level (trace ?s2) (trace (async_workers env ?s2))"
    by (rule async_workers_extends)
  ultimately have "extends dev_level (trace (snd ?r)) (trace (async_workers env ?s2))"
    by (rule extends_trans)
  moreover have "trace ?p = trace (async_workers env ?s2)"
    using a by (simp add: dpm_resume_pass_def Let_def split_def)
  ultimately have b: "extends dev_level (trace (snd ?r)) (trace ?p)"
    by simp
  have "extends dev_level (trace ?p) (trace (dpm_resume_loop env state ?p))"
    by (rule dpm_resume_loop_extends)
  then have c: "extends dev_level (trace ?p) (trace (dpm_resume_loop env state s))"
    using a by (simp add: dpm_resume_loop_pass)
  show "extends dev_level (trace (snd ?r)) (trace (dpm_resume_loop env state s))"
    using b c by (rule extends_trans)
qed

lemma dpm_complete_loop_first:
  "(dpm_prepared_list s \<noteq> [] \<longrightarrow>
        (\<exists>tr. trace (snd (dpm_complete_loop env state list s))
           = trace s @ Trace_device_pm_callback_start (last (dpm_prepared_list s)) (Some [])
                         (event state) # tr))"
proof
  assume ne: "dpm_prepared_list s \<noteq> []"
  let ?d = "last (dpm_prepared_list s)"
  let ?s1 = "emit (Trace_device_pm_callback_start ?d (Some []) (event state))
               (list_del ?d (upd_power ?d (\<lambda>p. p\<lparr>is_prepared := False\<rparr>) s))"
  let ?p = "dpm_complete_pass env state s"
  have "extends (of_device ?d) (trace ?s1) (trace (device_complete env ?d state ?s1))"
    by (rule device_complete_extends)
  then have "extends (of_device ?d) (trace ?s1)
      (trace (device_complete env ?d state ?s1) @ [Trace_device_pm_callback_end ?d 0])"
    by (rule extends_snoc) simp
  then have "extends (of_device ?d) (trace ?s1) (trace ?p)"
    by (simp add: dpm_complete_pass_def Let_def)
  then have "extends dev_level (trace ?s1) (trace ?p)"
    by (rule extends_dev_level)
  moreover have "extends dev_level (trace ?p)
      (trace (snd (dpm_complete_loop env state (?d # list) ?p)))"
    using dpm_complete_loop_follows by (rule follows_dev_level)
  ultimately have "extends dev_level (trace ?s1)
      (trace (snd (dpm_complete_loop env state (?d # list) ?p)))"
    by (rule extends_trans)
  then have "extends dev_level (trace ?s1) (trace (snd (dpm_complete_loop env state list s)))"
    using ne by (simp add: dpm_complete_loop_pass)
  then show "\<exists>tr. trace (snd (dpm_complete_loop env state list s))
           = trace s @ Trace_device_pm_callback_start (last (dpm_prepared_list s)) (Some [])
                         (event state) # tr"
    by (auto simp: extends_def)
qed

text \<open>
  Claim C8, as the code has it. The loops of \<open>dpm_suspend\<close>, \<open>dpm_suspend_late\<close> and
  \<open>dpm_noirq_suspend_devices\<close> take the last entry of their list: the first call of a
  loop is the per-device function on the last entry. So does the loop of \<open>dpm_complete\<close>
  on \<open>dpm_prepared_list\<close>: the first thing it adds to the trace is the tracepoint for the
  last entry. The loops of \<open>dpm_noirq_resume_devices\<close>, \<open>dpm_resume_early\<close> and
  \<open>dpm_resume\<close> take the first entry: when that device is resumed by the main thread,
  the first call of the loop is the per-device function on it. With the pool switched off
  and no call pending, the events of devices that a loop adds come in that order all
  through: in the reverse order of the list in the loops of suspend, in the order of the
  list in the loops of resume; in the loop of \<open>dpm_complete\<close>, which never uses the pool,
  in the reverse order of the list. With the pool on, the calls of the pool add their
  events when the scheduler runs them.
\<close>

theorem drain_order:
  "(dpm_prepared_list s \<noteq> [] \<longrightarrow>
        extends dev_level
          (trace (snd (device_suspend env (last (dpm_prepared_list s)) (async_workers env s))))
          (trace (snd (dpm_suspend_loop env state error s))))
   \<and> (dpm_suspended_list s \<noteq> [] \<longrightarrow>
        extends dev_level
          (trace (snd (device_suspend_late env (last (dpm_suspended_list s)) (async_workers env s))))
          (trace (snd (dpm_suspend_late_loop env state error s))))
   \<and> (dpm_late_early_list s \<noteq> [] \<longrightarrow>
        extends dev_level
          (trace (snd (device_suspend_noirq env (last (dpm_late_early_list s)) (async_workers env s))))
          (trace (snd (dpm_noirq_suspend_loop env state error s))))
   \<and> (dpm_prepared_list s \<noteq> [] \<longrightarrow>
        (\<exists>tr. trace (snd (dpm_complete_loop env state list s))
           = trace s @ Trace_device_pm_callback_start (last (dpm_prepared_list s)) (Some [])
                         (event state) # tr))
   \<and> (dpm_noirq_list s \<noteq> [] \<and> \<not> is_async env s (hd (dpm_noirq_list s)) \<longrightarrow>
        extends dev_level
          (trace (snd (device_resume_noirq env (hd (dpm_noirq_list s)) state False
                    (async_workers env (list_move_tail (hd (dpm_noirq_list s)) DPM_LATE_EARLY_LIST s)))))
          (trace (dpm_noirq_resume_loop env state s)))
   \<and> (dpm_late_early_list s \<noteq> [] \<and> \<not> is_async env s (hd (dpm_late_early_list s)) \<longrightarrow>
        extends dev_level
          (trace (snd (device_resume_early env (hd (dpm_late_early_list s)) state False
                    (async_workers env (list_move_tail (hd (dpm_late_early_list s)) DPM_SUSPENDED_LIST s)))))
          (trace (dpm_resume_early_loop env state s)))
   \<and> (dpm_suspended_list s \<noteq> [] \<and> \<not> is_async env s (hd (dpm_suspended_list s)) \<longrightarrow>
        extends dev_level
          (trace (snd (device_resume env (hd (dpm_suspended_list s)) state False
                    (async_workers env s))))
          (trace (dpm_resume_loop env state s)))
   \<and> (\<not> pm_async_enabled env \<and> async_pending s = [] \<longrightarrow>
        follows (rev (dpm_prepared_list s)) s (snd (dpm_suspend_loop env state error s)))
   \<and> (\<not> pm_async_enabled env \<and> async_pending s = [] \<longrightarrow>
        follows (rev (dpm_suspended_list s)) s (snd (dpm_suspend_late_loop env state error s)))
   \<and> (\<not> pm_async_enabled env \<and> async_pending s = [] \<longrightarrow>
        follows (rev (dpm_late_early_list s)) s (snd (dpm_noirq_suspend_loop env state error s)))
   \<and> follows (rev (dpm_prepared_list s)) s (snd (dpm_complete_loop env state list s))
   \<and> (\<not> pm_async_enabled env \<and> async_pending s = [] \<longrightarrow>
        follows (dpm_noirq_list s) s (dpm_noirq_resume_loop env state s))
   \<and> (\<not> pm_async_enabled env \<and> async_pending s = [] \<longrightarrow>
        follows (dpm_late_early_list s) s (dpm_resume_early_loop env state s))
   \<and> (\<not> pm_async_enabled env \<and> async_pending s = [] \<longrightarrow>
        follows (dpm_suspended_list s) s (dpm_resume_loop env state s))"
proof (intro conjI)
  show "(dpm_prepared_list s \<noteq> [] \<longrightarrow>
        extends dev_level
          (trace (snd (device_suspend env (last (dpm_prepared_list s)) (async_workers env s))))
          (trace (snd (dpm_suspend_loop env state error s))))"
    by (rule dpm_suspend_loop_first)
  show "(dpm_suspended_list s \<noteq> [] \<longrightarrow>
        extends dev_level
          (trace (snd (device_suspend_late env (last (dpm_suspended_list s)) (async_workers env s))))
          (trace (snd (dpm_suspend_late_loop env state error s))))"
    by (rule dpm_suspend_late_loop_first)
  show "(dpm_late_early_list s \<noteq> [] \<longrightarrow>
        extends dev_level
          (trace (snd (device_suspend_noirq env (last (dpm_late_early_list s)) (async_workers env s))))
          (trace (snd (dpm_noirq_suspend_loop env state error s))))"
    by (rule dpm_noirq_suspend_loop_first)
  show "(dpm_prepared_list s \<noteq> [] \<longrightarrow>
        (\<exists>tr. trace (snd (dpm_complete_loop env state list s))
           = trace s @ Trace_device_pm_callback_start (last (dpm_prepared_list s)) (Some [])
                         (event state) # tr))"
    by (rule dpm_complete_loop_first)
  show "(dpm_noirq_list s \<noteq> [] \<and> \<not> is_async env s (hd (dpm_noirq_list s)) \<longrightarrow>
        extends dev_level
          (trace (snd (device_resume_noirq env (hd (dpm_noirq_list s)) state False
                    (async_workers env (list_move_tail (hd (dpm_noirq_list s)) DPM_LATE_EARLY_LIST s)))))
          (trace (dpm_noirq_resume_loop env state s)))"
    by (rule dpm_noirq_resume_loop_first)
  show "(dpm_late_early_list s \<noteq> [] \<and> \<not> is_async env s (hd (dpm_late_early_list s)) \<longrightarrow>
        extends dev_level
          (trace (snd (device_resume_early env (hd (dpm_late_early_list s)) state False
                    (async_workers env (list_move_tail (hd (dpm_late_early_list s)) DPM_SUSPENDED_LIST s)))))
          (trace (dpm_resume_early_loop env state s)))"
    by (rule dpm_resume_early_loop_first)
  show "(dpm_suspended_list s \<noteq> [] \<and> \<not> is_async env s (hd (dpm_suspended_list s)) \<longrightarrow>
        extends dev_level
          (trace (snd (device_resume env (hd (dpm_suspended_list s)) state False
                    (async_workers env s))))
          (trace (dpm_resume_loop env state s)))"
    by (rule dpm_resume_loop_first)
  show "(\<not> pm_async_enabled env \<and> async_pending s = [] \<longrightarrow>
        follows (rev (dpm_prepared_list s)) s (snd (dpm_suspend_loop env state error s)))"
    using dpm_suspend_loop_follows [of env s state] by blast
  show "(\<not> pm_async_enabled env \<and> async_pending s = [] \<longrightarrow>
        follows (rev (dpm_suspended_list s)) s (snd (dpm_suspend_late_loop env state error s)))"
    using dpm_suspend_late_loop_follows [of env s state] by blast
  show "(\<not> pm_async_enabled env \<and> async_pending s = [] \<longrightarrow>
        follows (rev (dpm_late_early_list s)) s (snd (dpm_noirq_suspend_loop env state error s)))"
    using dpm_noirq_suspend_loop_follows [of env s state] by blast
  show "follows (rev (dpm_prepared_list s)) s (snd (dpm_complete_loop env state list s))"
    by (rule dpm_complete_loop_follows)
  show "(\<not> pm_async_enabled env \<and> async_pending s = [] \<longrightarrow>
        follows (dpm_noirq_list s) s (dpm_noirq_resume_loop env state s))"
    using dpm_noirq_resume_loop_follows [of env s state] by blast
  show "(\<not> pm_async_enabled env \<and> async_pending s = [] \<longrightarrow>
        follows (dpm_late_early_list s) s (dpm_resume_early_loop env state s))"
    using dpm_resume_early_loop_follows [of env s state] by blast
  show "(\<not> pm_async_enabled env \<and> async_pending s = [] \<longrightarrow>
        follows (dpm_suspended_list s) s (dpm_resume_loop env state s))"
    using dpm_resume_loop_follows [of env s state] by blast
qed

text \<open>
  The witness. With device 1 before device 2 on the list, the loop of \<open>dpm_suspend\<close>
  and the loop of \<open>dpm_complete\<close> deal with device 2 before device 1, and the loop of
  \<open>dpm_resume\<close> with device 1 before device 2.
\<close>

lemma two_devices_on:
  "dpm_prepared_list (two_devices DPM_PREPARED_LIST) = [1, 2]"
  "dpm_suspended_list (two_devices DPM_SUSPENDED_LIST) = [1, 2]"
  "async_pending (two_devices l) = []"
  "\<not> pm_async_enabled plain_env"
  "\<not> is_async plain_env (two_devices l) d"
  "async_workers plain_env (two_devices l) = two_devices l"
  "trace (two_devices l) = []"
  by (cases l; simp add: two_devices_def set_list_def empty_state_def is_async_def plain_env_def
        async_workers_def)+

theorem drain_order_witness:
  "dpm_prepared_list (two_devices DPM_PREPARED_LIST) \<noteq> []
   \<and> \<not> pm_async_enabled plain_env
   \<and> async_pending (two_devices DPM_PREPARED_LIST) = []
   \<and> extends dev_level
       (trace (snd (device_suspend plain_env 2 (two_devices DPM_PREPARED_LIST))))
       (trace (snd (dpm_suspend_loop plain_env PMSG_SUSPEND 0 (two_devices DPM_PREPARED_LIST))))
   \<and> follows [2, 1] (two_devices DPM_PREPARED_LIST)
       (snd (dpm_suspend_loop plain_env PMSG_SUSPEND 0 (two_devices DPM_PREPARED_LIST)))
   \<and> (\<exists>tr. trace (snd (dpm_complete_loop plain_env PMSG_RESUME []
                 (two_devices DPM_PREPARED_LIST)))
          = Trace_device_pm_callback_start 2 (Some []) (event PMSG_RESUME) # tr)
   \<and> follows [2, 1] (two_devices DPM_PREPARED_LIST)
       (snd (dpm_complete_loop plain_env PMSG_RESUME [] (two_devices DPM_PREPARED_LIST)))
   \<and> dpm_suspended_list (two_devices DPM_SUSPENDED_LIST) \<noteq> []
   \<and> \<not> is_async plain_env (two_devices DPM_SUSPENDED_LIST) 1
   \<and> extends dev_level
       (trace (snd (device_resume plain_env 1 PMSG_RESUME False (two_devices DPM_SUSPENDED_LIST))))
       (trace (dpm_resume_loop plain_env PMSG_RESUME (two_devices DPM_SUSPENDED_LIST)))
   \<and> follows [1, 2] (two_devices DPM_SUSPENDED_LIST)
       (dpm_resume_loop plain_env PMSG_RESUME (two_devices DPM_SUSPENDED_LIST))"
  using
    drain_order [where env = plain_env and state = PMSG_SUSPEND and s = "two_devices DPM_PREPARED_LIST"
      and error = 0 and list = "[]", THEN conjunct1]
    drain_order [where env = plain_env and state = PMSG_SUSPEND and s = "two_devices DPM_PREPARED_LIST"
      and error = 0 and list = "[]", THEN conjunct2, THEN conjunct2, THEN conjunct2, THEN conjunct2, THEN conjunct2, THEN conjunct2, THEN conjunct2, THEN conjunct1]
    drain_order [where env = plain_env and state = PMSG_RESUME and s = "two_devices DPM_PREPARED_LIST"
      and error = 0 and list = "[]", THEN conjunct2, THEN conjunct2, THEN conjunct2, THEN conjunct1]
    drain_order [where env = plain_env and state = PMSG_RESUME and s = "two_devices DPM_PREPARED_LIST"
      and error = 0 and list = "[]", THEN conjunct2, THEN conjunct2, THEN conjunct2, THEN conjunct2, THEN conjunct2, THEN conjunct2, THEN conjunct2, THEN conjunct2, THEN conjunct2, THEN conjunct2, THEN conjunct1]
    drain_order [where env = plain_env and state = PMSG_RESUME and s = "two_devices DPM_SUSPENDED_LIST"
      and error = 0 and list = "[]", THEN conjunct2, THEN conjunct2, THEN conjunct2, THEN conjunct2, THEN conjunct2, THEN conjunct2, THEN conjunct1]
    drain_order [where env = plain_env and state = PMSG_RESUME and s = "two_devices DPM_SUSPENDED_LIST"
      and error = 0 and list = "[]", THEN conjunct2, THEN conjunct2, THEN conjunct2, THEN conjunct2, THEN conjunct2, THEN conjunct2, THEN conjunct2, THEN conjunct2, THEN conjunct2, THEN conjunct2, THEN conjunct2, THEN conjunct2, THEN conjunct2]
    two_devices_on
  by simp

text \<open>
  The claim has suspend drain its list from the head. With device 1 at the head and
  device 2 at the tail of \<open>dpm_prepared_list\<close>, the first callback that \<open>dpm_suspend\<close>
  calls is the one of device 2; it fails here, and \<open>dpm_suspend\<close> returns without a call
  for device 1, with both devices still on the list.
\<close>

theorem suspend_takes_the_last_device:
  "dpm_prepared_list (two_devices DPM_PREPARED_LIST) = [1, 2]
   \<and> trace (snd (dpm_suspend (failing_env 11) PMSG_SUSPEND (two_devices DPM_PREPARED_LIST))) =
       [Trace_suspend_resume ''dpm_suspend'' PM_EVENT_SUSPEND True, Ext ''cpufreq_suspend'',
        Trace_device_pm_callback_start 2 (Some ''driver '') PM_EVENT_SUSPEND, Callback 11 2,
        Trace_device_pm_callback_end 2 (- 5), Pm_dev_err 2 PM_EVENT_SUSPEND [] (- 5),
        Trace_suspend_resume ''dpm_suspend'' PM_EVENT_SUSPEND False]
   \<and> dpm_prepared_list (snd (dpm_suspend (failing_env 11) PMSG_SUSPEND
        (two_devices DPM_PREPARED_LIST))) = [1, 2]"
  by code_simp

end
